theory Spec2Isabelle
  imports Complex_Main "HOL-Library.Word"
begin

unbundle bit_operations_syntax

section \<open>Constraint files (file\_formats.c)\<close>

text \<open>
  The loop-context bit masks \<open>VRNA_HC_CONTEXT_*\<close> are declared in a header that is not
  part of the sources at hand; they are taken as a parameter. A C \<open>int\<close> used as a bit
  set is a 32-bit word.
\<close>

record hc_context =
  VRNA_HC_CONTEXT_EXT_LOOP :: "32 word"
  VRNA_HC_CONTEXT_HP_LOOP :: "32 word"
  VRNA_HC_CONTEXT_INT_LOOP :: "32 word"
  VRNA_HC_CONTEXT_INT_LOOP_ENC :: "32 word"
  VRNA_HC_CONTEXT_MB_LOOP :: "32 word"
  VRNA_HC_CONTEXT_MB_LOOP_ENC :: "32 word"
  VRNA_HC_CONTEXT_ALL_LOOPS :: "32 word"
  VRNA_HC_CONTEXT_ENFORCE :: "32 word"

text \<open>The values of these masks in the library's constraint header.\<close>

definition hc_context_lib :: hc_context where
  "hc_context_lib = \<lparr>
     VRNA_HC_CONTEXT_EXT_LOOP = 0x01,
     VRNA_HC_CONTEXT_HP_LOOP = 0x02,
     VRNA_HC_CONTEXT_INT_LOOP = 0x04,
     VRNA_HC_CONTEXT_INT_LOOP_ENC = 0x08,
     VRNA_HC_CONTEXT_MB_LOOP = 0x10,
     VRNA_HC_CONTEXT_MB_LOOP_ENC = 0x20,
     VRNA_HC_CONTEXT_ALL_LOOPS = 0x3F,
     VRNA_HC_CONTEXT_ENFORCE = 0x40 \<rparr>"

text \<open>The \<open>switch(looptype)\<close> of \<open>vrna_read_constraints_file\<close>.\<close>

definition looptype_context :: "hc_context \<Rightarrow> char \<Rightarrow> 32 word" where
  "looptype_context C looptype =
     (if looptype = CHR ''E'' then VRNA_HC_CONTEXT_EXT_LOOP C
      else if looptype = CHR ''H'' then VRNA_HC_CONTEXT_HP_LOOP C
      else if looptype = CHR ''I'' then VRNA_HC_CONTEXT_INT_LOOP C
      else if looptype = CHR ''i'' then VRNA_HC_CONTEXT_INT_LOOP_ENC C
      else if looptype = CHR ''M'' then VRNA_HC_CONTEXT_MB_LOOP C
      else if looptype = CHR ''m'' then VRNA_HC_CONTEXT_MB_LOOP_ENC C
      else VRNA_HC_CONTEXT_ALL_LOOPS C)"

text \<open>
  The chain that follows the switch. Its second test is written
  \<open>else if(command = 'F')\<close>: an assignment, whose value \<open>'F'\<close> is non-zero, so the
  branch is taken for every command other than \<open>'P'\<close> and the two branches after it are
  never reached. The model returns the type and the command as the assignment leaves it.
\<close>

definition command_context :: "hc_context \<Rightarrow> char \<Rightarrow> 32 word \<Rightarrow> 32 word \<times> char" where
  "command_context C command type0 =
     (if command = CHR ''P'' then (NOT type0 AND VRNA_HC_CONTEXT_ALL_LOOPS C, command)
      else (let command' = CHR ''F'' in
            if of_char command' \<noteq> (0::nat) then (type0 OR VRNA_HC_CONTEXT_ENFORCE C, command')
            else if command' = CHR ''U'' \<or> command' = CHR ''B''
                 then (VRNA_HC_CONTEXT_ALL_LOOPS C, command')
            else (type0, command')))"

definition constraint_type :: "hc_context \<Rightarrow> char \<Rightarrow> char \<Rightarrow> 32 word" where
  "constraint_type C command looptype = fst (command_context C command (looptype_context C looptype))"

text \<open>An entry of the returned pair list (\<open>plist\<close>).\<close>

record plist =
  plist_i :: int
  plist_j :: int
  plist_p :: real
  plist_type :: "32 word"

text \<open>
  What \<open>parse_constraints_line\<close> hands back for one line: its return code and the
  fields it filled in (\<open>-1\<close> where nothing was read, \<open>'A'\<close> for the loop type).
\<close>

record parsed_line =
  pl_error :: int
  pl_i :: int
  pl_j :: int
  pl_k :: int
  pl_l :: int
  pl_looptype :: char

datatype cf_event =
    Unrecognized_command nat
  | Wrong_intervals nat
  | No_constraints

text \<open>
  The body of the \<open>if(l != -1)\<close> cascade: only a pair of ranges \<open>i-j\<close>, \<open>k-l\<close> with
  \<open>i < j\<close>, \<open>i < k\<close>, \<open>k < l\<close> appends entries, one for each \<open>(cnt1, cnt2)\<close>, all other
  shapes are left empty by the source.
\<close>

definition range_entries :: "int \<Rightarrow> int \<Rightarrow> int \<Rightarrow> int \<Rightarrow> 32 word \<Rightarrow> plist list" where
  "range_entries i j k l t =
     concat (map (\<lambda>cnt1. map (\<lambda>cnt2. \<lparr>plist_i = cnt1, plist_j = cnt2, plist_p = 0, plist_type = t\<rparr>)
                               [k..l]) [i..j])"

definition constraint_entries ::
  "hc_context \<Rightarrow> nat \<Rightarrow> char \<Rightarrow> parsed_line \<Rightarrow> plist list \<times> cf_event list" where
  "constraint_entries C line_number command r =
     (if pl_error r = 1 then ([], [Unrecognized_command line_number])
      else if pl_error r = 0 then
        (let t = constraint_type C command (pl_looptype r) in
         if pl_l r \<noteq> -1 then
           (if pl_k r \<noteq> -1 then
              (if pl_j r \<noteq> -1 then
                 (if pl_i r \<noteq> -1 then
                    (if pl_i r < pl_j r \<and> pl_i r < pl_k r \<and> pl_k r < pl_l r
                     then (range_entries (pl_i r) (pl_j r) (pl_k r) (pl_l r) t, [])
                     else ([], [Wrong_intervals line_number]))
                  else ([], []))
               else ([], []))
            else ([], []))
         else ([], []))
      else ([], []))"

text \<open>
  The reading loop over the lines of the file. A line of which not even the command
  character can be read (an empty line) is skipped; \<open>parse\<close> stands for
  \<open>parse_constraints_line\<close>, applied to the rest of the line. The list that is returned
  is closed by an all-zero entry.
\<close>

fun read_lines ::
  "hc_context \<Rightarrow> (string \<Rightarrow> char \<Rightarrow> parsed_line) \<Rightarrow> nat \<Rightarrow> string list \<Rightarrow> plist list \<times> cf_event list" where
  "read_lines C parse line_number [] = ([], [])"
| "read_lines C parse line_number (line # rest) =
     (case line of
        [] \<Rightarrow> read_lines C parse (Suc line_number) rest
      | command # args \<Rightarrow>
          (let (es, ws) = constraint_entries C (Suc line_number) command (parse args command);
               (es', ws') = read_lines C parse (Suc line_number) rest
           in (es @ es', ws @ ws')))"

definition vrna_read_constraints_file ::
  "hc_context \<Rightarrow> (string \<Rightarrow> char \<Rightarrow> parsed_line) \<Rightarrow> string list \<Rightarrow> plist list \<times> cf_event list" where
  "vrna_read_constraints_file C parse file_lines =
     (let (es, ws) = read_lines C parse 0 file_lines
      in (es @ [\<lparr>plist_i = 0, plist_j = 0, plist_p = 0, plist_type = 0\<rparr>],
          ws @ (if es = [] then [No_constraints] else [])))"

section \<open>Partition function (part\_func.c): data\<close>

text \<open>
  \<open>FLT_OR_DBL\<close>, \<open>double\<close> and \<open>float\<close> are idealised as real numbers; C \<open>int\<close>
  indices are integers; an array is a function from its index. A pointer that the code
  tests against \<open>NULL\<close> is an option; a callback that receives the fold compound itself
  is a flag in the compound and a function among the collaborators below.
\<close>

datatype vrna_fc_type_e =
    VRNA_VC_TYPE_SINGLE
  | VRNA_VC_TYPE_ALIGNMENT
  | VRNA_VC_TYPE_unrecognized int

datatype vrna_decomp =
    VRNA_DECOMP_EXT_UP
  | VRNA_DECOMP_EXT_EXT
  | VRNA_DECOMP_EXT_STEM
  | VRNA_DECOMP_EXT_EXT_EXT
  | VRNA_DECOMP_ML_ML
  | VRNA_DECOMP_ML_STEM
  | VRNA_DECOMP_ML_ML_ML

datatype ud_flag =
    VRNA_UNSTRUCTURED_DOMAIN_EXT_LOOP
  | VRNA_UNSTRUCTURED_DOMAIN_ML_LOOP
  | VRNA_UNSTRUCTURED_DOMAIN_MOTIF

datatype vrna_status = VRNA_STATUS_PF_PRE | VRNA_STATUS_PF_POST

datatype pf_event =
    Status_callback vrna_status
  | Warning string
  | Warning_Q_close_to_overflow int int real

datatype pf_error =
    Overflow_in_pf_fold int int
  | Null_dereference string

record vrna_md_t =
  md_circ :: int
  md_gquad :: int
  md_min_loop_size :: int
  md_backtrack_type :: char
  md_compute_bpp :: int
  md_rtype :: "int \<Rightarrow> int"
  md_pair :: "int \<Rightarrow> int \<Rightarrow> int"

record vrna_exp_param_t =
  ep_model_details :: vrna_md_t
  ep_pf_scale :: real
  ep_kT :: real
  ep_expMLclosing :: real

record vrna_mx_pf_t =
  mx_q :: "int \<Rightarrow> real"
  mx_qb :: "int \<Rightarrow> real"
  mx_qm :: "int \<Rightarrow> real"
  mx_qm1 :: "(int \<Rightarrow> real) option"
  mx_qm2 :: "int \<Rightarrow> real"
  mx_G :: "int \<Rightarrow> real"
  mx_q1k :: "(int \<Rightarrow> real) option"
  mx_qln :: "(int \<Rightarrow> real) option"
  mx_probs :: "int \<Rightarrow> real"
  mx_scale :: "int \<Rightarrow> real"
  mx_expMLbase :: "int \<Rightarrow> real"
  mx_qo :: real
  mx_qho :: real
  mx_qio :: real
  mx_qmo :: real

record vrna_hc_t =
  hc_matrix :: "int \<Rightarrow> 8 word"
  hc_up_ext :: "int \<Rightarrow> int"
  hc_up_hp :: "int \<Rightarrow> int"
  hc_up_int :: "int \<Rightarrow> int"
  hc_up_ml :: "int \<Rightarrow> int"

record vrna_sc_t =
  sc_exp_energy_up :: "(int \<Rightarrow> int \<Rightarrow> real) option"
  sc_exp_energy_stack :: "(int \<Rightarrow> real) option"
  sc_exp_f :: "(int \<Rightarrow> int \<Rightarrow> int \<Rightarrow> int \<Rightarrow> vrna_decomp \<Rightarrow> real) option"

record vrna_ud_t =
  ud_exp_energy_cb_set :: bool
  ud_exp_prod_cb_set :: bool
  ud_data :: nat
  ud_uniq_motif_count :: int
  ud_uniq_motif_size :: "int \<Rightarrow> int"

record vrna_fold_compound_t =
  vc_type :: vrna_fc_type_e
  vc_length :: int
  vc_n_seq :: int
  vc_iindx :: "int \<Rightarrow> int"
  vc_jindx :: "int \<Rightarrow> int"
  vc_ptype :: "int \<Rightarrow> int"
  vc_sequence_encoding :: "int \<Rightarrow> int"
  vc_sequence_encoding2 :: "int \<Rightarrow> int"
  vc_S :: "int \<Rightarrow> int \<Rightarrow> int"
  vc_S5 :: "int \<Rightarrow> int \<Rightarrow> int"
  vc_S3 :: "int \<Rightarrow> int \<Rightarrow> int"
  vc_Ss :: "int \<Rightarrow> string"
  vc_a2s :: "int \<Rightarrow> int \<Rightarrow> int"
  vc_pscore :: "int \<Rightarrow> int"
  vc_exp_params :: vrna_exp_param_t
  vc_exp_matrices :: vrna_mx_pf_t
  vc_hc :: vrna_hc_t
  vc_sc :: "vrna_sc_t option"
  vc_scs :: "(int \<Rightarrow> vrna_sc_t option) option"
  vc_domains_up :: "vrna_ud_t option"
  vc_stat_cb_set :: bool

text \<open>
  The collaborators of the recursions: the loop-weight functions of the energy model, the
  set-up and the probability derivation, the callbacks of the unstructured domains, and
  the constants of headers that are not at hand (\<open>TURN\<close>, \<open>MAXLOOP\<close>, \<open>INF\<close> as \<open>c_INF\<close>,
  \<open>FLT_MIN\<close>, the constraint context masks, and \<open>max_real\<close>, which is \<open>FLT_MAX\<close> or
  \<open>DBL_MAX\<close> according to the size of \<open>FLT_OR_DBL\<close>). All are parameters.
\<close>

record collaborators =
  vrna_exp_E_hp_loop :: "vrna_fold_compound_t \<Rightarrow> int \<Rightarrow> int \<Rightarrow> real"
  vrna_exp_E_int_loop :: "vrna_fold_compound_t \<Rightarrow> int \<Rightarrow> int \<Rightarrow> real"
  vrna_exp_E_mb_loop_fast :: "vrna_fold_compound_t \<Rightarrow> int \<Rightarrow> int \<Rightarrow> (int \<Rightarrow> real) \<Rightarrow> real"
  exp_E_MLstem :: "int \<Rightarrow> int \<Rightarrow> int \<Rightarrow> vrna_exp_param_t \<Rightarrow> real"
  exp_E_ExtLoop :: "int \<Rightarrow> int \<Rightarrow> int \<Rightarrow> vrna_exp_param_t \<Rightarrow> real"
  exp_E_IntLoop :: "int \<Rightarrow> int \<Rightarrow> int \<Rightarrow> int \<Rightarrow> int \<Rightarrow> int \<Rightarrow> int \<Rightarrow> int \<Rightarrow> vrna_exp_param_t \<Rightarrow> real"
  exp_E_Hairpin :: "int \<Rightarrow> int \<Rightarrow> int \<Rightarrow> int \<Rightarrow> string \<Rightarrow> vrna_exp_param_t \<Rightarrow> real"
  get_gquad_pf_matrix :: "(int \<Rightarrow> int) \<Rightarrow> (int \<Rightarrow> real) \<Rightarrow> vrna_exp_param_t \<Rightarrow> (int \<Rightarrow> real)"
  vrna_fold_compound_prepare :: "vrna_fold_compound_t \<Rightarrow> vrna_fold_compound_t"
  vrna_pairing_probs :: "vrna_fold_compound_t \<Rightarrow> string option \<Rightarrow> (int \<Rightarrow> real) \<times> string option"
  ud_exp_energy_cb :: "vrna_fold_compound_t \<Rightarrow> int \<Rightarrow> int \<Rightarrow> ud_flag set \<Rightarrow> real"
  ud_exp_prod_cb :: "vrna_fold_compound_t \<Rightarrow> nat \<Rightarrow> nat"
  TURN :: int
  MAXLOOP :: int
  c_INF :: int
  FLT_MIN :: real
  max_real :: real
  VRNA_CONSTRAINT_CONTEXT_EXT_LOOP :: "8 word"
  VRNA_CONSTRAINT_CONTEXT_HP_LOOP :: "8 word"
  VRNA_CONSTRAINT_CONTEXT_INT_LOOP :: "8 word"
  VRNA_CONSTRAINT_CONTEXT_MB_LOOP_ENC :: "8 word"

text \<open>
  The state of a linear pass: the fold compound whose matrices are being filled, the
  helper arrays, and the pass's scalars. The helper arrays live in a store of their own,
  addressed by allocation number, and \<open>qq\<close>, \<open>qq1\<close>, \<open>qqm\<close>, \<open>qqm1\<close>, \<open>qqu[u]\<close>,
  \<open>qqmu[u]\<close> are pointers into it, so that exchanging two pointers is visibly not a copy.
\<close>

record pf_state =
  st_vc :: vrna_fold_compound_t
  st_heap :: "nat \<Rightarrow> int \<Rightarrow> real"
  st_qq :: nat
  st_qq1 :: nat
  st_qqm :: nat
  st_qqm1 :: nat
  st_qqu :: "int \<Rightarrow> nat"
  st_qqmu :: "int \<Rightarrow> nat"
  st_ud_max_size :: int
  st_expMLstem :: real
  st_Qmax :: real
  st_log :: "pf_event list"

type_synonym 'a pf_result = "(pf_error \<times> pf_event list) + 'a"

subsection \<open>Small helpers\<close>

definition MIN2 :: "int \<Rightarrow> int \<Rightarrow> int" where
  "MIN2 a b = (if a < b then a else b)"

definition unsigned_char :: "int \<Rightarrow> int" where
  "unsigned_char c = c mod 256"

definition rd :: "(nat \<Rightarrow> int \<Rightarrow> real) \<Rightarrow> nat \<Rightarrow> int \<Rightarrow> real" where
  "rd h p i = h p i"

definition wr :: "(nat \<Rightarrow> int \<Rightarrow> real) \<Rightarrow> nat \<Rightarrow> int \<Rightarrow> real \<Rightarrow> (nat \<Rightarrow> int \<Rightarrow> real)" where
  "wr h p i v = h(p := (h p)(i := v))"

definition set_q :: "vrna_fold_compound_t \<Rightarrow> int \<Rightarrow> real \<Rightarrow> vrna_fold_compound_t" where
  "set_q vc ij v =
     vc\<lparr>vc_exp_matrices := (vc_exp_matrices vc)\<lparr>mx_q := (mx_q (vc_exp_matrices vc))(ij := v)\<rparr>\<rparr>"

definition set_qb :: "vrna_fold_compound_t \<Rightarrow> int \<Rightarrow> real \<Rightarrow> vrna_fold_compound_t" where
  "set_qb vc ij v =
     vc\<lparr>vc_exp_matrices := (vc_exp_matrices vc)\<lparr>mx_qb := (mx_qb (vc_exp_matrices vc))(ij := v)\<rparr>\<rparr>"

definition set_qm :: "vrna_fold_compound_t \<Rightarrow> int \<Rightarrow> real \<Rightarrow> vrna_fold_compound_t" where
  "set_qm vc ij v =
     vc\<lparr>vc_exp_matrices := (vc_exp_matrices vc)\<lparr>mx_qm := (mx_qm (vc_exp_matrices vc))(ij := v)\<rparr>\<rparr>"

text \<open>\<open>if (qm1) qm1[idx] = v\<close>\<close>

definition set_qm1 :: "vrna_fold_compound_t \<Rightarrow> int \<Rightarrow> real \<Rightarrow> vrna_fold_compound_t" where
  "set_qm1 vc idx v =
     (case mx_qm1 (vc_exp_matrices vc) of
        None \<Rightarrow> vc
      | Some a \<Rightarrow> vc\<lparr>vc_exp_matrices := (vc_exp_matrices vc)\<lparr>mx_qm1 := Some (a(idx := v))\<rparr>\<rparr>)"

definition with_ud :: "vrna_fold_compound_t \<Rightarrow> bool" where
  "with_ud vc = (case vc_domains_up vc of None \<Rightarrow> False | Some d \<Rightarrow> ud_exp_energy_cb_set d)"

definition motif_count :: "vrna_fold_compound_t \<Rightarrow> int" where
  "motif_count vc = (case vc_domains_up vc of None \<Rightarrow> 0 | Some d \<Rightarrow> ud_uniq_motif_count d)"

definition motif_size :: "vrna_fold_compound_t \<Rightarrow> int \<Rightarrow> int" where
  "motif_size vc cnt = (case vc_domains_up vc of None \<Rightarrow> 0 | Some d \<Rightarrow> ud_uniq_motif_size d cnt)"

text \<open>\<open>if(sc) if(sc->exp_energy_up) x *= sc->exp_energy_up[i][u]\<close>\<close>

definition mul_sc_up :: "vrna_sc_t option \<Rightarrow> int \<Rightarrow> int \<Rightarrow> real \<Rightarrow> real" where
  "mul_sc_up sc i u x =
     (case sc of None \<Rightarrow> x
      | Some c \<Rightarrow> (case sc_exp_energy_up c of None \<Rightarrow> x | Some e \<Rightarrow> x * e i u))"

text \<open>\<open>if(sc) if(sc->exp_f) x *= sc->exp_f(i, j, k, l, d, sc->data)\<close>\<close>

definition mul_sc_f :: "vrna_sc_t option \<Rightarrow> int \<Rightarrow> int \<Rightarrow> int \<Rightarrow> int \<Rightarrow> vrna_decomp \<Rightarrow> real \<Rightarrow> real" where
  "mul_sc_f sc i j k l d x =
     (case sc of None \<Rightarrow> x
      | Some c \<Rightarrow> (case sc_exp_f c of None \<Rightarrow> x | Some f \<Rightarrow> x * f i j k l d))"

text \<open>\<open>sc && sc->exp_f\<close>\<close>

definition sc_has_f :: "vrna_sc_t option \<Rightarrow> bool" where
  "sc_has_f sc = (case sc of None \<Rightarrow> False | Some c \<Rightarrow> sc_exp_f c \<noteq> None)"

text \<open>
  The pair type of \<open>(i,j)\<close> as the single-sequence pass reads it:
  \<open>type = (unsigned char)ptype[jindx[j] + i]; if(type == 0) type = 7;\<close>
\<close>

definition pair_type :: "vrna_fold_compound_t \<Rightarrow> int \<Rightarrow> int \<Rightarrow> int" where
  "pair_type vc i j =
     (let type = unsigned_char (vc_ptype vc (vc_jindx vc j + i))
      in if type = 0 then 7 else type)"

text \<open>The neighbours handed to the stem weights: \<open>((i>1) || circular) ? S1[i-1] : -1\<close>.\<close>

definition nb5 :: "vrna_fold_compound_t \<Rightarrow> int \<Rightarrow> int" where
  "nb5 vc i =
     (if 1 < i \<or> md_circ (ep_model_details (vc_exp_params vc)) \<noteq> 0
      then vc_sequence_encoding vc (i - 1) else -1)"

definition nb3 :: "vrna_fold_compound_t \<Rightarrow> int \<Rightarrow> int" where
  "nb3 vc j =
     (if j < vc_length vc \<or> md_circ (ep_model_details (vc_exp_params vc)) \<noteq> 0
      then vc_sequence_encoding vc (j + 1) else -1)"

text \<open>A loop that can abort: the first error ends it.\<close>

fun for_each :: "('a \<Rightarrow> 's \<Rightarrow> 'e + 's) \<Rightarrow> 'a list \<Rightarrow> 's \<Rightarrow> 'e + 's" where
  "for_each f [] s = Inr s"
| "for_each f (x # xs) s = (case f x s of Inl e \<Rightarrow> Inl e | Inr s' \<Rightarrow> for_each f xs s')"

section \<open>The single-sequence linear pass (\<open>pf_linear\<close>)\<close>

text \<open>
  The body of the inner loop, for one interval \<open>(i,j)\<close>, in the order of the source:
  \<open>qb\<close>, then \<open>qqm\<close> and \<open>qm1\<close>, then \<open>qm\<close>, then \<open>qq\<close>, then \<open>q\<close> and the
  overflow checks.
\<close>

text \<open>\<open>qb(i,j)\<close>: zero unless the hard constraints allow the pair.\<close>

definition pf_linear_qbt1 :: "collaborators \<Rightarrow> int \<Rightarrow> int \<Rightarrow> pf_state \<Rightarrow> real" where
  "pf_linear_qbt1 env i j s =
     (let vc = st_vc s;
          hc_decompose = hc_matrix (vc_hc vc) (vc_jindx vc j + i);
          qbt1 = 0
      in if hc_decompose \<noteq> 0
         then qbt1 + vrna_exp_E_hp_loop env vc i j
                   + vrna_exp_E_int_loop env vc i j
                   + vrna_exp_E_mb_loop_fast env vc i j (st_heap s (st_qqm1 s))
         else qbt1)"

definition pf_linear_qb :: "collaborators \<Rightarrow> int \<Rightarrow> int \<Rightarrow> pf_state \<Rightarrow> pf_state" where
  "pf_linear_qb env i j s =
     s\<lparr>st_vc := set_qb (st_vc s) (vc_iindx (st_vc s) i - j) (pf_linear_qbt1 env i j s)\<rparr>"

text \<open>
  One motif of the unstructured domains in the multiloop extension:
  \<open>u = uniq_motif_size[cnt]\<close>, and if the motif fits, \<open>q_temp += q_temp2\<close>.
\<close>

definition ml_motif :: "collaborators \<Rightarrow> vrna_fold_compound_t \<Rightarrow> (nat \<Rightarrow> int \<Rightarrow> real) \<Rightarrow> (int \<Rightarrow> nat)
    \<Rightarrow> int \<Rightarrow> int \<Rightarrow> int \<Rightarrow> real \<Rightarrow> real" where
  "ml_motif env vc h qqmu i j cnt q_temp =
     (let u = motif_size vc cnt in
      if j - u \<ge> i then
        (if hc_up_ml (vc_hc vc) (j - u + 1) \<ge> u then
           (let q_temp2 = rd h (qqmu u) i
                          * ud_exp_energy_cb env vc (j - u + 1) j
                              {VRNA_UNSTRUCTURED_DOMAIN_ML_LOOP, VRNA_UNSTRUCTURED_DOMAIN_MOTIF}
                          * mx_expMLbase (vc_exp_matrices vc) u;
                q_temp2 = mul_sc_up (vc_sc vc) (j - u + 1) u q_temp2
            in q_temp + q_temp2)
         else q_temp)
      else q_temp)"

text \<open>The helper arrays after \<open>qqm[i]\<close> (and \<open>qqmu[0][i]\<close>) have been computed.\<close>

definition pf_linear_qqm_heap :: "collaborators \<Rightarrow> int \<Rightarrow> int \<Rightarrow> pf_state \<Rightarrow> (nat \<Rightarrow> int \<Rightarrow> real)" where
  "pf_linear_qqm_heap env i j s =
     (let vc = st_vc s;
          mx = vc_exp_matrices vc;
          sc = vc_sc vc;
          ij = vc_iindx vc i - j;
          type = pair_type vc i j;
          hc_decompose = hc_matrix (vc_hc vc) (vc_jindx vc j + i);
          h = wr (st_heap s) (st_qqm s) i 0;
          h = (if with_ud vc then wr h (st_qqmu s 0) i 0 else h);
          h = (if hc_up_ml (vc_hc vc) j \<noteq> 0 then
                 (let q_temp = rd h (st_qqm1 s) i * mx_expMLbase mx 1;
                      q_temp = mul_sc_up sc j 1 q_temp;
                      q_temp = mul_sc_f sc i j i (j - 1) VRNA_DECOMP_ML_ML q_temp;
                      q_temp = (if with_ud vc
                                then fold (ml_motif env vc h (st_qqmu s) i j) [0..motif_count vc - 1] q_temp
                                else q_temp);
                      h = (if with_ud vc then wr h (st_qqmu s 0) i q_temp else h)
                  in wr h (st_qqm s) i q_temp)
               else h);
          h = (if hc_decompose AND VRNA_CONSTRAINT_CONTEXT_MB_LOOP_ENC env \<noteq> 0 then
                 (let qbt1 = mx_qb mx ij * exp_E_MLstem env type (nb5 vc i) (nb3 vc j) (vc_exp_params vc);
                      qbt1 = mul_sc_f sc i j i j VRNA_DECOMP_ML_STEM qbt1;
                      h = wr h (st_qqm s) i (rd h (st_qqm s) i + qbt1)
                  in if with_ud vc then wr h (st_qqmu s 0) i (rd h (st_qqmu s 0) i + qbt1) else h)
               else h);
          h = (if md_gquad (ep_model_details (vc_exp_params vc)) \<noteq> 0 then
                 (let g = mx_G mx (vc_iindx vc i - j) * st_expMLstem s;
                      h = wr h (st_qqm s) i (rd h (st_qqm s) i + g)
                  in if with_ud vc then wr h (st_qqmu s 0) i (rd h (st_qqmu s 0) i + g) else h)
               else h)
      in h)"

text \<open>\<open>if (qm1) qm1[jindx[j]+i] = qqm[i];\<close>\<close>

definition pf_linear_qqm :: "collaborators \<Rightarrow> int \<Rightarrow> int \<Rightarrow> pf_state \<Rightarrow> pf_state" where
  "pf_linear_qqm env i j s =
     (let h = pf_linear_qqm_heap env i j s
      in s\<lparr>st_vc := set_qm1 (st_vc s) (vc_jindx (st_vc s) j + i) (rd h (st_qqm s) i), st_heap := h\<rparr>)"

text \<open>
  \<open>qm(i,j)\<close>. The first loop runs \<open>k\<close> from \<open>j\<close> down to \<open>i+1\<close> with \<open>kl\<close> counting up
  from \<open>my_iindx[i] - j + 1\<close>; the second runs \<open>k\<close> from \<open>maxk\<close> down to \<open>i+1\<close> with
  \<open>ii\<close> counting down from \<open>maxk - i\<close>. Both are written out in the source once with and
  once without the soft-constraint (and ligand) factors.
\<close>

definition qm_split_step :: "vrna_fold_compound_t \<Rightarrow> (int \<Rightarrow> real) \<Rightarrow> int \<Rightarrow> int \<Rightarrow> int
    \<Rightarrow> real \<times> int \<Rightarrow> real \<times> int" where
  "qm_split_step vc qqm i j k = (\<lambda>(temp, kl).
     (if sc_has_f (vc_sc vc) then
        (let q_temp = mx_qm (vc_exp_matrices vc) kl * qqm k;
             q_temp = mul_sc_f (vc_sc vc) i j (k - 1) k VRNA_DECOMP_ML_ML_ML q_temp
         in (temp + q_temp, kl + 1))
      else (temp + mx_qm (vc_exp_matrices vc) kl * qqm k, kl + 1)))"

definition qm_unpaired_step :: "collaborators \<Rightarrow> vrna_fold_compound_t \<Rightarrow> (int \<Rightarrow> real) \<Rightarrow> int \<Rightarrow> int \<Rightarrow> int
    \<Rightarrow> real \<times> int \<Rightarrow> real \<times> int" where
  "qm_unpaired_step env vc qqm i j k = (\<lambda>(temp, ii).
     (if with_ud vc then
        (if vc_sc vc \<noteq> None then
           (let q_temp = mx_expMLbase (vc_exp_matrices vc) ii
                         * ud_exp_energy_cb env vc i (k - 1) {VRNA_UNSTRUCTURED_DOMAIN_ML_LOOP}
                         * qqm k;
                q_temp = mul_sc_up (vc_sc vc) i ii q_temp;
                q_temp = mul_sc_f (vc_sc vc) i j k j VRNA_DECOMP_ML_ML q_temp
            in (temp + q_temp, ii - 1))
         else (temp + mx_expMLbase (vc_exp_matrices vc) ii
                      * ud_exp_energy_cb env vc i (k - 1) {VRNA_UNSTRUCTURED_DOMAIN_ML_LOOP}
                      * qqm k, ii - 1))
      else
        (if vc_sc vc \<noteq> None then
           (let q_temp = mx_expMLbase (vc_exp_matrices vc) ii * qqm k;
                q_temp = mul_sc_up (vc_sc vc) i ii q_temp;
                q_temp = mul_sc_f (vc_sc vc) i j k j VRNA_DECOMP_ML_ML q_temp
            in (temp + q_temp, ii - 1))
         else (temp + mx_expMLbase (vc_exp_matrices vc) ii * qqm k, ii - 1))))"

definition pf_linear_qm_temp :: "collaborators \<Rightarrow> int \<Rightarrow> int \<Rightarrow> pf_state \<Rightarrow> real" where
  "pf_linear_qm_temp env i j s =
     (let vc = st_vc s;
          qqm = st_heap s (st_qqm s);
          temp = 0;
          kl = vc_iindx vc i - j + 1;
          temp = fst (fold (qm_split_step vc qqm i j) (rev [i + 1..j]) (temp, kl));
          maxk = MIN2 (i + hc_up_ml (vc_hc vc) i) j;
          ii = maxk - i;
          temp = fst (fold (qm_unpaired_step env vc qqm i j) (rev [i + 1..maxk]) (temp, ii))
      in temp + qqm i)"

definition pf_linear_qm :: "collaborators \<Rightarrow> int \<Rightarrow> int \<Rightarrow> pf_state \<Rightarrow> pf_state" where
  "pf_linear_qm env i j s =
     s\<lparr>st_vc := set_qm (st_vc s) (vc_iindx (st_vc s) i - j) (pf_linear_qm_temp env i j s)\<rparr>"

text \<open>One motif of the unstructured domains in the exterior extension.\<close>

definition ext_motif :: "collaborators \<Rightarrow> vrna_fold_compound_t \<Rightarrow> (nat \<Rightarrow> int \<Rightarrow> real) \<Rightarrow> (int \<Rightarrow> nat)
    \<Rightarrow> int \<Rightarrow> int \<Rightarrow> int \<Rightarrow> real \<Rightarrow> real" where
  "ext_motif env vc h qqu i j cnt q_temp =
     (let u = motif_size vc cnt in
      if j - u \<ge> i then
        (if hc_up_ext (vc_hc vc) (j - u + 1) \<ge> u then
           (let q_temp2 = rd h (qqu u) i
                          * ud_exp_energy_cb env vc (j - u + 1) j
                              {VRNA_UNSTRUCTURED_DOMAIN_EXT_LOOP, VRNA_UNSTRUCTURED_DOMAIN_MOTIF}
                          * mx_scale (vc_exp_matrices vc) u;
                q_temp2 = mul_sc_up (vc_sc vc) (j - u + 1) u q_temp2
            in q_temp + q_temp2)
         else q_temp)
      else q_temp)"

text \<open>The value of \<open>qq[i]\<close>.\<close>

definition pf_linear_qq_qbt1 :: "collaborators \<Rightarrow> int \<Rightarrow> int \<Rightarrow> pf_state \<Rightarrow> real" where
  "pf_linear_qq_qbt1 env i j s =
     (let vc = st_vc s;
          mx = vc_exp_matrices vc;
          sc = vc_sc vc;
          h = st_heap s;
          ij = vc_iindx vc i - j;
          type = pair_type vc i j;
          hc_decompose = hc_matrix (vc_hc vc) (vc_jindx vc j + i);
          qbt1 = 0;
          qbt1 = (if hc_up_ext (vc_hc vc) j \<noteq> 0 then
                    (let q_temp = rd h (st_qq1 s) i * mx_scale mx 1;
                         q_temp = mul_sc_up sc j 1 q_temp;
                         q_temp = mul_sc_f sc i j i (j - 1) VRNA_DECOMP_EXT_EXT q_temp;
                         q_temp = (if with_ud vc
                                   then fold (ext_motif env vc h (st_qqu s) i j) [0..motif_count vc - 1] q_temp
                                   else q_temp)
                     in qbt1 + q_temp)
                  else qbt1);
          qbt1 = (if hc_decompose AND VRNA_CONSTRAINT_CONTEXT_EXT_LOOP env \<noteq> 0 then
                    (let q_temp = mx_qb mx ij * exp_E_ExtLoop env type (nb5 vc i) (nb3 vc j) (vc_exp_params vc);
                         q_temp = mul_sc_f sc i j i j VRNA_DECOMP_EXT_STEM q_temp
                     in qbt1 + q_temp)
                  else qbt1);
          qbt1 = (if md_gquad (ep_model_details (vc_exp_params vc)) \<noteq> 0 then qbt1 + mx_G mx ij else qbt1)
      in qbt1)"

text \<open>\<open>qq[i] = qbt1; if(with_ud) qqu[0][i] = qbt1;\<close>\<close>

definition pf_linear_qq :: "collaborators \<Rightarrow> int \<Rightarrow> int \<Rightarrow> pf_state \<Rightarrow> pf_state" where
  "pf_linear_qq env i j s =
     (let qbt1 = pf_linear_qq_qbt1 env i j s;
          h = wr (st_heap s) (st_qq s) i qbt1;
          h = (if with_ud (st_vc s) then wr h (st_qqu s 0) i qbt1 else h)
      in s\<lparr>st_heap := h\<rparr>)"

text \<open>
  The weight of the stretch \<open>[i,j]\<close> left entirely unpaired, which enters \<open>q(i,j)\<close> when
  \<open>hc_up_ext[i] >= j - i + 1\<close>.
\<close>

definition ext_unpaired :: "collaborators \<Rightarrow> vrna_fold_compound_t \<Rightarrow> int \<Rightarrow> int \<Rightarrow> real" where
  "ext_unpaired env vc i j =
     (let u = j - i + 1;
          q_temp = 1.0 * mx_scale (vc_exp_matrices vc) u;
          q_temp = mul_sc_up (vc_sc vc) i u q_temp;
          q_temp = mul_sc_f (vc_sc vc) i j i j VRNA_DECOMP_EXT_UP q_temp
      in if with_ud vc
         then q_temp * ud_exp_energy_cb env vc i j {VRNA_UNSTRUCTURED_DOMAIN_EXT_LOOP}
         else q_temp)"

text \<open>The split loop of \<open>q(i,j)\<close>: \<open>k\<close> from \<open>i\<close> to \<open>j-1\<close>, \<open>kl\<close> counting down from \<open>my_iindx[i] - i\<close>.\<close>

definition q_split_step :: "vrna_fold_compound_t \<Rightarrow> (int \<Rightarrow> real) \<Rightarrow> int \<Rightarrow> int \<Rightarrow> int
    \<Rightarrow> real \<times> int \<Rightarrow> real \<times> int" where
  "q_split_step vc qq i j k = (\<lambda>(temp, kl).
     (if sc_has_f (vc_sc vc) then
        (let q_temp = mx_q (vc_exp_matrices vc) kl * qq (k + 1);
             q_temp = mul_sc_f (vc_sc vc) i j k (k + 1) VRNA_DECOMP_EXT_EXT_EXT q_temp
         in (temp + q_temp, kl - 1))
      else (temp + mx_q (vc_exp_matrices vc) kl * qq (k + 1), kl - 1)))"

text \<open>The value \<open>temp\<close> that is stored to \<open>q[ij]\<close>.\<close>

definition pf_linear_q_temp :: "collaborators \<Rightarrow> int \<Rightarrow> int \<Rightarrow> pf_state \<Rightarrow> real" where
  "pf_linear_q_temp env i j s =
     (let vc = st_vc s;
          qq = st_heap s (st_qq s);
          temp = qq i;
          u = j - i + 1;
          temp = (if hc_up_ext (vc_hc vc) i \<ge> u then temp + ext_unpaired env vc i j else temp);
          kl = vc_iindx vc i - i
      in fst (fold (q_split_step vc qq i j) [i..j - 1] (temp, kl)))"

definition pf_linear_q :: "collaborators \<Rightarrow> int \<Rightarrow> int \<Rightarrow> pf_state \<Rightarrow> pf_state" where
  "pf_linear_q env i j s =
     s\<lparr>st_vc := set_q (st_vc s) (vc_iindx (st_vc s) i - j) (pf_linear_q_temp env i j s)\<rparr>"

text \<open>
  The checks after \<open>q[ij] = temp\<close>. \<open>vrna_message_warning_printf\<close> prints and returns;
  \<open>vrna_message_error_printf\<close> prints and ends the program, which is the error value
  here, together with what was logged before it.
\<close>

definition overflow_check :: "collaborators \<Rightarrow> int \<Rightarrow> int \<Rightarrow> real \<Rightarrow> pf_state \<Rightarrow> pf_state pf_result" where
  "overflow_check env i j temp s =
     (let s = (if temp > st_Qmax s then
                 (let s = s\<lparr>st_Qmax := temp\<rparr> in
                  if st_Qmax s > max_real env / 10
                  then s\<lparr>st_log := st_log s @ [Warning_Q_close_to_overflow i j temp]\<rparr>
                  else s)
               else s)
      in if temp \<ge> max_real env then Inl (Overflow_in_pf_fold i j, st_log s) else Inr s)"

text \<open>The state when \<open>qb\<close>, \<open>qqm\<close>, \<open>qm1\<close>, \<open>qm\<close> and \<open>qq\<close> of the interval are in place.\<close>

definition pf_linear_upto_qq :: "collaborators \<Rightarrow> int \<Rightarrow> int \<Rightarrow> pf_state \<Rightarrow> pf_state" where
  "pf_linear_upto_qq env i j s =
     (let s = pf_linear_qb env i j s;
          s = pf_linear_qqm env i j s;
          s = pf_linear_qm env i j s
      in pf_linear_qq env i j s)"

text \<open>The state when \<open>q[ij]\<close> has been stored as well, before the checks.\<close>

definition pf_linear_stored :: "collaborators \<Rightarrow> int \<Rightarrow> int \<Rightarrow> pf_state \<Rightarrow> pf_state" where
  "pf_linear_stored env i j s = pf_linear_q env i j (pf_linear_upto_qq env i j s)"

definition pf_linear_cell :: "collaborators \<Rightarrow> int \<Rightarrow> int \<Rightarrow> pf_state \<Rightarrow> pf_state pf_result" where
  "pf_linear_cell env j i s =
     (let temp = pf_linear_q_temp env i j (pf_linear_upto_qq env i j s)
      in overflow_check env i j temp (pf_linear_stored env i j s))"

text \<open>
  After the inner loop of a column the helper arrays are exchanged:
  \<open>tmp = qq1; qq1 = qq; qq = tmp; tmp = qqm1; qqm1 = qqm; qqm = tmp;\<close>.
  Only the four pointers change.
\<close>

definition swap_buffers :: "pf_state \<Rightarrow> pf_state" where
  "swap_buffers s =
     (let tmp = st_qq1 s;
          s = s\<lparr>st_qq1 := st_qq s\<rparr>;
          s = s\<lparr>st_qq := tmp\<rparr>;
          tmp = st_qqm1 s;
          s = s\<lparr>st_qqm1 := st_qqm s\<rparr>
      in s\<lparr>st_qqm := tmp\<rparr>)"

text \<open>
  \<open>tmp = a[ud_max_size]; for(u = ud_max_size; u > 0; u--) a[u] = a[u - 1]; a[0] = tmp;\<close>
\<close>

definition rotate_pointers :: "int \<Rightarrow> (int \<Rightarrow> nat) \<Rightarrow> (int \<Rightarrow> nat)" where
  "rotate_pointers ud_max_size a =
     (let tmp = a ud_max_size;
          a = fold (\<lambda>u a. a(u := a (u - 1))) (rev [1..ud_max_size]) a
      in a(0 := tmp))"

definition rotate_ud :: "pf_state \<Rightarrow> pf_state" where
  "rotate_ud s =
     (if with_ud (st_vc s)
      then s\<lparr>st_qqu := rotate_pointers (st_ud_max_size s) (st_qqu s),
             st_qqmu := rotate_pointers (st_ud_max_size s) (st_qqmu s)\<rparr>
      else s)"

text \<open>The inner loop of column \<open>j\<close>: \<open>i\<close> from \<open>j - turn - 1\<close> down to \<open>1\<close>.\<close>

definition pf_linear_inner :: "collaborators \<Rightarrow> int \<Rightarrow> pf_state \<Rightarrow> pf_state pf_result" where
  "pf_linear_inner env j s =
     (let turn = md_min_loop_size (ep_model_details (vc_exp_params (st_vc s)))
      in for_each (pf_linear_cell env j) (rev [1..j - turn - 1]) s)"

definition pf_linear_column :: "collaborators \<Rightarrow> int \<Rightarrow> pf_state \<Rightarrow> pf_state pf_result" where
  "pf_linear_column env j s =
     (case pf_linear_inner env j s of
        Inl e \<Rightarrow> Inl e
      | Inr s \<Rightarrow> Inr (rotate_ud (swap_buffers s)))"

text \<open>
  The seeding of the short intervals, \<open>d = j - i \<le> turn\<close>. The ligand factor is
  multiplied into \<open>q[ij]\<close> in place, so its callback sees the compound with the value
  stored so far.
\<close>

definition pf_linear_seed :: "collaborators \<Rightarrow> int \<Rightarrow> int \<Rightarrow> vrna_fold_compound_t \<Rightarrow> vrna_fold_compound_t" where
  "pf_linear_seed env d i vc =
     (let j = i + d;
          ij = vc_iindx vc i - j;
          vc = (if hc_up_ext (vc_hc vc) i > d then
                  (let x = 1.0 * mx_scale (vc_exp_matrices vc) (d + 1);
                       x = mul_sc_up (vc_sc vc) i (d + 1) x;
                       x = mul_sc_f (vc_sc vc) i j i j VRNA_DECOMP_EXT_UP x;
                       vc = set_q vc ij x
                   in if with_ud vc
                      then set_q vc ij (x * ud_exp_energy_cb env vc i j {VRNA_UNSTRUCTURED_DOMAIN_EXT_LOOP})
                      else vc)
                else set_q vc ij 0);
          vc = set_qm vc ij 0
      in set_qb vc ij 0)"

text \<open>
  The set-up before the loops: the helper arrays are allocated (\<open>vrna_alloc\<close> hands out
  zeroed memory), the production rule of the unstructured domains is run and the widest
  motif found, and the G-quadruplex matrix is rebuilt when the model asks for it.
\<close>

definition pf_linear_ud_max_size :: "vrna_fold_compound_t \<Rightarrow> int" where
  "pf_linear_ud_max_size vc =
     (if with_ud vc
      then fold (\<lambda>u ud_max_size. if ud_max_size < motif_size vc u then motif_size vc u else ud_max_size)
             [0..motif_count vc - 1] 0
      else 0)"

definition pf_linear_prod :: "collaborators \<Rightarrow> vrna_fold_compound_t \<Rightarrow> vrna_fold_compound_t" where
  "pf_linear_prod env vc =
     (case vc_domains_up vc of
        None \<Rightarrow> vc
      | Some d \<Rightarrow>
          if ud_exp_energy_cb_set d \<and> ud_exp_prod_cb_set d
          then vc\<lparr>vc_domains_up := Some (d\<lparr>ud_data := ud_exp_prod_cb env vc (ud_data d)\<rparr>)\<rparr>
          else vc)"

definition pf_linear_gquad :: "collaborators \<Rightarrow> vrna_fold_compound_t \<Rightarrow> vrna_fold_compound_t" where
  "pf_linear_gquad env vc =
     (if md_gquad (ep_model_details (vc_exp_params vc)) \<noteq> 0
      then vc\<lparr>vc_exp_matrices := (vc_exp_matrices vc)
                \<lparr>mx_G := get_gquad_pf_matrix env (vc_sequence_encoding2 vc)
                           (mx_scale (vc_exp_matrices vc)) (vc_exp_params vc)\<rparr>\<rparr>
      else vc)"

definition pf_linear_init :: "collaborators \<Rightarrow> vrna_fold_compound_t \<Rightarrow> pf_event list \<Rightarrow> pf_state" where
  "pf_linear_init env vc lg =
     (let n = vc_length vc;
          turn = md_min_loop_size (ep_model_details (vc_exp_params vc));
          vc = pf_linear_prod env vc;
          ud_max_size = pf_linear_ud_max_size vc;
          expMLstem = (if md_gquad (ep_model_details (vc_exp_params vc)) \<noteq> 0
                       then exp_E_MLstem env 0 (-1) (-1) (vc_exp_params vc) else 0);
          vc = pf_linear_gquad env vc;
          vc = fold (\<lambda>d vc. fold (pf_linear_seed env d) [1..n - d] vc) [0..turn] vc
      in \<lparr>st_vc = vc,
          st_heap = (\<lambda>p i. 0),
          st_qq = 0, st_qq1 = 1, st_qqm = 2, st_qqm1 = 3,
          st_qqu = (\<lambda>u. nat (4 + u)),
          st_qqmu = (\<lambda>u. nat (4 + (ud_max_size + 1) + u)),
          st_ud_max_size = ud_max_size,
          st_expMLstem = expMLstem,
          st_Qmax = 0,
          st_log = lg\<rparr>)"

text \<open>\<open>if(q1k && qln)\<close>: the two convenience vectors.\<close>

definition pf_linear_prefill :: "vrna_fold_compound_t \<Rightarrow> vrna_fold_compound_t" where
  "pf_linear_prefill vc =
     (let mx = vc_exp_matrices vc; n = vc_length vc in
      case (mx_q1k mx, mx_qln mx) of
        (Some q1k, Some qln) \<Rightarrow>
          (let (q1k, qln) =
                 fold (\<lambda>k (q1k, qln). (q1k(k := mx_q mx (vc_iindx vc 1 - k)),
                                        qln(k := mx_q mx (vc_iindx vc k - n))))
                   [1..n] (q1k, qln)
           in vc\<lparr>vc_exp_matrices := mx\<lparr>mx_q1k := Some (q1k(0 := 1.0)),
                                       mx_qln := Some (qln(n + 1 := 1.0))\<rparr>\<rparr>)
      | _ \<Rightarrow> vc)"

definition pf_linear_columns :: "collaborators \<Rightarrow> pf_state \<Rightarrow> pf_state pf_result" where
  "pf_linear_columns env s =
     (let vc = st_vc s;
          turn = md_min_loop_size (ep_model_details (vc_exp_params vc))
      in for_each (pf_linear_column env) [turn + 2..vc_length vc] s)"

definition pf_linear ::
  "collaborators \<Rightarrow> vrna_fold_compound_t \<Rightarrow> pf_event list \<Rightarrow> (vrna_fold_compound_t \<times> pf_event list) pf_result" where
  "pf_linear env vc lg =
     (case pf_linear_columns env (pf_linear_init env vc lg) of
        Inl e \<Rightarrow> Inl e
      | Inr s \<Rightarrow> Inr (pf_linear_prefill (st_vc s), st_log s))"

section \<open>The single-sequence circular pass (\<open>pf_circ\<close>)\<close>

text \<open>
  \<open>qm2[k]\<close>: the inner loop over the split point \<open>u\<close>, from \<open>k + turn + 1\<close> while
  \<open>u < n - turn - 1\<close>. The pass reads \<open>qm1\<close> without testing it, although the linear
  pass fills that matrix only when it is there; the read is here, so a compound without
  \<open>qm1\<close> ends the program at the first turn of this loop, and not before.
\<close>

definition circ_qot :: "vrna_fold_compound_t \<Rightarrow> (int \<Rightarrow> real) option \<Rightarrow> int \<Rightarrow> int \<Rightarrow> pf_error + real" where
  "circ_qot vc qm1 turn k =
     for_each (\<lambda>u qot.
                 case qm1 of
                   None \<Rightarrow> Inl (Null_dereference ''qm1'')
                 | Some a \<Rightarrow> Inr (qot + a (vc_jindx vc u + k) * a (vc_jindx vc (vc_length vc) + (u + 1))))
       [k + turn + 1..vc_length vc - turn - 2] 0"

definition set_qm2 :: "vrna_fold_compound_t \<Rightarrow> int \<Rightarrow> real \<Rightarrow> vrna_fold_compound_t" where
  "set_qm2 vc k v =
     vc\<lparr>vc_exp_matrices := (vc_exp_matrices vc)\<lparr>mx_qm2 := (mx_qm2 (vc_exp_matrices vc))(k := v)\<rparr>\<rparr>"

text \<open>\<open>for(k=1; k<n-turn-1; k++)\<close>\<close>

definition qm2_step :: "(int \<Rightarrow> real) option \<Rightarrow> int \<Rightarrow> int \<Rightarrow> vrna_fold_compound_t
    \<Rightarrow> pf_error + vrna_fold_compound_t" where
  "qm2_step qm1 turn k vc =
     (case circ_qot vc qm1 turn k of
        Inl e \<Rightarrow> Inl e
      | Inr qot \<Rightarrow> Inr (set_qm2 vc k qot))"

definition pf_circ_qm2 :: "vrna_fold_compound_t \<Rightarrow> (int \<Rightarrow> real) option \<Rightarrow> pf_error + vrna_fold_compound_t" where
  "pf_circ_qm2 vc qm1 =
     (let turn = md_min_loop_size (ep_model_details (vc_exp_params vc))
      in for_each (qm2_step qm1 turn) [1..vc_length vc - turn - 2] vc)"

text \<open>The innermost loop of the exterior interior loops, over \<open>l\<close>.\<close>

definition pf_circ_l :: "collaborators \<Rightarrow> vrna_fold_compound_t \<Rightarrow> int \<Rightarrow> int \<Rightarrow> int \<Rightarrow> int \<Rightarrow> int \<Rightarrow> real \<Rightarrow> real" where
  "pf_circ_l env vc p q type k l qio =
     (let n = vc_length vc;
          mx = vc_exp_matrices vc;
          S1 = vc_sequence_encoding vc;
          rtype = md_rtype (ep_model_details (vc_exp_params vc));
          ln1 = k - q - 1;
          ln2 = (p - 1) + (n - l)
      in if ln1 + ln2 > MAXLOOP env then qio
         else (let type2 = vc_ptype vc (vc_jindx vc l + k)
               in if type2 = 0 then qio
                  else qio + mx_qb mx (vc_iindx vc p - q) * mx_qb mx (vc_iindx vc k - l)
                             * exp_E_IntLoop env ln2 ln1 (rtype type2) type
                                 (S1 (l + 1)) (S1 (k - 1)) (S1 (p - 1)) (S1 (q + 1)) (vc_exp_params vc)
                             * mx_scale mx (ln1 + ln2)))"

text \<open>The loop over \<open>k\<close>, which ends at the first \<open>k\<close> with \<open>ln1 + p - 1 > MAXLOOP\<close>.\<close>

definition pf_circ_k :: "collaborators \<Rightarrow> vrna_fold_compound_t \<Rightarrow> int \<Rightarrow> int \<Rightarrow> int \<Rightarrow> int \<Rightarrow> real \<Rightarrow> real" where
  "pf_circ_k env vc p q type k qio =
     (let n = vc_length vc;
          turn = md_min_loop_size (ep_model_details (vc_exp_params vc));
          ln1 = k - q - 1;
          lstart = ln1 + p - 1 + n - MAXLOOP env;
          lstart = (if lstart < k + turn + 1 then k + turn + 1 else lstart)
      in fold (pf_circ_l env vc p q type k) [lstart..n] qio)"

definition pf_circ_pq :: "collaborators \<Rightarrow> vrna_fold_compound_t \<Rightarrow> int \<Rightarrow> int \<Rightarrow> real \<times> real \<Rightarrow> real \<times> real" where
  "pf_circ_pq env vc p q = (\<lambda>(qho, qio).
     (let n = vc_length vc;
          turn = md_min_loop_size (ep_model_details (vc_exp_params vc));
          qbt1 = mx_qb (vc_exp_matrices vc) (vc_iindx vc p - q) * vrna_exp_E_hp_loop env vc q p;
          qho = qho + qbt1;
          u = n - q + p - 1
      in if u < turn then (qho, qio)
         else (let type = vc_ptype vc (vc_jindx vc q + p)
               in if type = 0 then (qho, qio)
                  else (let type = md_rtype (ep_model_details (vc_exp_params vc)) type
                        in (qho, fold (pf_circ_k env vc p q type)
                                   (takeWhile (\<lambda>k. \<not> (k - q - 1 + p - 1 > MAXLOOP env)) [q + 1..n - 1])
                                   qio)))))"

definition pf_circ_pairs :: "collaborators \<Rightarrow> vrna_fold_compound_t \<Rightarrow> real \<times> real" where
  "pf_circ_pairs env vc =
     (let n = vc_length vc;
          turn = md_min_loop_size (ep_model_details (vc_exp_params vc))
      in fold (\<lambda>p acc. fold (pf_circ_pq env vc p) [p + turn + 1..n] acc) [1..n - 1] (0, 0))"

text \<open>\<open>for(k=turn+2; k<n-2*turn-3; k++) qmo += qm[my_iindx[1]-k] * qm2[k+1] * expMLclosing;\<close>\<close>

definition pf_circ_qmo :: "vrna_fold_compound_t \<Rightarrow> real" where
  "pf_circ_qmo vc =
     (let n = vc_length vc;
          mx = vc_exp_matrices vc;
          turn = md_min_loop_size (ep_model_details (vc_exp_params vc))
      in fold (\<lambda>k qmo. qmo + mx_qm mx (vc_iindx vc 1 - k) * mx_qm2 mx (k + 1)
                              * ep_expMLclosing (vc_exp_params vc))
           [turn + 2..n - 2 * turn - 4] 0)"

definition set_circ_totals :: "vrna_fold_compound_t \<Rightarrow> real \<Rightarrow> real \<Rightarrow> real \<Rightarrow> real \<Rightarrow> vrna_fold_compound_t" where
  "set_circ_totals vc qo qho qio qmo =
     vc\<lparr>vc_exp_matrices := (vc_exp_matrices vc)\<lparr>mx_qo := qo, mx_qho := qho, mx_qio := qio, mx_qmo := qmo\<rparr>\<rparr>"

text \<open>The whole pass; the total \<open>qo\<close> always has the weight of the open chain, \<open>scale[n]\<close>.\<close>

definition pf_circ ::
  "collaborators \<Rightarrow> vrna_fold_compound_t \<Rightarrow> pf_event list \<Rightarrow> (vrna_fold_compound_t \<times> pf_event list) pf_result" where
  "pf_circ env vc lg =
     (case pf_circ_qm2 vc (mx_qm1 (vc_exp_matrices vc)) of
        Inl e \<Rightarrow> Inl (e, lg)
      | Inr vc \<Rightarrow>
          (let (qho, qio) = pf_circ_pairs env vc;
               qmo = pf_circ_qmo vc;
               qo = qho + qio + qmo + 1.0 * mx_scale (vc_exp_matrices vc) (vc_length vc)
           in Inr (set_circ_totals vc qo qho qio qmo, lg)))"

section \<open>The alignment linear pass (\<open>alipf_linear\<close>)\<close>

text \<open>
  \<open>if(sc) for(s = 0; s < n_seq; s++) if(sc[s]) if(sc[s]->exp_energy_up)
  x *= sc[s]->exp_energy_up[pos(s)][len(s)]\<close>
\<close>

definition mul_scs_up :: "vrna_fold_compound_t \<Rightarrow> (int \<Rightarrow> int) \<Rightarrow> (int \<Rightarrow> int) \<Rightarrow> real \<Rightarrow> real" where
  "mul_scs_up vc pos len x =
     (case vc_scs vc of
        None \<Rightarrow> x
      | Some sc \<Rightarrow> fold (\<lambda>s x. mul_sc_up (sc s) (pos s) (len s) x) [0..vc_n_seq vc - 1] x)"

text \<open>\<open>type[s] = md->pair[S[s][i]][S[s][j]]; if (type[s]==0) type[s]=7;\<close>\<close>

definition ali_type :: "vrna_fold_compound_t \<Rightarrow> int \<Rightarrow> int \<Rightarrow> int \<Rightarrow> int" where
  "ali_type vc i j s =
     (let type = md_pair (ep_model_details (vc_exp_params vc)) (vc_S vc s i) (vc_S vc s j)
      in if type = 0 then 7 else type)"

definition ali_nb5 :: "vrna_fold_compound_t \<Rightarrow> int \<Rightarrow> int \<Rightarrow> int" where
  "ali_nb5 vc s i =
     (if 1 < i \<or> md_circ (ep_model_details (vc_exp_params vc)) \<noteq> 0 then vc_S5 vc s i else -1)"

definition ali_nb3 :: "vrna_fold_compound_t \<Rightarrow> int \<Rightarrow> int \<Rightarrow> int" where
  "ali_nb3 vc s j =
     (if j < vc_length vc \<or> md_circ (ep_model_details (vc_exp_params vc)) \<noteq> 0 then vc_S3 vc s j else -1)"

text \<open>
  \<open>qb(i,j)\<close>: the three loop weights, and the covariance score of the pair folded in as
  the factor \<open>exp(psc/kTn)\<close>, \<open>kTn = kT/10\<close>.
\<close>

definition alipf_linear_qbt1 :: "collaborators \<Rightarrow> int \<Rightarrow> int \<Rightarrow> pf_state \<Rightarrow> real" where
  "alipf_linear_qbt1 env i j s =
     (let vc = st_vc s;
          kTn = ep_kT (vc_exp_params vc) / 10;
          jij = vc_jindx vc j + i;
          psc = vc_pscore vc jij;
          qbt1 = 0
      in if hc_matrix (vc_hc vc) jij \<noteq> 0
         then (qbt1 + vrna_exp_E_hp_loop env vc i j
                    + vrna_exp_E_int_loop env vc i j
                    + vrna_exp_E_mb_loop_fast env vc i j (st_heap s (st_qqm1 s)))
              * exp (real_of_int psc / kTn)
         else qbt1)"

definition alipf_linear_qb :: "collaborators \<Rightarrow> int \<Rightarrow> int \<Rightarrow> pf_state \<Rightarrow> pf_state" where
  "alipf_linear_qb env i j s =
     s\<lparr>st_vc := set_qb (st_vc s) (vc_iindx (st_vc s) i - j) (alipf_linear_qbt1 env i j s)\<rparr>"

definition alipf_linear_qqm_heap :: "collaborators \<Rightarrow> int \<Rightarrow> int \<Rightarrow> pf_state \<Rightarrow> (nat \<Rightarrow> int \<Rightarrow> real)" where
  "alipf_linear_qqm_heap env i j s =
     (let vc = st_vc s;
          mx = vc_exp_matrices vc;
          ij = vc_iindx vc i - j;
          jij = vc_jindx vc j + i;
          h = wr (st_heap s) (st_qqm s) i 0;
          h = (if hc_up_ml (vc_hc vc) i \<noteq> 0 then
                 (let temp = rd h (st_qqm1 s) i * mx_expMLbase mx 1;
                      temp = mul_scs_up vc (\<lambda>s. vc_a2s vc s i) (\<lambda>s. 1) temp
                  in wr h (st_qqm s) i (rd h (st_qqm s) i + temp))
               else h);
          h = (if hc_matrix (vc_hc vc) jij AND VRNA_CONSTRAINT_CONTEXT_MB_LOOP_ENC env \<noteq> 0 then
                 (let qbt1 = fold (\<lambda>s qbt1. qbt1 * exp_E_MLstem env (ali_type vc i j s)
                                                   (ali_nb5 vc s i) (ali_nb3 vc s j) (vc_exp_params vc))
                               [0..vc_n_seq vc - 1] 1
                  in wr h (st_qqm s) i (rd h (st_qqm s) i + mx_qb mx ij * qbt1))
               else h)
      in h)"

definition alipf_linear_qqm :: "collaborators \<Rightarrow> int \<Rightarrow> int \<Rightarrow> pf_state \<Rightarrow> pf_state" where
  "alipf_linear_qqm env i j s =
     (let h = alipf_linear_qqm_heap env i j s
      in s\<lparr>st_vc := set_qm1 (st_vc s) (vc_jindx (st_vc s) j + i) (rd h (st_qqm s) i), st_heap := h\<rparr>)"

definition alipf_linear_qm_temp :: "collaborators \<Rightarrow> int \<Rightarrow> int \<Rightarrow> pf_state \<Rightarrow> real" where
  "alipf_linear_qm_temp env i j s =
     (let vc = st_vc s;
          mx = vc_exp_matrices vc;
          qqm = st_heap s (st_qqm s);
          temp = 0;
          ii = vc_iindx vc i;
          temp = fold (\<lambda>k temp. temp + mx_qm mx (ii - (k - 1)) * qqm k) [i + 1..j] temp;
          temp = fold (\<lambda>k temp.
                    (let temp2 = mx_expMLbase mx (k - i) * qqm k;
                         temp2 = mul_scs_up vc (\<lambda>s. vc_a2s vc s i) (\<lambda>s. vc_a2s vc s k - vc_a2s vc s i) temp2
                     in temp + temp2))
                   (takeWhile (\<lambda>k. \<not> (hc_up_ml (vc_hc vc) i < k - i)) [i + 1..j]) temp
      in temp + qqm i)"

definition alipf_linear_qm :: "collaborators \<Rightarrow> int \<Rightarrow> int \<Rightarrow> pf_state \<Rightarrow> pf_state" where
  "alipf_linear_qm env i j s =
     s\<lparr>st_vc := set_qm (st_vc s) (vc_iindx (st_vc s) i - j) (alipf_linear_qm_temp env i j s)\<rparr>"

definition alipf_linear_qq_qbt1 :: "collaborators \<Rightarrow> int \<Rightarrow> int \<Rightarrow> pf_state \<Rightarrow> real" where
  "alipf_linear_qq_qbt1 env i j s =
     (let vc = st_vc s;
          mx = vc_exp_matrices vc;
          h = st_heap s;
          ij = vc_iindx vc i - j;
          jij = vc_jindx vc j + i;
          qbt1 = 0;
          qbt1 = (if mx_qb mx ij > 0 \<and> hc_matrix (vc_hc vc) jij AND VRNA_CONSTRAINT_CONTEXT_EXT_LOOP env \<noteq> 0
                  then fold (\<lambda>s qbt1. qbt1 * exp_E_ExtLoop env (ali_type vc i j s)
                                              (ali_nb5 vc s i) (ali_nb3 vc s j) (vc_exp_params vc))
                         [0..vc_n_seq vc - 1] (mx_qb mx ij)
                  else qbt1);
          qbt1 = (if hc_up_ext (vc_hc vc) i \<noteq> 0 then
                    (let temp = rd h (st_qq1 s) i * mx_scale mx 1;
                         temp = mul_scs_up vc (\<lambda>s. vc_a2s vc s i) (\<lambda>s. 1) temp
                     in qbt1 + temp)
                  else qbt1)
      in qbt1)"

definition alipf_linear_qq :: "collaborators \<Rightarrow> int \<Rightarrow> int \<Rightarrow> pf_state \<Rightarrow> pf_state" where
  "alipf_linear_qq env i j s =
     s\<lparr>st_heap := wr (st_heap s) (st_qq s) i (alipf_linear_qq_qbt1 env i j s)\<rparr>"

definition alipf_linear_q_temp :: "collaborators \<Rightarrow> int \<Rightarrow> int \<Rightarrow> pf_state \<Rightarrow> real" where
  "alipf_linear_q_temp env i j s =
     (let vc = st_vc s;
          mx = vc_exp_matrices vc;
          qq = st_heap s (st_qq s);
          ii = vc_iindx vc i;
          temp = qq i;
          temp = (if hc_up_ext (vc_hc vc) i \<ge> j - i + 1 then
                    (let temp2 = 1.0 * mx_scale mx (j - i + 1);
                         temp2 = mul_scs_up vc (\<lambda>s. vc_a2s vc s i)
                                   (\<lambda>s. vc_a2s vc s j - vc_a2s vc s i + 1) temp2
                     in temp + temp2)
                  else temp)
      in fold (\<lambda>k temp. temp + mx_q mx (ii - k) * qq (k + 1)) [i..j - 1] temp)"

definition alipf_linear_q :: "collaborators \<Rightarrow> int \<Rightarrow> int \<Rightarrow> pf_state \<Rightarrow> pf_state" where
  "alipf_linear_q env i j s =
     s\<lparr>st_vc := set_q (st_vc s) (vc_iindx (st_vc s) i - j) (alipf_linear_q_temp env i j s)\<rparr>"

definition alipf_linear_upto_qq :: "collaborators \<Rightarrow> int \<Rightarrow> int \<Rightarrow> pf_state \<Rightarrow> pf_state" where
  "alipf_linear_upto_qq env i j s =
     (let s = alipf_linear_qb env i j s;
          s = alipf_linear_qqm env i j s;
          s = alipf_linear_qm env i j s
      in alipf_linear_qq env i j s)"

definition alipf_linear_stored :: "collaborators \<Rightarrow> int \<Rightarrow> int \<Rightarrow> pf_state \<Rightarrow> pf_state" where
  "alipf_linear_stored env i j s = alipf_linear_q env i j (alipf_linear_upto_qq env i j s)"

definition alipf_linear_cell :: "collaborators \<Rightarrow> int \<Rightarrow> int \<Rightarrow> pf_state \<Rightarrow> pf_state pf_result" where
  "alipf_linear_cell env j i s =
     (let temp = alipf_linear_q_temp env i j (alipf_linear_upto_qq env i j s)
      in overflow_check env i j temp (alipf_linear_stored env i j s))"

definition alipf_linear_inner :: "collaborators \<Rightarrow> int \<Rightarrow> pf_state \<Rightarrow> pf_state pf_result" where
  "alipf_linear_inner env j s =
     (let turn = md_min_loop_size (ep_model_details (vc_exp_params (st_vc s)))
      in for_each (alipf_linear_cell env j) (rev [1..j - turn - 1]) s)"

definition alipf_linear_column :: "collaborators \<Rightarrow> int \<Rightarrow> pf_state \<Rightarrow> pf_state pf_result" where
  "alipf_linear_column env j s =
     (case alipf_linear_inner env j s of
        Inl e \<Rightarrow> Inl e
      | Inr s \<Rightarrow> Inr (swap_buffers s))"

text \<open>The seeding of the short intervals; here \<open>q[ij]\<close> is left as it is when the stretch may not stay unpaired.\<close>

definition alipf_linear_seed :: "int \<Rightarrow> int \<Rightarrow> vrna_fold_compound_t \<Rightarrow> vrna_fold_compound_t" where
  "alipf_linear_seed d i vc =
     (let j = i + d;
          ij = vc_iindx vc i - j;
          vc = (if hc_up_ext (vc_hc vc) i > d then
                  (let x = 1.0 * mx_scale (vc_exp_matrices vc) (d + 1);
                       x = mul_scs_up vc (\<lambda>s. vc_a2s vc s i) (\<lambda>s. d + 1) x
                   in set_q vc ij x)
                else vc);
          vc = set_qm vc ij 0
      in set_qb vc ij 0)"

text \<open>\<open>for (i=1; i<=n; i++) qq[i]=qq1[i]=qqm[i]=qqm1[i]=0;\<close>\<close>

definition alipf_linear_clear :: "pf_state \<Rightarrow> int \<Rightarrow> (nat \<Rightarrow> int \<Rightarrow> real) \<Rightarrow> (nat \<Rightarrow> int \<Rightarrow> real)" where
  "alipf_linear_clear s i h =
     (let h = wr h (st_qqm1 s) i 0;
          h = wr h (st_qqm s) i 0;
          h = wr h (st_qq1 s) i 0
      in wr h (st_qq s) i 0)"

definition alipf_linear_init :: "vrna_fold_compound_t \<Rightarrow> pf_event list \<Rightarrow> pf_state" where
  "alipf_linear_init vc lg =
     (let n = vc_length vc;
          turn = md_min_loop_size (ep_model_details (vc_exp_params vc));
          vc = fold (\<lambda>d vc. fold (alipf_linear_seed d) [1..n - d] vc) [0..turn] vc;
          s = \<lparr>st_vc = vc,
               st_heap = (\<lambda>p i. 0),
               st_qq = 0, st_qq1 = 1, st_qqm = 2, st_qqm1 = 3,
               st_qqu = (\<lambda>u. 0),
               st_qqmu = (\<lambda>u. 0),
               st_ud_max_size = 0,
               st_expMLstem = 0,
               st_Qmax = 0,
               st_log = lg\<rparr>
      in s\<lparr>st_heap := fold (alipf_linear_clear s) [1..n] (st_heap s)\<rparr>)"

definition alipf_linear_columns :: "collaborators \<Rightarrow> pf_state \<Rightarrow> pf_state pf_result" where
  "alipf_linear_columns env s =
     (let vc = st_vc s;
          turn = md_min_loop_size (ep_model_details (vc_exp_params vc))
      in for_each (alipf_linear_column env) [turn + 2..vc_length vc] s)"

definition alipf_linear ::
  "collaborators \<Rightarrow> vrna_fold_compound_t \<Rightarrow> pf_event list \<Rightarrow> (vrna_fold_compound_t \<times> pf_event list) pf_result" where
  "alipf_linear env vc lg =
     (case alipf_linear_columns env (alipf_linear_init vc lg) of
        Inl e \<Rightarrow> Inl e
      | Inr s \<Rightarrow> Inr (st_vc s, st_log s))"

section \<open>The alignment circular pass (\<open>wrap_alipf_circ\<close>)\<close>

text \<open>
  Here the bounds are written with the constant \<open>TURN\<close>, not with the model's
  \<open>min_loop_size\<close>: \<open>for(k=1; k<n-TURN; k++)\<close>, and inside it
  \<open>for (u=k+TURN+1; u<n-TURN-1; u++)\<close>.
\<close>

definition alipf_circ_qm2 :: "collaborators \<Rightarrow> vrna_fold_compound_t \<Rightarrow> (int \<Rightarrow> real) option
    \<Rightarrow> pf_error + vrna_fold_compound_t" where
  "alipf_circ_qm2 env vc qm1 =
     for_each (qm2_step qm1 (TURN env)) [1..vc_length vc - TURN env - 1] vc"

text \<open>
  The exterior hairpin of one row \<open>s\<close>. The loop length \<open>u\<close> of the row is assigned to
  the variable \<open>u\<close> of the enclosing function, so the value of the last row is the one
  that indexes \<open>scale\<close> afterwards. The loop sequence is put together only for \<open>u < 9\<close>
  (the buffer is left as it was otherwise, which is the empty string here).
\<close>

definition alipf_circ_hp_row :: "collaborators \<Rightarrow> vrna_fold_compound_t \<Rightarrow> int \<Rightarrow> int \<Rightarrow> int
    \<Rightarrow> real \<times> int \<Rightarrow> real \<times> int" where
  "alipf_circ_hp_row env vc p q s = (\<lambda>(qbt1, u).
     (let n = vc_length vc;
          a2s = vc_a2s vc;
          u = a2s s n - a2s s q + a2s s p - 1;
          rt = md_rtype (ep_model_details (vc_exp_params vc)) (ali_type vc p q s);
          loopseq = (if u < 9
                     then drop (nat (a2s s q - 1)) (vc_Ss vc s) @ take (nat (a2s s p)) (vc_Ss vc s)
                     else [])
      in (qbt1 * exp_E_Hairpin env u rt (vc_S3 vc s q) (vc_S5 vc s p) loopseq (vc_exp_params vc), u)))"

definition alipf_circ_hp_sc :: "vrna_fold_compound_t \<Rightarrow> int \<Rightarrow> int \<Rightarrow> real \<Rightarrow> real" where
  "alipf_circ_hp_sc vc p q qbt1 =
     (case vc_scs vc of
        None \<Rightarrow> qbt1
      | Some sc \<Rightarrow>
          fold (\<lambda>s qbt1.
                  (case sc s of
                     None \<Rightarrow> qbt1
                   | Some c \<Rightarrow>
                       (case sc_exp_energy_up c of
                          None \<Rightarrow> qbt1
                        | Some up \<Rightarrow>
                            qbt1 * ((if p > 1 then up 1 (vc_a2s vc s p - 1) else 1)
                                    * (if q < vc_length vc
                                       then up (vc_a2s vc s q + 1) (vc_a2s vc s (vc_length vc) - vc_a2s vc s q)
                                       else 1)))))
            [0..vc_n_seq vc - 1] qbt1)"

definition alipf_circ_hp :: "collaborators \<Rightarrow> vrna_fold_compound_t \<Rightarrow> int \<Rightarrow> int \<Rightarrow> int \<Rightarrow> real \<Rightarrow> real" where
  "alipf_circ_hp env vc p q u qho =
     (let pq = vc_jindx vc q + p in
      if hc_matrix (vc_hc vc) pq AND VRNA_CONSTRAINT_CONTEXT_HP_LOOP env \<noteq> 0 then
        (if hc_up_hp (vc_hc vc) (q + 1) > u then
           (let (qbt1, u) = fold (alipf_circ_hp_row env vc p q) [0..vc_n_seq vc - 1] (1, u);
                qbt1 = alipf_circ_hp_sc vc p q qbt1
            in qho + mx_qb (vc_exp_matrices vc) (vc_iindx vc p - q) * qbt1 * mx_scale (vc_exp_matrices vc) u)
         else qho)
      else qho)"

text \<open>The interior-loop weight of one row, and the soft constraints of one row.\<close>

definition alipf_circ_int_row :: "collaborators \<Rightarrow> vrna_fold_compound_t \<Rightarrow> int \<Rightarrow> int \<Rightarrow> int \<Rightarrow> int \<Rightarrow> int
    \<Rightarrow> real \<Rightarrow> real" where
  "alipf_circ_int_row env vc p q k l s qloop =
     (let n = vc_length vc;
          a2s = vc_a2s vc;
          ln1a = a2s s k - 1 - a2s s q;
          ln2a = a2s s n - a2s s l + a2s s p - 1;
          rt = md_rtype (ep_model_details (vc_exp_params vc)) (ali_type vc p q s);
          type_2 = ali_type vc l k s
      in qloop * exp_E_IntLoop env ln1a ln2a rt type_2
                   (vc_S3 vc s q) (vc_S5 vc s p) (vc_S5 vc s k) (vc_S3 vc s l) (vc_exp_params vc))"

definition alipf_circ_int_sc :: "vrna_fold_compound_t \<Rightarrow> (int \<Rightarrow> vrna_sc_t option) \<Rightarrow> int \<Rightarrow> int \<Rightarrow> int \<Rightarrow> int \<Rightarrow> int
    \<Rightarrow> real \<Rightarrow> real" where
  "alipf_circ_int_sc vc sc p q k l s qloop =
     (let n = vc_length vc;
          a2s = vc_a2s vc;
          S = vc_S vc;
          ln1a = a2s s k - 1 - a2s s q;
          ln2a = a2s s n - a2s s l + a2s s p - 1
      in case sc s of
           None \<Rightarrow> qloop
         | Some c \<Rightarrow>
             (let qloop =
                    (case sc_exp_energy_stack c of
                       None \<Rightarrow> qloop
                     | Some stack \<Rightarrow>
                         if ln1a + ln2a = 0 then
                           (if S s p \<noteq> 0 \<and> S s q \<noteq> 0 \<and> S s k \<noteq> 0 \<and> S s l \<noteq> 0
                            then qloop * (stack (a2s s p) * stack (a2s s q) * stack (a2s s k) * stack (a2s s l))
                            else qloop)
                         else qloop)
              in case sc_exp_energy_up c of
                   None \<Rightarrow> qloop
                 | Some up \<Rightarrow>
                     qloop * (up (a2s s q + 1) ln1a
                              * (if l < n then up (a2s s l + 1) (a2s s n - a2s s l) else 1)
                              * (if p > 1 then up 1 (a2s s p - 1) else 1))))"

definition alipf_circ_l :: "collaborators \<Rightarrow> vrna_fold_compound_t \<Rightarrow> int \<Rightarrow> int \<Rightarrow> int \<Rightarrow> int \<Rightarrow> real \<Rightarrow> real" where
  "alipf_circ_l env vc p q k l qio =
     (let n = vc_length vc;
          mx = vc_exp_matrices vc;
          ln1 = k - q - 1;
          ln2 = (p - 1) + (n - l)
      in if hc_matrix (vc_hc vc) (vc_jindx vc l + k) AND VRNA_CONSTRAINT_CONTEXT_INT_LOOP env = 0 then qio
         else if ln1 + ln2 > MAXLOOP env then qio
         else if hc_up_int (vc_hc vc) (l + 1) < ln2 then qio
         else if mx_qb mx (vc_iindx vc k - l) = 0 then qio
         else (let qloop = 1;
                   qloop = fold (alipf_circ_int_row env vc p q k l) [0..vc_n_seq vc - 1] qloop;
                   qloop = (case vc_scs vc of
                              None \<Rightarrow> qloop
                            | Some sc \<Rightarrow> fold (alipf_circ_int_sc vc sc p q k l) [0..vc_n_seq vc - 1] qloop)
               in qio + mx_qb mx (vc_iindx vc p - q) * mx_qb mx (vc_iindx vc k - l) * qloop
                        * mx_scale mx (ln1 + ln2)))"

definition alipf_circ_k :: "collaborators \<Rightarrow> vrna_fold_compound_t \<Rightarrow> int \<Rightarrow> int \<Rightarrow> int \<Rightarrow> real \<Rightarrow> real" where
  "alipf_circ_k env vc p q k qio =
     (let n = vc_length vc;
          ln1 = k - q - 1;
          lstart = ln1 + p - 1 + n - MAXLOOP env;
          lstart = (if lstart < k + TURN env + 1 then k + TURN env + 1 else lstart)
      in fold (alipf_circ_l env vc p q k) [lstart..n] qio)"

definition alipf_circ_int :: "collaborators \<Rightarrow> vrna_fold_compound_t \<Rightarrow> int \<Rightarrow> int \<Rightarrow> real \<Rightarrow> real" where
  "alipf_circ_int env vc p q qio =
     (if hc_matrix (vc_hc vc) (vc_jindx vc q + p) AND VRNA_CONSTRAINT_CONTEXT_INT_LOOP env \<noteq> 0
      then fold (alipf_circ_k env vc p q)
             (takeWhile (\<lambda>k. \<not> (k - q - 1 + p - 1 > MAXLOOP env) \<and> \<not> (hc_up_int (vc_hc vc) (q + 1) < k - q - 1))
                [q + 1..vc_length vc - 1])
             qio
      else qio)"

definition alipf_circ_pq :: "collaborators \<Rightarrow> vrna_fold_compound_t \<Rightarrow> int \<Rightarrow> int \<Rightarrow> real \<times> real \<Rightarrow> real \<times> real" where
  "alipf_circ_pq env vc p q = (\<lambda>(qho, qio).
     (let u = vc_length vc - q + p - 1 in
      if u < TURN env then (qho, qio)
      else if hc_matrix (vc_hc vc) (vc_jindx vc q + p) = 0 then (qho, qio)
      else (let qho = alipf_circ_hp env vc p q u qho;
                qio = alipf_circ_int env vc p q qio
            in (qho, qio))))"

definition alipf_circ_pairs :: "collaborators \<Rightarrow> vrna_fold_compound_t \<Rightarrow> real \<times> real" where
  "alipf_circ_pairs env vc =
     fold (\<lambda>p acc. fold (alipf_circ_pq env vc p) [p + TURN env + 1..vc_length vc] acc)
       [1..vc_length vc - 1] (0, 0)"

text \<open>
  \<open>for(k=TURN+2; k<n-2*TURN-3; k++) qmo += qm[my_iindx[1]-k] * qm2[k+1] * pow(expMLclosing,n_seq);\<close>
\<close>

definition alipf_circ_qmo :: "collaborators \<Rightarrow> vrna_fold_compound_t \<Rightarrow> real" where
  "alipf_circ_qmo env vc =
     (let mx = vc_exp_matrices vc
      in fold (\<lambda>k qmo. qmo + mx_qm mx (vc_iindx vc 1 - k) * mx_qm2 mx (k + 1)
                              * power_int (ep_expMLclosing (vc_exp_params vc)) (vc_n_seq vc))
           [TURN env + 2..vc_length vc - 2 * TURN env - 4] 0)"

text \<open>
  The total: the weight of the open chain, \<open>scale[n]\<close>, is added only
  \<open>if(hc->up_ext[1] >= n)\<close>. As in \<open>pf_circ\<close>, \<open>qm1\<close> is read untested, inside the
  loop that builds \<open>qm2\<close>.
\<close>

definition wrap_alipf_circ ::
  "collaborators \<Rightarrow> vrna_fold_compound_t \<Rightarrow> pf_event list \<Rightarrow> (vrna_fold_compound_t \<times> pf_event list) pf_result" where
  "wrap_alipf_circ env vc lg =
     (case alipf_circ_qm2 env vc (mx_qm1 (vc_exp_matrices vc)) of
        Inl e \<Rightarrow> Inl (e, lg)
      | Inr vc \<Rightarrow>
          (let (qho, qio) = alipf_circ_pairs env vc;
               qmo = alipf_circ_qmo env vc;
               qo = qho + qio + qmo;
               qo = (if hc_up_ext (vc_hc vc) 1 \<ge> vc_length vc
                     then qo + 1.0 * mx_scale (vc_exp_matrices vc) (vc_length vc) else qo)
           in Inr (set_circ_totals vc qo qho qio qmo, lg)))"

section \<open>The entry point (\<open>vrna_pf\<close>)\<close>

text \<open>
  The value that \<open>vrna_pf\<close> returns is computed with \<open>log\<close>, whose argument may be zero
  or negative, so it is a C \<open>double\<close> with its infinities and its not-a-number: \<open>log(0)\<close>
  is minus infinity and the logarithm of a negative number is not a number. The four
  operations of the formula follow the floating-point rules for these values; finite
  values stay real numbers (no rounding, no overflow of a finite result, and a zero
  divisor counts as positive zero).
\<close>

datatype c_double = Finite real | PlusInf | MinusInf | NaN

definition c_log :: "real \<Rightarrow> c_double" where
  "c_log x = (if 0 < x then Finite (ln x) else if x = 0 then MinusInf else NaN)"

fun c_uminus :: "c_double \<Rightarrow> c_double" where
  "c_uminus (Finite x) = Finite (- x)"
| "c_uminus PlusInf = MinusInf"
| "c_uminus MinusInf = PlusInf"
| "c_uminus NaN = NaN"

fun c_minus :: "c_double \<Rightarrow> c_double \<Rightarrow> c_double" where
  "c_minus (Finite x) (Finite y) = Finite (x - y)"
| "c_minus (Finite x) PlusInf = MinusInf"
| "c_minus (Finite x) MinusInf = PlusInf"
| "c_minus PlusInf (Finite y) = PlusInf"
| "c_minus PlusInf MinusInf = PlusInf"
| "c_minus PlusInf PlusInf = NaN"
| "c_minus MinusInf (Finite y) = MinusInf"
| "c_minus MinusInf PlusInf = MinusInf"
| "c_minus MinusInf MinusInf = NaN"
| "c_minus NaN y = NaN"
| "c_minus x NaN = NaN"

fun c_times :: "c_double \<Rightarrow> c_double \<Rightarrow> c_double" where
  "c_times (Finite x) (Finite y) = Finite (x * y)"
| "c_times (Finite x) PlusInf = (if 0 < x then PlusInf else if x < 0 then MinusInf else NaN)"
| "c_times (Finite x) MinusInf = (if 0 < x then MinusInf else if x < 0 then PlusInf else NaN)"
| "c_times PlusInf (Finite y) = (if 0 < y then PlusInf else if y < 0 then MinusInf else NaN)"
| "c_times MinusInf (Finite y) = (if 0 < y then MinusInf else if y < 0 then PlusInf else NaN)"
| "c_times PlusInf PlusInf = PlusInf"
| "c_times PlusInf MinusInf = MinusInf"
| "c_times MinusInf PlusInf = MinusInf"
| "c_times MinusInf MinusInf = PlusInf"
| "c_times NaN y = NaN"
| "c_times x NaN = NaN"

fun c_divide :: "c_double \<Rightarrow> c_double \<Rightarrow> c_double" where
  "c_divide (Finite x) (Finite y) =
     (if y \<noteq> 0 then Finite (x / y)
      else if 0 < x then PlusInf else if x < 0 then MinusInf else NaN)"
| "c_divide (Finite x) PlusInf = Finite 0"
| "c_divide (Finite x) MinusInf = Finite 0"
| "c_divide PlusInf (Finite y) = (if 0 \<le> y then PlusInf else MinusInf)"
| "c_divide MinusInf (Finite y) = (if 0 \<le> y then MinusInf else PlusInf)"
| "c_divide PlusInf PlusInf = NaN"
| "c_divide PlusInf MinusInf = NaN"
| "c_divide MinusInf PlusInf = NaN"
| "c_divide MinusInf MinusInf = NaN"
| "c_divide NaN y = NaN"
| "c_divide x NaN = NaN"

record pf_return =
  ret_free_energy :: c_double
  ret_vc :: "vrna_fold_compound_t option"
  ret_structure :: "string option"
  ret_log :: "pf_event list"

text \<open>\<open>if(vc->stat_cb) vc->stat_cb(status, vc->auxdata);\<close>\<close>

definition stat_cb :: "vrna_fold_compound_t \<Rightarrow> vrna_status \<Rightarrow> pf_event list \<Rightarrow> pf_event list" where
  "stat_cb vc status lg = (if vc_stat_cb_set vc then lg @ [Status_callback status] else lg)"

text \<open>The \<open>switch(vc->type)\<close> that runs the passes; \<open>None\<close> is the \<open>default\<close> label.\<close>

definition vrna_pf_passes ::
  "collaborators \<Rightarrow> vrna_fold_compound_t \<Rightarrow> pf_event list
     \<Rightarrow> (vrna_fold_compound_t \<times> pf_event list) pf_result option" where
  "vrna_pf_passes env vc lg =
     (case vc_type vc of
        VRNA_VC_TYPE_SINGLE \<Rightarrow>
          Some (case pf_linear env vc lg of
                  Inl e \<Rightarrow> Inl e
                | Inr (vc, lg) \<Rightarrow>
                    if md_circ (ep_model_details (vc_exp_params vc)) \<noteq> 0
                    then pf_circ env vc lg else Inr (vc, lg))
      | VRNA_VC_TYPE_ALIGNMENT \<Rightarrow>
          Some (case alipf_linear env vc lg of
                  Inl e \<Rightarrow> Inl e
                | Inr (vc, lg) \<Rightarrow>
                    if md_circ (ep_model_details (vc_exp_params vc)) \<noteq> 0
                    then wrap_alipf_circ env vc lg else Inr (vc, lg))
      | VRNA_VC_TYPE_unrecognized _ \<Rightarrow> None)"

text \<open>The partition function \<open>Q\<close> that the free energy is taken from.\<close>

definition vrna_pf_Q :: "vrna_fold_compound_t \<Rightarrow> int \<Rightarrow> real" where
  "vrna_pf_Q vc n =
     (let md = ep_model_details (vc_exp_params vc);
          matrices = vc_exp_matrices vc
      in if md_backtrack_type md = CHR ''C'' then mx_qb matrices (vc_iindx vc 1 - n)
         else if md_backtrack_type md = CHR ''M'' then mx_qm matrices (vc_iindx vc 1 - n)
         else if md_circ md \<noteq> 0 then mx_qo matrices
         else mx_q matrices (vc_iindx vc 1 - n))"

text \<open>What follows the passes: the second status call, the pair probabilities, \<open>Q\<close> and the free energy.\<close>

definition vrna_pf_finish ::
  "collaborators \<Rightarrow> int \<Rightarrow> string option \<Rightarrow> vrna_fold_compound_t \<Rightarrow> pf_event list \<Rightarrow> pf_return" where
  "vrna_pf_finish env n structure vc lg =
     (let lg = stat_cb vc VRNA_STATUS_PF_POST lg;
          params = vc_exp_params vc;
          (vc, structure) =
             (if md_compute_bpp (ep_model_details params) \<noteq> 0
              then (let (probs, structure) = vrna_pairing_probs env vc structure
                    in (vc\<lparr>vc_exp_matrices := (vc_exp_matrices vc)\<lparr>mx_probs := probs\<rparr>\<rparr>, structure))
              else (vc, structure));
          Q = vrna_pf_Q vc n;
          lg = (if Q \<le> FLT_MIN env then lg @ [Warning ''pf_scale too large''] else lg);
          free_energy =
             (case vc_type vc of
                VRNA_VC_TYPE_ALIGNMENT \<Rightarrow>
                  c_divide
                    (c_times (c_minus (c_uminus (c_log Q))
                                (c_times (Finite (real_of_int n)) (c_log (ep_pf_scale params))))
                       (Finite (ep_kT params)))
                    (Finite (1000.0 * real_of_int (vc_n_seq vc)))
              | _ \<Rightarrow>
                  c_divide
                    (c_times (c_minus (c_uminus (c_log Q))
                                (c_times (Finite (real_of_int n)) (c_log (ep_pf_scale params))))
                       (Finite (ep_kT params)))
                    (Finite 1000.0))
      in \<lparr>ret_free_energy = free_energy, ret_vc = Some vc, ret_structure = structure, ret_log = lg\<rparr>)"

text \<open>
  \<open>vrna_pf\<close>. A \<open>NULL\<close> compound gives back the preset \<open>(float)(INF/100.)\<close> at once.
  Otherwise the compound is prepared, the first status call is made, and the passes run;
  an unrecognized type warns and returns the preset value from inside the switch.
\<close>

definition vrna_pf ::
  "collaborators \<Rightarrow> vrna_fold_compound_t option \<Rightarrow> string option \<Rightarrow> pf_return pf_result" where
  "vrna_pf env vco structure =
     (let free_energy = Finite (real_of_int (c_INF env) / 100) in
      case vco of
        None \<Rightarrow> Inr \<lparr>ret_free_energy = free_energy, ret_vc = None, ret_structure = structure, ret_log = []\<rparr>
      | Some vc \<Rightarrow>
          (let vc = vrna_fold_compound_prepare env vc;
               n = vc_length vc;
               lg = stat_cb vc VRNA_STATUS_PF_PRE []
           in case vrna_pf_passes env vc lg of
                None \<Rightarrow>
                  Inr \<lparr>ret_free_energy = free_energy, ret_vc = Some vc, ret_structure = structure,
                       ret_log = lg @ [Warning ''vrna_pf@part_func.c: Unrecognized fold compound type'']\<rparr>
              | Some (Inl e) \<Rightarrow> Inl e
              | Some (Inr (vc, lg)) \<Rightarrow> Inr (vrna_pf_finish env n structure vc lg)))"

section \<open>Notions used in the proofs\<close>

text \<open>
  Two compounds have the same frame when they differ at most in the matrices and in the
  data of the unstructured domains; two pass states have the same pointers when the
  helper-array pointers and the pass's constants agree.
\<close>

definition same_frame :: "vrna_fold_compound_t \<Rightarrow> vrna_fold_compound_t \<Rightarrow> bool" where
  "same_frame vc vc' =
     (vc'\<lparr>vc_exp_matrices := vc_exp_matrices vc, vc_domains_up := vc_domains_up vc\<rparr> = vc)"

definition same_pointers :: "pf_state \<Rightarrow> pf_state \<Rightarrow> bool" where
  "same_pointers s s' =
     (st_qq s' = st_qq s \<and> st_qq1 s' = st_qq1 s \<and> st_qqm s' = st_qqm s \<and> st_qqm1 s' = st_qqm1 s
      \<and> st_qqu s' = st_qqu s \<and> st_qqmu s' = st_qqmu s
      \<and> st_ud_max_size s' = st_ud_max_size s \<and> st_expMLstem s' = st_expMLstem s)"

text \<open>A pass state keeps its compound's frame and its pointers.\<close>

definition cell_rel :: "pf_state \<Rightarrow> pf_state \<Rightarrow> bool" where
  "cell_rel s s' = (same_frame (st_vc s) (st_vc s') \<and> same_pointers s s')"

text \<open>What a step that may end the program has logged, either way.\<close>

definition result_log :: "pf_state pf_result \<Rightarrow> pf_event list" where
  "result_log r = (case r of Inl (e, lg) \<Rightarrow> lg | Inr s \<Rightarrow> st_log s)"

text \<open>
  The factor that the soft constraints contribute to a term: the entry of
  \<open>exp_energy_up\<close>, or the value of the callback \<open>exp_f\<close>, and 1 where there is none.
\<close>

definition sc_up :: "vrna_sc_t option \<Rightarrow> int \<Rightarrow> int \<Rightarrow> real" where
  "sc_up sc i u = mul_sc_up sc i u 1"

definition sc_f :: "vrna_sc_t option \<Rightarrow> int \<Rightarrow> int \<Rightarrow> int \<Rightarrow> int \<Rightarrow> vrna_decomp \<Rightarrow> real" where
  "sc_f sc i j k l d = mul_sc_f sc i j k l d 1"

text \<open>
  The second compound is the first one but for the array \<open>qm2\<close>: what the first
  step of a circular pass does to its compound.
\<close>

definition only_qm2 :: "vrna_fold_compound_t \<Rightarrow> vrna_fold_compound_t \<Rightarrow> bool" where
  "only_qm2 vc vc' =
     (vc' = vc\<lparr>vc_exp_matrices := (vc_exp_matrices vc)\<lparr>mx_qm2 := mx_qm2 (vc_exp_matrices vc')\<rparr>\<rparr>)"

text \<open>
  The weights of the recursions are Boltzmann factors, none of which is negative. For the
  collaborators this is a property of functions that are not at hand, and for the
  matrices one of the passes that filled them; both are stated here.
\<close>

definition nonneg_weights :: "collaborators \<Rightarrow> bool" where
  "nonneg_weights env =
     ((\<forall>vc i j. 0 \<le> vrna_exp_E_hp_loop env vc i j)
      \<and> (\<forall>u1 u2 t t2 a b c d P. 0 \<le> exp_E_IntLoop env u1 u2 t t2 a b c d P)
      \<and> (\<forall>u t a b str P. 0 \<le> exp_E_Hairpin env u t a b str P))"

definition nonneg_matrices :: "vrna_fold_compound_t \<Rightarrow> bool" where
  "nonneg_matrices vc =
     ((\<forall>ij. 0 \<le> mx_qb (vc_exp_matrices vc) ij)
      \<and> (\<forall>ij. 0 \<le> mx_qm (vc_exp_matrices vc) ij)
      \<and> (\<forall>a ij. mx_qm1 (vc_exp_matrices vc) = Some a \<longrightarrow> 0 \<le> a ij)
      \<and> (\<forall>k. 0 \<le> mx_qm2 (vc_exp_matrices vc) k)
      \<and> (\<forall>d. 0 \<le> mx_scale (vc_exp_matrices vc) d)
      \<and> 0 \<le> ep_expMLclosing (vc_exp_params vc))"

definition nonneg_scs :: "vrna_fold_compound_t \<Rightarrow> bool" where
  "nonneg_scs vc =
     (\<forall>sc s c. vc_scs vc = Some sc \<longrightarrow> sc s = Some c \<longrightarrow>
        (\<forall>up i u. sc_exp_energy_up c = Some up \<longrightarrow> 0 \<le> up i u)
        \<and> (\<forall>st i. sc_exp_energy_stack c = Some st \<longrightarrow> 0 \<le> st i))"

text \<open>The second compound has the matrix \<open>qm1\<close> exactly if the first one has it.\<close>

definition qm1_kept :: "vrna_fold_compound_t \<Rightarrow> vrna_fold_compound_t \<Rightarrow> bool" where
  "qm1_kept vc vc' =
     ((mx_qm1 (vc_exp_matrices vc') = None) = (mx_qm1 (vc_exp_matrices vc) = None))"

section \<open>Example data\<close>

text \<open>
  A small concrete instance for evaluating the model: collaborators whose hairpin weight
  is 1 and whose other loop weights are 0 or 1, with the library's values for the
  constants (\<open>TURN = 3\<close>, \<open>MAXLOOP = 30\<close>, \<open>INF = 10000000\<close>, \<open>FLT_MIN\<close> and \<open>DBL_MAX\<close>),
  and a fold compound of length \<open>n\<close> with the library's triangular indexing, unit scale
  factors, every pair and every unpaired stretch allowed, and no soft constraints.
\<close>

definition example_env :: collaborators where
  "example_env = \<lparr>
     vrna_exp_E_hp_loop = (\<lambda>vc i j. 1),
     vrna_exp_E_int_loop = (\<lambda>vc i j. 0),
     vrna_exp_E_mb_loop_fast = (\<lambda>vc i j qqm1. 0),
     exp_E_MLstem = (\<lambda>type si1 sj1 P. 1),
     exp_E_ExtLoop = (\<lambda>type si1 sj1 P. 1),
     exp_E_IntLoop = (\<lambda>u1 u2 type type2 si1 sj1 sp1 sq1 P. 1),
     exp_E_Hairpin = (\<lambda>u type si1 sj1 str P. 1),
     get_gquad_pf_matrix = (\<lambda>S sc P ij. 0),
     vrna_fold_compound_prepare = (\<lambda>vc. vc),
     vrna_pairing_probs = (\<lambda>vc structure. (\<lambda>ij. 0, structure)),
     ud_exp_energy_cb = (\<lambda>vc i j flags. 1),
     ud_exp_prod_cb = (\<lambda>vc d. d),
     TURN = 3,
     MAXLOOP = 30,
     c_INF = 10000000,
     FLT_MIN = 1 / 2 ^ 126,
     max_real = 2 ^ 1024 - 2 ^ 971,
     VRNA_CONSTRAINT_CONTEXT_EXT_LOOP = 0x01,
     VRNA_CONSTRAINT_CONTEXT_HP_LOOP = 0x02,
     VRNA_CONSTRAINT_CONTEXT_INT_LOOP = 0x04,
     VRNA_CONSTRAINT_CONTEXT_MB_LOOP_ENC = 0x20 \<rparr>"

definition example_vc :: "vrna_fc_type_e \<Rightarrow> int \<Rightarrow> int \<Rightarrow> int \<Rightarrow> vrna_fold_compound_t" where
  "example_vc type n turn circ = \<lparr>
     vc_type = type,
     vc_length = n,
     vc_n_seq = 2,
     vc_iindx = (\<lambda>i. ((n + 1 - i) * (n - i)) div 2 + n + 1),
     vc_jindx = (\<lambda>j. (j * (j - 1)) div 2),
     vc_ptype = (\<lambda>ij. 1),
     vc_sequence_encoding = (\<lambda>i. 1),
     vc_sequence_encoding2 = (\<lambda>i. 1),
     vc_S = (\<lambda>s i. 1),
     vc_S5 = (\<lambda>s i. 1),
     vc_S3 = (\<lambda>s i. 1),
     vc_Ss = (\<lambda>s. replicate (nat n) CHR ''A''),
     vc_a2s = (\<lambda>s i. i),
     vc_pscore = (\<lambda>ij. 0),
     vc_exp_params = \<lparr>
       ep_model_details = \<lparr>md_circ = circ, md_gquad = 0, md_min_loop_size = turn,
         md_backtrack_type = CHR ''F'', md_compute_bpp = 1,
         md_rtype = (\<lambda>t. t), md_pair = (\<lambda>a b. 1)\<rparr>,
       ep_pf_scale = 1, ep_kT = 10, ep_expMLclosing = 1\<rparr>,
     vc_exp_matrices = \<lparr>
       mx_q = (\<lambda>ij. 0), mx_qb = (\<lambda>ij. 0), mx_qm = (\<lambda>ij. 0), mx_qm1 = Some (\<lambda>ij. 0),
       mx_qm2 = (\<lambda>k. 0), mx_G = (\<lambda>ij. 0), mx_q1k = Some (\<lambda>k. 0), mx_qln = Some (\<lambda>k. 0),
       mx_probs = (\<lambda>ij. 0), mx_scale = (\<lambda>d. 1), mx_expMLbase = (\<lambda>d. 1),
       mx_qo = 0, mx_qho = 0, mx_qio = 0, mx_qmo = 0\<rparr>,
     vc_hc = \<lparr>hc_matrix = (\<lambda>ij. 0x3F), hc_up_ext = (\<lambda>i. n), hc_up_hp = (\<lambda>i. n),
       hc_up_int = (\<lambda>i. n), hc_up_ml = (\<lambda>i. n)\<rparr>,
     vc_sc = None,
     vc_scs = None,
     vc_domains_up = None,
     vc_stat_cb_set = True \<rparr>"

text \<open>
  The example compound of length 2 with the scale factors \<open>scale[d] = 2 ^ (e * d)\<close>, as a
  small \<open>pf_scale\<close> gives them.
\<close>

definition example_scaled :: "vrna_fc_type_e \<Rightarrow> nat \<Rightarrow> vrna_fold_compound_t" where
  "example_scaled type e =
     (example_vc type 2 0 0)
       \<lparr>vc_exp_matrices := (vc_exp_matrices (example_vc type 2 0 0))\<lparr>mx_scale := (\<lambda>d. 2 ^ (e * nat d))\<rparr>\<rparr>"

text \<open>The alignment example of length 2 with the covariance score 1 for every pair.\<close>

definition example_pscore :: vrna_fold_compound_t where
  "example_pscore = (example_vc VRNA_VC_TYPE_ALIGNMENT 2 0 0)\<lparr>vc_pscore := (\<lambda>ij. 1)\<rparr>"


text \<open>
  The single-sequence example of length 3 with a soft-constraint callback \<open>exp_f\<close> that
  doubles the weight of every exterior split (\<open>VRNA_DECOMP_EXT_EXT_EXT\<close>) and leaves all
  other decompositions alone; and the state of its linear pass when the interval \<open>(1,3)\<close>
  is about to be processed, that is after column 2 and the interval \<open>(2,3)\<close>.
\<close>

definition example_sc_f :: vrna_fold_compound_t where
  "example_sc_f =
     (example_vc VRNA_VC_TYPE_SINGLE 3 0 0)
       \<lparr>vc_sc := Some \<lparr>sc_exp_energy_up = None, sc_exp_energy_stack = None,
                        sc_exp_f = Some (\<lambda>i j k l d. if d = VRNA_DECOMP_EXT_EXT_EXT then 2 else 1)\<rparr>\<rparr>"

definition example_sc_f_state :: pf_state where
  "example_sc_f_state =
     projr (pf_linear_cell example_env 3 2
       (projr (pf_linear_column example_env 2 (pf_linear_init example_env example_sc_f []))))"

text \<open>
  The circular alignment example of length 5 (with \<open>min_loop_size = TURN = 3\<close>) whose hard
  constraints do not let position 1 be unpaired in the exterior loop: \<open>up_ext[1] = 0\<close>,
  and \<open>up_ext[i] = n - i + 1\<close> for the other positions.
\<close>

definition example_paired_start :: vrna_fold_compound_t where
  "example_paired_start =
     (example_vc VRNA_VC_TYPE_ALIGNMENT 5 3 1)
       \<lparr>vc_hc := (vc_hc (example_vc VRNA_VC_TYPE_ALIGNMENT 5 3 1))\<lparr>hc_up_ext := (\<lambda>i. if i = 1 then 0 else 6 - i)\<rparr>\<rparr>"

text \<open>The circular single-sequence example of length 2 without the matrix \<open>qm1\<close>.\<close>

definition example_no_qm1 :: vrna_fold_compound_t where
  "example_no_qm1 =
     (example_vc VRNA_VC_TYPE_SINGLE 2 0 1)
       \<lparr>vc_exp_matrices := (vc_exp_matrices (example_vc VRNA_VC_TYPE_SINGLE 2 0 1))\<lparr>mx_qm1 := None\<rparr>\<rparr>"

text \<open>
  The example compound of length 2 with \<open>min_loop_size = 0\<close>, \<open>pf_scale = e\<close> and a chosen
  backtrack type; and the same with backtrack type \<open>'C'\<close> and hard constraints that allow
  no pair at all, so that \<open>qb(1,2) = 0\<close>.
\<close>

definition example_pf :: "vrna_fc_type_e \<Rightarrow> int \<Rightarrow> char \<Rightarrow> vrna_fold_compound_t" where
  "example_pf type circ bt =
     (example_vc type 2 0 circ)
       \<lparr>vc_exp_params := (vc_exp_params (example_vc type 2 0 circ))
          \<lparr>ep_model_details := (ep_model_details (vc_exp_params (example_vc type 2 0 circ)))
             \<lparr>md_backtrack_type := bt\<rparr>,
           ep_pf_scale := exp 1\<rparr>\<rparr>"

definition example_unpairable :: vrna_fold_compound_t where
  "example_unpairable =
     (example_pf VRNA_VC_TYPE_SINGLE 0 (CHR ''C''))
       \<lparr>vc_hc := (vc_hc (example_pf VRNA_VC_TYPE_SINGLE 0 (CHR ''C'')))\<lparr>hc_matrix := (\<lambda>ij. 0)\<rparr>\<rparr>"

section \<open>Supporting lemmas\<close>

subsection \<open>Frames and pointers\<close>

lemma same_frame_refl: "same_frame vc vc"
  unfolding same_frame_def by simp

lemma same_frame_trans:
  assumes "same_frame a b" "same_frame b c"
  shows "same_frame a c"
proof -
  have "c\<lparr>vc_exp_matrices := vc_exp_matrices a, vc_domains_up := vc_domains_up a\<rparr>
        = (c\<lparr>vc_exp_matrices := vc_exp_matrices b, vc_domains_up := vc_domains_up b\<rparr>)
            \<lparr>vc_exp_matrices := vc_exp_matrices a, vc_domains_up := vc_domains_up a\<rparr>"
    by simp
  also have "\<dots> = b\<lparr>vc_exp_matrices := vc_exp_matrices a, vc_domains_up := vc_domains_up a\<rparr>"
    using assms(2) unfolding same_frame_def by simp
  also have "\<dots> = a"
    using assms(1) unfolding same_frame_def by simp
  finally show ?thesis unfolding same_frame_def .
qed

lemma same_frame_fields:
  assumes "same_frame vc vc'"
  shows "vc_type vc' = vc_type vc"
    "vc_length vc' = vc_length vc"
    "vc_n_seq vc' = vc_n_seq vc"
    "vc_exp_params vc' = vc_exp_params vc"
    "vc_iindx vc' = vc_iindx vc"
    "vc_jindx vc' = vc_jindx vc"
    "vc_hc vc' = vc_hc vc"
    "vc_sc vc' = vc_sc vc"
    "vc_scs vc' = vc_scs vc"
    "vc_stat_cb_set vc' = vc_stat_cb_set vc"
    "vc_ptype vc' = vc_ptype vc"
    "vc_sequence_encoding vc' = vc_sequence_encoding vc"
    "vc_sequence_encoding2 vc' = vc_sequence_encoding2 vc"
    "vc_S vc' = vc_S vc"
    "vc_S5 vc' = vc_S5 vc"
    "vc_S3 vc' = vc_S3 vc"
    "vc_Ss vc' = vc_Ss vc"
    "vc_a2s vc' = vc_a2s vc"
    "vc_pscore vc' = vc_pscore vc"
proof -
  have e: "vc'\<lparr>vc_exp_matrices := vc_exp_matrices vc, vc_domains_up := vc_domains_up vc\<rparr> = vc"
    using assms unfolding same_frame_def .
  show "vc_type vc' = vc_type vc" using arg_cong [OF e, of vc_type] by simp
  show "vc_length vc' = vc_length vc" using arg_cong [OF e, of vc_length] by simp
  show "vc_n_seq vc' = vc_n_seq vc" using arg_cong [OF e, of vc_n_seq] by simp
  show "vc_exp_params vc' = vc_exp_params vc" using arg_cong [OF e, of vc_exp_params] by simp
  show "vc_iindx vc' = vc_iindx vc" using arg_cong [OF e, of vc_iindx] by simp
  show "vc_jindx vc' = vc_jindx vc" using arg_cong [OF e, of vc_jindx] by simp
  show "vc_hc vc' = vc_hc vc" using arg_cong [OF e, of vc_hc] by simp
  show "vc_sc vc' = vc_sc vc" using arg_cong [OF e, of vc_sc] by simp
  show "vc_scs vc' = vc_scs vc" using arg_cong [OF e, of vc_scs] by simp
  show "vc_stat_cb_set vc' = vc_stat_cb_set vc" using arg_cong [OF e, of vc_stat_cb_set] by simp
  show "vc_ptype vc' = vc_ptype vc" using arg_cong [OF e, of vc_ptype] by simp
  show "vc_sequence_encoding vc' = vc_sequence_encoding vc" using arg_cong [OF e, of vc_sequence_encoding] by simp
  show "vc_sequence_encoding2 vc' = vc_sequence_encoding2 vc" using arg_cong [OF e, of vc_sequence_encoding2] by simp
  show "vc_S vc' = vc_S vc" using arg_cong [OF e, of vc_S] by simp
  show "vc_S5 vc' = vc_S5 vc" using arg_cong [OF e, of vc_S5] by simp
  show "vc_S3 vc' = vc_S3 vc" using arg_cong [OF e, of vc_S3] by simp
  show "vc_Ss vc' = vc_Ss vc" using arg_cong [OF e, of vc_Ss] by simp
  show "vc_a2s vc' = vc_a2s vc" using arg_cong [OF e, of vc_a2s] by simp
  show "vc_pscore vc' = vc_pscore vc" using arg_cong [OF e, of vc_pscore] by simp
qed

lemma same_frame_set:
  "same_frame vc (set_q vc ij v)" "same_frame vc (set_qb vc ij v)" "same_frame vc (set_qm vc ij v)"
  "same_frame vc (set_qm1 vc ij v)" "same_frame vc (set_qm2 vc ij v)"
  "same_frame vc (set_circ_totals vc a b c d)"
  by (simp_all add: set_q_def set_qb_def set_qm_def set_qm1_def set_qm2_def set_circ_totals_def
      same_frame_def split: option.splits)

lemma for_each_preserves:
  assumes "for_each f xs s = Inr s'"
    and "\<And>x a b. f x a = Inr b \<Longrightarrow> R a b"
    and "\<And>a. R a a"
    and "\<And>a b c. R a b \<Longrightarrow> R b c \<Longrightarrow> R a c"
  shows "R s s'"
  using assms(1)
proof (induction xs arbitrary: s)
  case Nil
  then show ?case by (simp add: assms(3))
next
  case (Cons x xs)
  then obtain m where m: "f x s = Inr m" and r: "for_each f xs m = Inr s'"
    by (auto split: sum.splits)
  from assms(2) [OF m] Cons.IH [OF r] show ?case by (rule assms(4))
qed

lemma fold_preserves:
  assumes "\<And>x a. R a (f x a)" and "\<And>a. R a a" and "\<And>a b c. R a b \<Longrightarrow> R b c \<Longrightarrow> R a c"
  shows "R s (fold f xs s)"
proof (induction xs arbitrary: s)
  case Nil
  then show ?case by (simp add: assms(2))
next
  case (Cons x xs)
  show ?case using assms(3) [OF assms(1) [of s x] Cons.IH [of "f x s"]] by simp
qed

lemma cell_rel_refl: "cell_rel s s"
  by (simp add: cell_rel_def same_frame_refl same_pointers_def)

lemma cell_rel_trans [trans]: "cell_rel a b \<Longrightarrow> cell_rel b c \<Longrightarrow> cell_rel a c"
  by (auto simp: cell_rel_def same_pointers_def intro: same_frame_trans)

lemma pf_linear_steps_rel:
  "cell_rel s (pf_linear_qb env i j s)"
  "cell_rel s (pf_linear_qqm env i j s)"
  "cell_rel s (pf_linear_qm env i j s)"
  "cell_rel s (pf_linear_qq env i j s)"
  "cell_rel s (pf_linear_q env i j s)"
  by (simp_all add: cell_rel_def same_pointers_def same_frame_set same_frame_refl pf_linear_qb_def
      pf_linear_qqm_def pf_linear_qm_def pf_linear_qq_def pf_linear_q_def Let_def)

lemma alipf_linear_steps_rel:
  "cell_rel s (alipf_linear_qb env i j s)"
  "cell_rel s (alipf_linear_qqm env i j s)"
  "cell_rel s (alipf_linear_qm env i j s)"
  "cell_rel s (alipf_linear_qq env i j s)"
  "cell_rel s (alipf_linear_q env i j s)"
  by (simp_all add: cell_rel_def same_pointers_def same_frame_set same_frame_refl alipf_linear_qb_def
      alipf_linear_qqm_def alipf_linear_qm_def alipf_linear_qq_def alipf_linear_q_def Let_def)

lemma pf_linear_upto_qq_rel: "cell_rel s (pf_linear_upto_qq env i j s)"
proof -
  let ?s1 = "pf_linear_qb env i j s"
  let ?s2 = "pf_linear_qqm env i j ?s1"
  let ?s3 = "pf_linear_qm env i j ?s2"
  have "cell_rel s ?s1" by (rule pf_linear_steps_rel)
  also have "cell_rel ?s1 ?s2" by (rule pf_linear_steps_rel)
  also have "cell_rel ?s2 ?s3" by (rule pf_linear_steps_rel)
  also have "cell_rel ?s3 (pf_linear_qq env i j ?s3)" by (rule pf_linear_steps_rel)
  finally show ?thesis by (simp add: pf_linear_upto_qq_def)
qed

lemma pf_linear_stored_rel: "cell_rel s (pf_linear_stored env i j s)"
  unfolding pf_linear_stored_def
  by (rule cell_rel_trans [OF pf_linear_upto_qq_rel pf_linear_steps_rel(5)])

lemma alipf_linear_upto_qq_rel: "cell_rel s (alipf_linear_upto_qq env i j s)"
proof -
  let ?s1 = "alipf_linear_qb env i j s"
  let ?s2 = "alipf_linear_qqm env i j ?s1"
  let ?s3 = "alipf_linear_qm env i j ?s2"
  have "cell_rel s ?s1" by (rule alipf_linear_steps_rel)
  also have "cell_rel ?s1 ?s2" by (rule alipf_linear_steps_rel)
  also have "cell_rel ?s2 ?s3" by (rule alipf_linear_steps_rel)
  also have "cell_rel ?s3 (alipf_linear_qq env i j ?s3)" by (rule alipf_linear_steps_rel)
  finally show ?thesis by (simp add: alipf_linear_upto_qq_def)
qed

lemma alipf_linear_stored_rel: "cell_rel s (alipf_linear_stored env i j s)"
  unfolding alipf_linear_stored_def
  by (rule cell_rel_trans [OF alipf_linear_upto_qq_rel alipf_linear_steps_rel(5)])

text \<open>The checks touch nothing but the running maximum and the log.\<close>

lemma overflow_check_Inr:
  assumes "overflow_check env i j temp s = Inr s'"
  shows "st_vc s' = st_vc s" "st_heap s' = st_heap s" "same_pointers s s'" "temp < max_real env"
  using assms unfolding overflow_check_def Let_def same_pointers_def
  by (auto split: if_splits)

lemma pf_linear_cell_Inr:
  assumes "pf_linear_cell env j i s = Inr s'"
  shows "st_vc s' = st_vc (pf_linear_stored env i j s)"
    "st_heap s' = st_heap (pf_linear_stored env i j s)"
    "cell_rel s s'"
proof -
  let ?t = "pf_linear_stored env i j s"
  have c: "overflow_check env i j (pf_linear_q_temp env i j (pf_linear_upto_qq env i j s)) ?t = Inr s'"
    using assms by (simp add: pf_linear_cell_def Let_def)
  show "st_vc s' = st_vc ?t" "st_heap s' = st_heap ?t"
    using overflow_check_Inr [OF c] by simp_all
  have "cell_rel ?t s'"
    using overflow_check_Inr [OF c] by (simp add: cell_rel_def same_frame_refl)
  with pf_linear_stored_rel [of s env i j] show "cell_rel s s'"
    by (rule cell_rel_trans)
qed

lemma alipf_linear_cell_Inr:
  assumes "alipf_linear_cell env j i s = Inr s'"
  shows "st_vc s' = st_vc (alipf_linear_stored env i j s)"
    "st_heap s' = st_heap (alipf_linear_stored env i j s)"
    "cell_rel s s'"
proof -
  let ?t = "alipf_linear_stored env i j s"
  have c: "overflow_check env i j (alipf_linear_q_temp env i j (alipf_linear_upto_qq env i j s)) ?t = Inr s'"
    using assms by (simp add: alipf_linear_cell_def Let_def)
  show "st_vc s' = st_vc ?t" "st_heap s' = st_heap ?t"
    using overflow_check_Inr [OF c] by simp_all
  have "cell_rel ?t s'"
    using overflow_check_Inr [OF c] by (simp add: cell_rel_def same_frame_refl)
  with alipf_linear_stored_rel [of s env i j] show "cell_rel s s'"
    by (rule cell_rel_trans)
qed

lemma pf_linear_inner_rel:
  assumes "pf_linear_inner env j s = Inr s'"
  shows "cell_rel s s'"
  using assms unfolding pf_linear_inner_def Let_def
  by (rule for_each_preserves) (auto intro: pf_linear_cell_Inr cell_rel_refl cell_rel_trans)

lemma alipf_linear_inner_rel:
  assumes "alipf_linear_inner env j s = Inr s'"
  shows "cell_rel s s'"
  using assms unfolding alipf_linear_inner_def Let_def
  by (rule for_each_preserves) (auto intro: alipf_linear_cell_Inr cell_rel_refl cell_rel_trans)

subsection \<open>The frame of a whole pass\<close>

lemma same_frame_fold:
  assumes "\<And>x a. same_frame a (f x a)"
  shows "same_frame vc (fold f xs vc)"
  using assms by (rule fold_preserves) (auto intro: same_frame_refl same_frame_trans)

lemma pf_linear_seed_frame: "same_frame vc (pf_linear_seed env d i vc)"
  by (simp add: pf_linear_seed_def Let_def same_frame_def set_q_def set_qm_def set_qb_def)

lemma pf_linear_init_frame: "same_frame vc (st_vc (pf_linear_init env vc lg))"
proof -
  have 1: "same_frame vc (pf_linear_prod env vc)"
    by (simp add: pf_linear_prod_def same_frame_def split: option.splits)
  have 2: "\<And>vc. same_frame vc (pf_linear_gquad env vc)"
    by (simp add: pf_linear_gquad_def same_frame_def)
  have 3: "\<And>vc ds n. same_frame vc (fold (\<lambda>d vc. fold (pf_linear_seed env d) [1..n - d] vc) ds vc)"
    by (intro same_frame_fold pf_linear_seed_frame)
  have "same_frame vc (pf_linear_gquad env (pf_linear_prod env vc))"
    by (rule same_frame_trans [OF 1 2])
  from same_frame_trans [OF this 3] show ?thesis
    by (simp add: pf_linear_init_def Let_def)
qed

lemma pf_linear_prefill_frame: "same_frame vc (pf_linear_prefill vc)"
  by (simp add: pf_linear_prefill_def Let_def same_frame_def split: option.splits prod.splits)

lemma pf_linear_column_frame:
  assumes "pf_linear_column env j s = Inr s'"
  shows "same_frame (st_vc s) (st_vc s')"
proof -
  from assms obtain t where t: "pf_linear_inner env j s = Inr t" and s': "s' = rotate_ud (swap_buffers t)"
    by (auto simp: pf_linear_column_def split: sum.splits)
  have "st_vc s' = st_vc t"
    by (simp add: s' rotate_ud_def swap_buffers_def Let_def)
  with pf_linear_inner_rel [OF t] show ?thesis by (simp add: cell_rel_def)
qed

lemma pf_linear_frame:
  assumes "pf_linear env vc lg = Inr (vc', lg')"
  shows "same_frame vc vc'"
proof -
  let ?s0 = "pf_linear_init env vc lg"
  from assms obtain s where s: "pf_linear_columns env ?s0 = Inr s" and vc': "vc' = pf_linear_prefill (st_vc s)"
    by (auto simp: pf_linear_def split: sum.splits)
  have "same_frame (st_vc ?s0) (st_vc s)"
    using s unfolding pf_linear_columns_def Let_def
    by (rule for_each_preserves) (auto intro: pf_linear_column_frame same_frame_refl same_frame_trans)
  from same_frame_trans [OF pf_linear_init_frame this] same_frame_trans [OF _ pf_linear_prefill_frame]
  show ?thesis by (simp add: vc')
qed

lemma alipf_linear_seed_frame: "same_frame vc (alipf_linear_seed d i vc)"
  by (simp add: alipf_linear_seed_def Let_def same_frame_def set_q_def set_qm_def set_qb_def)

lemma alipf_linear_init_frame: "same_frame vc (st_vc (alipf_linear_init vc lg))"
proof -
  have "\<And>vc ds n. same_frame vc (fold (\<lambda>d vc. fold (alipf_linear_seed d) [1..n - d] vc) ds vc)"
    by (intro same_frame_fold alipf_linear_seed_frame)
  then show ?thesis by (simp add: alipf_linear_init_def Let_def)
qed

lemma alipf_linear_column_frame:
  assumes "alipf_linear_column env j s = Inr s'"
  shows "same_frame (st_vc s) (st_vc s')"
proof -
  from assms obtain t where t: "alipf_linear_inner env j s = Inr t" and s': "s' = swap_buffers t"
    by (auto simp: alipf_linear_column_def split: sum.splits)
  have "st_vc s' = st_vc t"
    by (simp add: s' swap_buffers_def Let_def)
  with alipf_linear_inner_rel [OF t] show ?thesis by (simp add: cell_rel_def)
qed

lemma alipf_linear_frame:
  assumes "alipf_linear env vc lg = Inr (vc', lg')"
  shows "same_frame vc vc'"
proof -
  let ?s0 = "alipf_linear_init vc lg"
  from assms obtain s where s: "alipf_linear_columns env ?s0 = Inr s" and vc': "vc' = st_vc s"
    by (auto simp: alipf_linear_def split: sum.splits)
  have "same_frame (st_vc ?s0) (st_vc s)"
    using s unfolding alipf_linear_columns_def Let_def
    by (rule for_each_preserves) (auto intro: alipf_linear_column_frame same_frame_refl same_frame_trans)
  from same_frame_trans [OF alipf_linear_init_frame this]
  show ?thesis by (simp add: vc')
qed

lemma qm2_step_frame:
  assumes "qm2_step qm1 turn k vc = Inr vc'"
  shows "same_frame vc vc'"
  using assms by (auto simp: qm2_step_def same_frame_set split: sum.splits)

lemma pf_circ_qm2_frame:
  assumes "pf_circ_qm2 vc qm1 = Inr vc'"
  shows "same_frame vc vc'"
  using assms unfolding pf_circ_qm2_def Let_def
  by (rule for_each_preserves) (auto intro: qm2_step_frame same_frame_refl same_frame_trans)

lemma alipf_circ_qm2_frame:
  assumes "alipf_circ_qm2 env vc qm1 = Inr vc'"
  shows "same_frame vc vc'"
  using assms unfolding alipf_circ_qm2_def
  by (rule for_each_preserves) (auto intro: qm2_step_frame same_frame_refl same_frame_trans)

lemma pf_circ_frame:
  assumes "pf_circ env vc lg = Inr (vc', lg')"
  shows "same_frame vc vc'" "lg' = lg"
proof -
  from assms obtain vc1 where q: "pf_circ_qm2 vc (mx_qm1 (vc_exp_matrices vc)) = Inr vc1"
    by (auto simp: pf_circ_def split: sum.splits)
  from assms q same_frame_trans [OF pf_circ_qm2_frame [OF q] same_frame_set(6)]
  show "same_frame vc vc'" "lg' = lg"
    by (auto simp: pf_circ_def Let_def split: prod.splits)
qed

lemma wrap_alipf_circ_frame:
  assumes "wrap_alipf_circ env vc lg = Inr (vc', lg')"
  shows "same_frame vc vc'" "lg' = lg"
proof -
  from assms obtain vc1 where q: "alipf_circ_qm2 env vc (mx_qm1 (vc_exp_matrices vc)) = Inr vc1"
    by (auto simp: wrap_alipf_circ_def split: sum.splits)
  from assms q same_frame_trans [OF alipf_circ_qm2_frame [OF q] same_frame_set(6)]
  show "same_frame vc vc'" "lg' = lg"
    by (auto simp: wrap_alipf_circ_def Let_def split: prod.splits)
qed

lemma vrna_pf_passes_frame:
  assumes "vrna_pf_passes env vc lg = Some (Inr (vc', lg'))"
  shows "same_frame vc vc'"
proof (cases "vc_type vc")
  case VRNA_VC_TYPE_SINGLE
  with assms obtain vc1 lg1 where l: "pf_linear env vc lg = Inr (vc1, lg1)"
    and c: "(if md_circ (ep_model_details (vc_exp_params vc1)) \<noteq> 0 then pf_circ env vc1 lg1 else Inr (vc1, lg1))
            = Inr (vc', lg')"
    by (auto simp: vrna_pf_passes_def split: sum.splits)
  from c have "same_frame vc1 vc'"
    by (auto split: if_splits intro: pf_circ_frame same_frame_refl)
  with pf_linear_frame [OF l] show ?thesis by (rule same_frame_trans)
next
  case VRNA_VC_TYPE_ALIGNMENT
  with assms obtain vc1 lg1 where l: "alipf_linear env vc lg = Inr (vc1, lg1)"
    and c: "(if md_circ (ep_model_details (vc_exp_params vc1)) \<noteq> 0 then wrap_alipf_circ env vc1 lg1 else Inr (vc1, lg1))
            = Inr (vc', lg')"
    by (auto simp: vrna_pf_passes_def split: sum.splits)
  from c have "same_frame vc1 vc'"
    by (auto split: if_splits intro: wrap_alipf_circ_frame same_frame_refl)
  with alipf_linear_frame [OF l] show ?thesis by (rule same_frame_trans)
next
  case (VRNA_VC_TYPE_unrecognized x)
  with assms show ?thesis by (simp add: vrna_pf_passes_def)
qed

subsection \<open>Evaluating the model on the example data\<close>

lemma example_vc_sel:
  "vc_type (example_vc ty n turn circ) = ty"
  "vc_length (example_vc ty n turn circ) = n"
  "vc_n_seq (example_vc ty n turn circ) = 2"
  "vc_iindx (example_vc ty n turn circ) i = ((n + 1 - i) * (n - i)) div 2 + n + 1"
  "vc_jindx (example_vc ty n turn circ) j = (j * (j - 1)) div 2"
  "vc_ptype (example_vc ty n turn circ) ij = 1"
  "vc_sequence_encoding (example_vc ty n turn circ) i = 1"
  "vc_S (example_vc ty n turn circ) s i = 1"
  "vc_S5 (example_vc ty n turn circ) s i = 1"
  "vc_S3 (example_vc ty n turn circ) s i = 1"
  "vc_a2s (example_vc ty n turn circ) s i = i"
  "vc_pscore (example_vc ty n turn circ) ij = 0"
  "vc_sc (example_vc ty n turn circ) = None"
  "vc_scs (example_vc ty n turn circ) = None"
  "vc_domains_up (example_vc ty n turn circ) = None"
  "vc_stat_cb_set (example_vc ty n turn circ) = True"
  "hc_matrix (vc_hc (example_vc ty n turn circ)) ij = 0x3F"
  "hc_up_ext (vc_hc (example_vc ty n turn circ)) i = n"
  "hc_up_hp (vc_hc (example_vc ty n turn circ)) i = n"
  "hc_up_int (vc_hc (example_vc ty n turn circ)) i = n"
  "hc_up_ml (vc_hc (example_vc ty n turn circ)) i = n"
  "md_circ (ep_model_details (vc_exp_params (example_vc ty n turn circ))) = circ"
  "md_gquad (ep_model_details (vc_exp_params (example_vc ty n turn circ))) = 0"
  "md_min_loop_size (ep_model_details (vc_exp_params (example_vc ty n turn circ))) = turn"
  "md_backtrack_type (ep_model_details (vc_exp_params (example_vc ty n turn circ))) = CHR ''F''"
  "md_compute_bpp (ep_model_details (vc_exp_params (example_vc ty n turn circ))) = 1"
  "md_rtype (ep_model_details (vc_exp_params (example_vc ty n turn circ))) t = t"
  "md_pair (ep_model_details (vc_exp_params (example_vc ty n turn circ))) a b = 1"
  "ep_pf_scale (vc_exp_params (example_vc ty n turn circ)) = 1"
  "ep_kT (vc_exp_params (example_vc ty n turn circ)) = 10"
  "ep_expMLclosing (vc_exp_params (example_vc ty n turn circ)) = 1"
  "mx_q (vc_exp_matrices (example_vc ty n turn circ)) ij = 0"
  "mx_qb (vc_exp_matrices (example_vc ty n turn circ)) ij = 0"
  "mx_qm (vc_exp_matrices (example_vc ty n turn circ)) ij = 0"
  "mx_qm1 (vc_exp_matrices (example_vc ty n turn circ)) = Some (\<lambda>ij. 0)"
  "mx_qm2 (vc_exp_matrices (example_vc ty n turn circ)) k = 0"
  "mx_G (vc_exp_matrices (example_vc ty n turn circ)) ij = 0"
  "mx_q1k (vc_exp_matrices (example_vc ty n turn circ)) = Some (\<lambda>k. 0)"
  "mx_qln (vc_exp_matrices (example_vc ty n turn circ)) = Some (\<lambda>k. 0)"
  "mx_scale (vc_exp_matrices (example_vc ty n turn circ)) d = 1"
  "mx_expMLbase (vc_exp_matrices (example_vc ty n turn circ)) d = 1"
  by (simp_all add: example_vc_def)

lemma example_env_sel:
  "vrna_exp_E_hp_loop example_env vc i j = 1"
  "vrna_exp_E_int_loop example_env vc i j = 0"
  "vrna_exp_E_mb_loop_fast example_env vc i j qqm1 = 0"
  "exp_E_MLstem example_env type si1 sj1 P = 1"
  "exp_E_ExtLoop example_env type si1 sj1 P = 1"
  "exp_E_IntLoop example_env u1 u2 type type2 si1 sj1 sp1 sq1 P = 1"
  "exp_E_Hairpin example_env u type si1 sj1 str P = 1"
  "vrna_fold_compound_prepare example_env vc = vc"
  "vrna_pairing_probs example_env vc structure = (\<lambda>ij. 0, structure)"
  "ud_exp_energy_cb example_env vc i j flags = 1"
  "TURN example_env = 3"
  "MAXLOOP example_env = 30"
  "c_INF example_env = 10000000"
  "FLT_MIN example_env = 1 / 2 ^ 126"
  "max_real example_env = 2 ^ 1024 - 2 ^ 971"
  "VRNA_CONSTRAINT_CONTEXT_EXT_LOOP example_env = 0x01"
  "VRNA_CONSTRAINT_CONTEXT_HP_LOOP example_env = 0x02"
  "VRNA_CONSTRAINT_CONTEXT_INT_LOOP example_env = 0x04"
  "VRNA_CONSTRAINT_CONTEXT_MB_LOOP_ENC example_env = 0x20"
  by (simp_all add: example_env_def)

text \<open>Reading a compound through the stores to its matrices, one field at a time.\<close>

lemma set_sel:
  "vc_type (set_q vc ij v) = vc_type vc"
  "vc_length (set_q vc ij v) = vc_length vc"
  "vc_n_seq (set_q vc ij v) = vc_n_seq vc"
  "vc_iindx (set_q vc ij v) = vc_iindx vc"
  "vc_jindx (set_q vc ij v) = vc_jindx vc"
  "vc_ptype (set_q vc ij v) = vc_ptype vc"
  "vc_sequence_encoding (set_q vc ij v) = vc_sequence_encoding vc"
  "vc_sequence_encoding2 (set_q vc ij v) = vc_sequence_encoding2 vc"
  "vc_S (set_q vc ij v) = vc_S vc"
  "vc_S5 (set_q vc ij v) = vc_S5 vc"
  "vc_S3 (set_q vc ij v) = vc_S3 vc"
  "vc_Ss (set_q vc ij v) = vc_Ss vc"
  "vc_a2s (set_q vc ij v) = vc_a2s vc"
  "vc_pscore (set_q vc ij v) = vc_pscore vc"
  "vc_exp_params (set_q vc ij v) = vc_exp_params vc"
  "vc_hc (set_q vc ij v) = vc_hc vc"
  "vc_sc (set_q vc ij v) = vc_sc vc"
  "vc_scs (set_q vc ij v) = vc_scs vc"
  "vc_domains_up (set_q vc ij v) = vc_domains_up vc"
  "vc_stat_cb_set (set_q vc ij v) = vc_stat_cb_set vc"
  "vc_type (set_qb vc ij v) = vc_type vc"
  "vc_length (set_qb vc ij v) = vc_length vc"
  "vc_n_seq (set_qb vc ij v) = vc_n_seq vc"
  "vc_iindx (set_qb vc ij v) = vc_iindx vc"
  "vc_jindx (set_qb vc ij v) = vc_jindx vc"
  "vc_ptype (set_qb vc ij v) = vc_ptype vc"
  "vc_sequence_encoding (set_qb vc ij v) = vc_sequence_encoding vc"
  "vc_sequence_encoding2 (set_qb vc ij v) = vc_sequence_encoding2 vc"
  "vc_S (set_qb vc ij v) = vc_S vc"
  "vc_S5 (set_qb vc ij v) = vc_S5 vc"
  "vc_S3 (set_qb vc ij v) = vc_S3 vc"
  "vc_Ss (set_qb vc ij v) = vc_Ss vc"
  "vc_a2s (set_qb vc ij v) = vc_a2s vc"
  "vc_pscore (set_qb vc ij v) = vc_pscore vc"
  "vc_exp_params (set_qb vc ij v) = vc_exp_params vc"
  "vc_hc (set_qb vc ij v) = vc_hc vc"
  "vc_sc (set_qb vc ij v) = vc_sc vc"
  "vc_scs (set_qb vc ij v) = vc_scs vc"
  "vc_domains_up (set_qb vc ij v) = vc_domains_up vc"
  "vc_stat_cb_set (set_qb vc ij v) = vc_stat_cb_set vc"
  "vc_type (set_qm vc ij v) = vc_type vc"
  "vc_length (set_qm vc ij v) = vc_length vc"
  "vc_n_seq (set_qm vc ij v) = vc_n_seq vc"
  "vc_iindx (set_qm vc ij v) = vc_iindx vc"
  "vc_jindx (set_qm vc ij v) = vc_jindx vc"
  "vc_ptype (set_qm vc ij v) = vc_ptype vc"
  "vc_sequence_encoding (set_qm vc ij v) = vc_sequence_encoding vc"
  "vc_sequence_encoding2 (set_qm vc ij v) = vc_sequence_encoding2 vc"
  "vc_S (set_qm vc ij v) = vc_S vc"
  "vc_S5 (set_qm vc ij v) = vc_S5 vc"
  "vc_S3 (set_qm vc ij v) = vc_S3 vc"
  "vc_Ss (set_qm vc ij v) = vc_Ss vc"
  "vc_a2s (set_qm vc ij v) = vc_a2s vc"
  "vc_pscore (set_qm vc ij v) = vc_pscore vc"
  "vc_exp_params (set_qm vc ij v) = vc_exp_params vc"
  "vc_hc (set_qm vc ij v) = vc_hc vc"
  "vc_sc (set_qm vc ij v) = vc_sc vc"
  "vc_scs (set_qm vc ij v) = vc_scs vc"
  "vc_domains_up (set_qm vc ij v) = vc_domains_up vc"
  "vc_stat_cb_set (set_qm vc ij v) = vc_stat_cb_set vc"
  "vc_type (set_qm1 vc ij v) = vc_type vc"
  "vc_length (set_qm1 vc ij v) = vc_length vc"
  "vc_n_seq (set_qm1 vc ij v) = vc_n_seq vc"
  "vc_iindx (set_qm1 vc ij v) = vc_iindx vc"
  "vc_jindx (set_qm1 vc ij v) = vc_jindx vc"
  "vc_ptype (set_qm1 vc ij v) = vc_ptype vc"
  "vc_sequence_encoding (set_qm1 vc ij v) = vc_sequence_encoding vc"
  "vc_sequence_encoding2 (set_qm1 vc ij v) = vc_sequence_encoding2 vc"
  "vc_S (set_qm1 vc ij v) = vc_S vc"
  "vc_S5 (set_qm1 vc ij v) = vc_S5 vc"
  "vc_S3 (set_qm1 vc ij v) = vc_S3 vc"
  "vc_Ss (set_qm1 vc ij v) = vc_Ss vc"
  "vc_a2s (set_qm1 vc ij v) = vc_a2s vc"
  "vc_pscore (set_qm1 vc ij v) = vc_pscore vc"
  "vc_exp_params (set_qm1 vc ij v) = vc_exp_params vc"
  "vc_hc (set_qm1 vc ij v) = vc_hc vc"
  "vc_sc (set_qm1 vc ij v) = vc_sc vc"
  "vc_scs (set_qm1 vc ij v) = vc_scs vc"
  "vc_domains_up (set_qm1 vc ij v) = vc_domains_up vc"
  "vc_stat_cb_set (set_qm1 vc ij v) = vc_stat_cb_set vc"
  "vc_type (set_qm2 vc ij v) = vc_type vc"
  "vc_length (set_qm2 vc ij v) = vc_length vc"
  "vc_n_seq (set_qm2 vc ij v) = vc_n_seq vc"
  "vc_iindx (set_qm2 vc ij v) = vc_iindx vc"
  "vc_jindx (set_qm2 vc ij v) = vc_jindx vc"
  "vc_ptype (set_qm2 vc ij v) = vc_ptype vc"
  "vc_sequence_encoding (set_qm2 vc ij v) = vc_sequence_encoding vc"
  "vc_sequence_encoding2 (set_qm2 vc ij v) = vc_sequence_encoding2 vc"
  "vc_S (set_qm2 vc ij v) = vc_S vc"
  "vc_S5 (set_qm2 vc ij v) = vc_S5 vc"
  "vc_S3 (set_qm2 vc ij v) = vc_S3 vc"
  "vc_Ss (set_qm2 vc ij v) = vc_Ss vc"
  "vc_a2s (set_qm2 vc ij v) = vc_a2s vc"
  "vc_pscore (set_qm2 vc ij v) = vc_pscore vc"
  "vc_exp_params (set_qm2 vc ij v) = vc_exp_params vc"
  "vc_hc (set_qm2 vc ij v) = vc_hc vc"
  "vc_sc (set_qm2 vc ij v) = vc_sc vc"
  "vc_scs (set_qm2 vc ij v) = vc_scs vc"
  "vc_domains_up (set_qm2 vc ij v) = vc_domains_up vc"
  "vc_stat_cb_set (set_qm2 vc ij v) = vc_stat_cb_set vc"
  "vc_type (set_circ_totals vc a b c d) = vc_type vc"
  "vc_length (set_circ_totals vc a b c d) = vc_length vc"
  "vc_n_seq (set_circ_totals vc a b c d) = vc_n_seq vc"
  "vc_iindx (set_circ_totals vc a b c d) = vc_iindx vc"
  "vc_jindx (set_circ_totals vc a b c d) = vc_jindx vc"
  "vc_ptype (set_circ_totals vc a b c d) = vc_ptype vc"
  "vc_sequence_encoding (set_circ_totals vc a b c d) = vc_sequence_encoding vc"
  "vc_sequence_encoding2 (set_circ_totals vc a b c d) = vc_sequence_encoding2 vc"
  "vc_S (set_circ_totals vc a b c d) = vc_S vc"
  "vc_S5 (set_circ_totals vc a b c d) = vc_S5 vc"
  "vc_S3 (set_circ_totals vc a b c d) = vc_S3 vc"
  "vc_Ss (set_circ_totals vc a b c d) = vc_Ss vc"
  "vc_a2s (set_circ_totals vc a b c d) = vc_a2s vc"
  "vc_pscore (set_circ_totals vc a b c d) = vc_pscore vc"
  "vc_exp_params (set_circ_totals vc a b c d) = vc_exp_params vc"
  "vc_hc (set_circ_totals vc a b c d) = vc_hc vc"
  "vc_sc (set_circ_totals vc a b c d) = vc_sc vc"
  "vc_scs (set_circ_totals vc a b c d) = vc_scs vc"
  "vc_domains_up (set_circ_totals vc a b c d) = vc_domains_up vc"
  "vc_stat_cb_set (set_circ_totals vc a b c d) = vc_stat_cb_set vc"
  by (simp_all add: set_q_def set_qb_def set_qm_def set_qm1_def set_qm2_def set_circ_totals_def
      split: option.splits)

lemma set_mx:
  "mx_q (vc_exp_matrices (set_q vc ij v)) k = (if k = ij then v else mx_q (vc_exp_matrices vc) k)"
  "mx_qb (vc_exp_matrices (set_q vc ij v)) = mx_qb (vc_exp_matrices vc)"
  "mx_qm (vc_exp_matrices (set_q vc ij v)) = mx_qm (vc_exp_matrices vc)"
  "mx_qm1 (vc_exp_matrices (set_q vc ij v)) = mx_qm1 (vc_exp_matrices vc)"
  "mx_qm2 (vc_exp_matrices (set_q vc ij v)) = mx_qm2 (vc_exp_matrices vc)"
  "mx_G (vc_exp_matrices (set_q vc ij v)) = mx_G (vc_exp_matrices vc)"
  "mx_q1k (vc_exp_matrices (set_q vc ij v)) = mx_q1k (vc_exp_matrices vc)"
  "mx_qln (vc_exp_matrices (set_q vc ij v)) = mx_qln (vc_exp_matrices vc)"
  "mx_probs (vc_exp_matrices (set_q vc ij v)) = mx_probs (vc_exp_matrices vc)"
  "mx_scale (vc_exp_matrices (set_q vc ij v)) = mx_scale (vc_exp_matrices vc)"
  "mx_expMLbase (vc_exp_matrices (set_q vc ij v)) = mx_expMLbase (vc_exp_matrices vc)"
  "mx_qo (vc_exp_matrices (set_q vc ij v)) = mx_qo (vc_exp_matrices vc)"
  "mx_qho (vc_exp_matrices (set_q vc ij v)) = mx_qho (vc_exp_matrices vc)"
  "mx_qio (vc_exp_matrices (set_q vc ij v)) = mx_qio (vc_exp_matrices vc)"
  "mx_qmo (vc_exp_matrices (set_q vc ij v)) = mx_qmo (vc_exp_matrices vc)"
  "mx_q (vc_exp_matrices (set_qb vc ij v)) = mx_q (vc_exp_matrices vc)"
  "mx_qb (vc_exp_matrices (set_qb vc ij v)) k = (if k = ij then v else mx_qb (vc_exp_matrices vc) k)"
  "mx_qm (vc_exp_matrices (set_qb vc ij v)) = mx_qm (vc_exp_matrices vc)"
  "mx_qm1 (vc_exp_matrices (set_qb vc ij v)) = mx_qm1 (vc_exp_matrices vc)"
  "mx_qm2 (vc_exp_matrices (set_qb vc ij v)) = mx_qm2 (vc_exp_matrices vc)"
  "mx_G (vc_exp_matrices (set_qb vc ij v)) = mx_G (vc_exp_matrices vc)"
  "mx_q1k (vc_exp_matrices (set_qb vc ij v)) = mx_q1k (vc_exp_matrices vc)"
  "mx_qln (vc_exp_matrices (set_qb vc ij v)) = mx_qln (vc_exp_matrices vc)"
  "mx_probs (vc_exp_matrices (set_qb vc ij v)) = mx_probs (vc_exp_matrices vc)"
  "mx_scale (vc_exp_matrices (set_qb vc ij v)) = mx_scale (vc_exp_matrices vc)"
  "mx_expMLbase (vc_exp_matrices (set_qb vc ij v)) = mx_expMLbase (vc_exp_matrices vc)"
  "mx_qo (vc_exp_matrices (set_qb vc ij v)) = mx_qo (vc_exp_matrices vc)"
  "mx_qho (vc_exp_matrices (set_qb vc ij v)) = mx_qho (vc_exp_matrices vc)"
  "mx_qio (vc_exp_matrices (set_qb vc ij v)) = mx_qio (vc_exp_matrices vc)"
  "mx_qmo (vc_exp_matrices (set_qb vc ij v)) = mx_qmo (vc_exp_matrices vc)"
  "mx_q (vc_exp_matrices (set_qm vc ij v)) = mx_q (vc_exp_matrices vc)"
  "mx_qb (vc_exp_matrices (set_qm vc ij v)) = mx_qb (vc_exp_matrices vc)"
  "mx_qm (vc_exp_matrices (set_qm vc ij v)) k = (if k = ij then v else mx_qm (vc_exp_matrices vc) k)"
  "mx_qm1 (vc_exp_matrices (set_qm vc ij v)) = mx_qm1 (vc_exp_matrices vc)"
  "mx_qm2 (vc_exp_matrices (set_qm vc ij v)) = mx_qm2 (vc_exp_matrices vc)"
  "mx_G (vc_exp_matrices (set_qm vc ij v)) = mx_G (vc_exp_matrices vc)"
  "mx_q1k (vc_exp_matrices (set_qm vc ij v)) = mx_q1k (vc_exp_matrices vc)"
  "mx_qln (vc_exp_matrices (set_qm vc ij v)) = mx_qln (vc_exp_matrices vc)"
  "mx_probs (vc_exp_matrices (set_qm vc ij v)) = mx_probs (vc_exp_matrices vc)"
  "mx_scale (vc_exp_matrices (set_qm vc ij v)) = mx_scale (vc_exp_matrices vc)"
  "mx_expMLbase (vc_exp_matrices (set_qm vc ij v)) = mx_expMLbase (vc_exp_matrices vc)"
  "mx_qo (vc_exp_matrices (set_qm vc ij v)) = mx_qo (vc_exp_matrices vc)"
  "mx_qho (vc_exp_matrices (set_qm vc ij v)) = mx_qho (vc_exp_matrices vc)"
  "mx_qio (vc_exp_matrices (set_qm vc ij v)) = mx_qio (vc_exp_matrices vc)"
  "mx_qmo (vc_exp_matrices (set_qm vc ij v)) = mx_qmo (vc_exp_matrices vc)"
  "mx_q (vc_exp_matrices (set_qm1 vc ij v)) = mx_q (vc_exp_matrices vc)"
  "mx_qb (vc_exp_matrices (set_qm1 vc ij v)) = mx_qb (vc_exp_matrices vc)"
  "mx_qm (vc_exp_matrices (set_qm1 vc ij v)) = mx_qm (vc_exp_matrices vc)"
  "mx_qm1 (vc_exp_matrices (set_qm1 vc ij v)) = map_option (\<lambda>a. a(ij := v)) (mx_qm1 (vc_exp_matrices vc))"
  "mx_qm2 (vc_exp_matrices (set_qm1 vc ij v)) = mx_qm2 (vc_exp_matrices vc)"
  "mx_G (vc_exp_matrices (set_qm1 vc ij v)) = mx_G (vc_exp_matrices vc)"
  "mx_q1k (vc_exp_matrices (set_qm1 vc ij v)) = mx_q1k (vc_exp_matrices vc)"
  "mx_qln (vc_exp_matrices (set_qm1 vc ij v)) = mx_qln (vc_exp_matrices vc)"
  "mx_probs (vc_exp_matrices (set_qm1 vc ij v)) = mx_probs (vc_exp_matrices vc)"
  "mx_scale (vc_exp_matrices (set_qm1 vc ij v)) = mx_scale (vc_exp_matrices vc)"
  "mx_expMLbase (vc_exp_matrices (set_qm1 vc ij v)) = mx_expMLbase (vc_exp_matrices vc)"
  "mx_qo (vc_exp_matrices (set_qm1 vc ij v)) = mx_qo (vc_exp_matrices vc)"
  "mx_qho (vc_exp_matrices (set_qm1 vc ij v)) = mx_qho (vc_exp_matrices vc)"
  "mx_qio (vc_exp_matrices (set_qm1 vc ij v)) = mx_qio (vc_exp_matrices vc)"
  "mx_qmo (vc_exp_matrices (set_qm1 vc ij v)) = mx_qmo (vc_exp_matrices vc)"
  "mx_q (vc_exp_matrices (set_qm2 vc ij v)) = mx_q (vc_exp_matrices vc)"
  "mx_qb (vc_exp_matrices (set_qm2 vc ij v)) = mx_qb (vc_exp_matrices vc)"
  "mx_qm (vc_exp_matrices (set_qm2 vc ij v)) = mx_qm (vc_exp_matrices vc)"
  "mx_qm1 (vc_exp_matrices (set_qm2 vc ij v)) = mx_qm1 (vc_exp_matrices vc)"
  "mx_qm2 (vc_exp_matrices (set_qm2 vc ij v)) k = (if k = ij then v else mx_qm2 (vc_exp_matrices vc) k)"
  "mx_G (vc_exp_matrices (set_qm2 vc ij v)) = mx_G (vc_exp_matrices vc)"
  "mx_q1k (vc_exp_matrices (set_qm2 vc ij v)) = mx_q1k (vc_exp_matrices vc)"
  "mx_qln (vc_exp_matrices (set_qm2 vc ij v)) = mx_qln (vc_exp_matrices vc)"
  "mx_probs (vc_exp_matrices (set_qm2 vc ij v)) = mx_probs (vc_exp_matrices vc)"
  "mx_scale (vc_exp_matrices (set_qm2 vc ij v)) = mx_scale (vc_exp_matrices vc)"
  "mx_expMLbase (vc_exp_matrices (set_qm2 vc ij v)) = mx_expMLbase (vc_exp_matrices vc)"
  "mx_qo (vc_exp_matrices (set_qm2 vc ij v)) = mx_qo (vc_exp_matrices vc)"
  "mx_qho (vc_exp_matrices (set_qm2 vc ij v)) = mx_qho (vc_exp_matrices vc)"
  "mx_qio (vc_exp_matrices (set_qm2 vc ij v)) = mx_qio (vc_exp_matrices vc)"
  "mx_qmo (vc_exp_matrices (set_qm2 vc ij v)) = mx_qmo (vc_exp_matrices vc)"
  "mx_q (vc_exp_matrices (set_circ_totals vc a b c d)) = mx_q (vc_exp_matrices vc)"
  "mx_qb (vc_exp_matrices (set_circ_totals vc a b c d)) = mx_qb (vc_exp_matrices vc)"
  "mx_qm (vc_exp_matrices (set_circ_totals vc a b c d)) = mx_qm (vc_exp_matrices vc)"
  "mx_qm1 (vc_exp_matrices (set_circ_totals vc a b c d)) = mx_qm1 (vc_exp_matrices vc)"
  "mx_qm2 (vc_exp_matrices (set_circ_totals vc a b c d)) = mx_qm2 (vc_exp_matrices vc)"
  "mx_G (vc_exp_matrices (set_circ_totals vc a b c d)) = mx_G (vc_exp_matrices vc)"
  "mx_q1k (vc_exp_matrices (set_circ_totals vc a b c d)) = mx_q1k (vc_exp_matrices vc)"
  "mx_qln (vc_exp_matrices (set_circ_totals vc a b c d)) = mx_qln (vc_exp_matrices vc)"
  "mx_probs (vc_exp_matrices (set_circ_totals vc a b c d)) = mx_probs (vc_exp_matrices vc)"
  "mx_scale (vc_exp_matrices (set_circ_totals vc a b c d)) = mx_scale (vc_exp_matrices vc)"
  "mx_expMLbase (vc_exp_matrices (set_circ_totals vc a b c d)) = mx_expMLbase (vc_exp_matrices vc)"
  "mx_qo (vc_exp_matrices (set_circ_totals vc a b c d)) = a"
  "mx_qho (vc_exp_matrices (set_circ_totals vc a b c d)) = b"
  "mx_qio (vc_exp_matrices (set_circ_totals vc a b c d)) = c"
  "mx_qmo (vc_exp_matrices (set_circ_totals vc a b c d)) = d"
  by (simp_all add: set_q_def set_qb_def set_qm_def set_qm1_def set_qm2_def set_circ_totals_def
      split: option.splits)

lemma wr_apply: "wr h p i v p' k = (if p' = p \<and> k = i then v else h p' k)"
  by (simp add: wr_def)

lemma rd_apply: "rd h p k = h p k"
  by (simp add: rd_def)

lemma upto_small:
  "[0..-1] = []" "[0..0] = [0]" "[1..0] = []" "[1..1] = [1]" "[1..2] = [1, 2]" "[1..3] = [1, 2, 3]"
  "[2..1] = []" "[2..2] = [2]" "[2..3] = [2, 3]" "[3..2] = []" "[3..3] = [3]" "[4..3] = []"
  "[0..1] = [0, 1]"
  by (simp_all add: upto.simps)

lemmas eval_lin = pf_linear_def pf_linear_columns_def pf_linear_column_def pf_linear_inner_def
  pf_linear_cell_def pf_linear_stored_def pf_linear_upto_qq_def
  pf_linear_qb_def pf_linear_qbt1_def pf_linear_qqm_def pf_linear_qqm_heap_def
  pf_linear_qm_def pf_linear_qm_temp_def pf_linear_qq_def pf_linear_qq_qbt1_def
  pf_linear_q_def pf_linear_q_temp_def overflow_check_def pf_linear_init_def pf_linear_prod_def
  pf_linear_gquad_def pf_linear_ud_max_size_def pf_linear_seed_def
  swap_buffers_def rotate_ud_def with_ud_def motif_count_def motif_size_def mul_sc_up_def mul_sc_f_def
  sc_has_f_def pair_type_def nb5_def nb3_def
  q_split_step_def qm_split_step_def qm_unpaired_step_def ext_unpaired_def MIN2_def unsigned_char_def
  Let_def upto_small example_vc_sel example_env_sel set_sel set_mx wr_apply rd_apply


lemmas eval_congs = let_weak_cong option.case_cong_weak sum.case_cong_weak prod.case_cong_weak

lemma pf_linear_prefill_sel:
  "vc_type (pf_linear_prefill vc) = vc_type vc"
  "vc_length (pf_linear_prefill vc) = vc_length vc"
  "vc_n_seq (pf_linear_prefill vc) = vc_n_seq vc"
  "vc_iindx (pf_linear_prefill vc) = vc_iindx vc"
  "vc_jindx (pf_linear_prefill vc) = vc_jindx vc"
  "vc_ptype (pf_linear_prefill vc) = vc_ptype vc"
  "vc_sequence_encoding (pf_linear_prefill vc) = vc_sequence_encoding vc"
  "vc_sequence_encoding2 (pf_linear_prefill vc) = vc_sequence_encoding2 vc"
  "vc_S (pf_linear_prefill vc) = vc_S vc"
  "vc_S5 (pf_linear_prefill vc) = vc_S5 vc"
  "vc_S3 (pf_linear_prefill vc) = vc_S3 vc"
  "vc_Ss (pf_linear_prefill vc) = vc_Ss vc"
  "vc_a2s (pf_linear_prefill vc) = vc_a2s vc"
  "vc_pscore (pf_linear_prefill vc) = vc_pscore vc"
  "vc_exp_params (pf_linear_prefill vc) = vc_exp_params vc"
  "vc_hc (pf_linear_prefill vc) = vc_hc vc"
  "vc_sc (pf_linear_prefill vc) = vc_sc vc"
  "vc_scs (pf_linear_prefill vc) = vc_scs vc"
  "vc_domains_up (pf_linear_prefill vc) = vc_domains_up vc"
  "vc_stat_cb_set (pf_linear_prefill vc) = vc_stat_cb_set vc"
  "mx_q (vc_exp_matrices (pf_linear_prefill vc)) = mx_q (vc_exp_matrices vc)"
  "mx_qb (vc_exp_matrices (pf_linear_prefill vc)) = mx_qb (vc_exp_matrices vc)"
  "mx_qm (vc_exp_matrices (pf_linear_prefill vc)) = mx_qm (vc_exp_matrices vc)"
  "mx_qm1 (vc_exp_matrices (pf_linear_prefill vc)) = mx_qm1 (vc_exp_matrices vc)"
  "mx_qm2 (vc_exp_matrices (pf_linear_prefill vc)) = mx_qm2 (vc_exp_matrices vc)"
  "mx_G (vc_exp_matrices (pf_linear_prefill vc)) = mx_G (vc_exp_matrices vc)"
  "mx_probs (vc_exp_matrices (pf_linear_prefill vc)) = mx_probs (vc_exp_matrices vc)"
  "mx_scale (vc_exp_matrices (pf_linear_prefill vc)) = mx_scale (vc_exp_matrices vc)"
  "mx_expMLbase (vc_exp_matrices (pf_linear_prefill vc)) = mx_expMLbase (vc_exp_matrices vc)"
  "mx_qo (vc_exp_matrices (pf_linear_prefill vc)) = mx_qo (vc_exp_matrices vc)"
  "mx_qho (vc_exp_matrices (pf_linear_prefill vc)) = mx_qho (vc_exp_matrices vc)"
  "mx_qio (vc_exp_matrices (pf_linear_prefill vc)) = mx_qio (vc_exp_matrices vc)"
  "mx_qmo (vc_exp_matrices (pf_linear_prefill vc)) = mx_qmo (vc_exp_matrices vc)"
  by (simp_all add: pf_linear_prefill_def Let_def split: option.splits prod.splits)

lemmas eval_ali = alipf_linear_def alipf_linear_columns_def alipf_linear_column_def alipf_linear_inner_def
  alipf_linear_cell_def alipf_linear_stored_def alipf_linear_upto_qq_def
  alipf_linear_qb_def alipf_linear_qbt1_def alipf_linear_qqm_def alipf_linear_qqm_heap_def
  alipf_linear_qm_def alipf_linear_qm_temp_def alipf_linear_qq_def alipf_linear_qq_qbt1_def
  alipf_linear_q_def alipf_linear_q_temp_def overflow_check_def alipf_linear_init_def
  alipf_linear_seed_def alipf_linear_clear_def swap_buffers_def mul_scs_up_def mul_sc_up_def
  ali_type_def ali_nb5_def ali_nb3_def
  Let_def upto_small example_vc_sel example_env_sel set_sel set_mx wr_apply rd_apply

lemmas eval_pf = vrna_pf_def vrna_pf_passes_def vrna_pf_finish_def vrna_pf_Q_def stat_cb_def
  pf_linear_prefill_sel


subsection \<open>The end of \<open>vrna_pf\<close>\<close>

lemma vrna_pf_finish_props:
  obtains vc' where
    "ret_vc (vrna_pf_finish env n structure vc lg) = Some vc'"
    "same_frame vc vc'"
    "mx_q (vc_exp_matrices vc') = mx_q (vc_exp_matrices vc)"
    "mx_qb (vc_exp_matrices vc') = mx_qb (vc_exp_matrices vc)"
    "mx_qm (vc_exp_matrices vc') = mx_qm (vc_exp_matrices vc)"
    "mx_qo (vc_exp_matrices vc') = mx_qo (vc_exp_matrices vc)"
    "ret_free_energy (vrna_pf_finish env n structure vc lg) =
       c_divide
         (c_times (c_minus (c_uminus (c_log (vrna_pf_Q vc n)))
                     (c_times (Finite (real_of_int n)) (c_log (ep_pf_scale (vc_exp_params vc)))))
            (Finite (ep_kT (vc_exp_params vc))))
         (Finite (if vc_type vc = VRNA_VC_TYPE_ALIGNMENT then 1000 * real_of_int (vc_n_seq vc) else 1000))"
proof (cases "md_compute_bpp (ep_model_details (vc_exp_params vc)) \<noteq> 0")
  case True
  obtain probs st where p: "vrna_pairing_probs env vc structure = (probs, st)"
    by (cases "vrna_pairing_probs env vc structure")
  let ?vc' = "vc\<lparr>vc_exp_matrices := (vc_exp_matrices vc)\<lparr>mx_probs := probs\<rparr>\<rparr>"
  have Q: "vrna_pf_Q ?vc' n = vrna_pf_Q vc n"
    by (simp add: vrna_pf_Q_def Let_def)
  show ?thesis
  proof (rule that [of ?vc'])
    show "ret_vc (vrna_pf_finish env n structure vc lg) = Some ?vc'"
      using True p by (simp add: vrna_pf_finish_def Let_def)
    show "same_frame vc ?vc'" by (simp add: same_frame_def)
    show "ret_free_energy (vrna_pf_finish env n structure vc lg) =
       c_divide
         (c_times (c_minus (c_uminus (c_log (vrna_pf_Q vc n)))
                     (c_times (Finite (real_of_int n)) (c_log (ep_pf_scale (vc_exp_params vc)))))
            (Finite (ep_kT (vc_exp_params vc))))
         (Finite (if vc_type vc = VRNA_VC_TYPE_ALIGNMENT then 1000 * real_of_int (vc_n_seq vc) else 1000))"
      using True p Q by (simp add: vrna_pf_finish_def Let_def split: vrna_fc_type_e.splits)
  qed simp_all
next
  case False
  show ?thesis
  proof (rule that [of vc])
    show "ret_vc (vrna_pf_finish env n structure vc lg) = Some vc"
      using False by (simp add: vrna_pf_finish_def Let_def)
    show "same_frame vc vc" by (rule same_frame_refl)
    show "ret_free_energy (vrna_pf_finish env n structure vc lg) =
       c_divide
         (c_times (c_minus (c_uminus (c_log (vrna_pf_Q vc n)))
                     (c_times (Finite (real_of_int n)) (c_log (ep_pf_scale (vc_exp_params vc)))))
            (Finite (ep_kT (vc_exp_params vc))))
         (Finite (if vc_type vc = VRNA_VC_TYPE_ALIGNMENT then 1000 * real_of_int (vc_n_seq vc) else 1000))"
      using False by (simp add: vrna_pf_finish_def Let_def split: vrna_fc_type_e.splits)
  qed simp_all
qed

text \<open>The formula on finite values, and at \<open>Q = 0\<close>.\<close>

lemma free_energy_finite:
  assumes "0 < Q" "0 < s" "d \<noteq> 0"
  shows "c_divide (c_times (c_minus (c_uminus (c_log Q)) (c_times (Finite n) (c_log s))) (Finite kT)) (Finite d)
         = Finite ((- ln Q - n * ln s) * kT / d)"
  using assms by (simp add: c_log_def)

lemma free_energy_infinite:
  assumes "0 < s" "0 < kT" "0 < d"
  shows "c_divide (c_times (c_minus (c_uminus (c_log 0)) (c_times (Finite n) (c_log s))) (Finite kT)) (Finite d)
         = PlusInf"
  using assms by (simp add: c_log_def)


lemma free_energy_summary:
  assumes "E = c_divide (c_times (c_minus (c_uminus (c_log Q)) (c_times (Finite n) (c_log s))) (Finite kT))
                 (Finite (if al then 1000 * real_of_int m else 1000))"
  shows "0 < Q \<and> 0 < s \<and> \<not> al \<longrightarrow> E = Finite ((- ln Q - n * ln s) * kT / 1000)"
    and "0 < Q \<and> 0 < s \<and> al \<and> m \<noteq> 0 \<longrightarrow> E = Finite ((- ln Q - n * ln s) * kT / 1000 / real_of_int m)"
    and "Q = 0 \<and> 0 < s \<and> 0 < kT \<and> (al \<longrightarrow> 0 < m) \<longrightarrow> E = PlusInf"
  unfolding assms by (simp_all add: free_energy_finite free_energy_infinite)

subsection \<open>The overflow checks and the exchange of the helper arrays\<close>

lemma pf_linear_stored_scalars:
  "st_Qmax (pf_linear_stored env i j s) = st_Qmax s"
  "st_log (pf_linear_stored env i j s) = st_log s"
  by (simp_all add: pf_linear_stored_def pf_linear_upto_qq_def pf_linear_q_def pf_linear_qq_def
      pf_linear_qm_def pf_linear_qqm_def pf_linear_qb_def Let_def)

lemma alipf_linear_stored_scalars:
  "st_Qmax (alipf_linear_stored env i j s) = st_Qmax s"
  "st_log (alipf_linear_stored env i j s) = st_log s"
  by (simp_all add: alipf_linear_stored_def alipf_linear_upto_qq_def alipf_linear_q_def alipf_linear_qq_def
      alipf_linear_qm_def alipf_linear_qqm_def alipf_linear_qb_def Let_def)

lemma overflow_check_cases:
  "(max_real env \<le> temp \<longrightarrow> (\<exists>lg. overflow_check env i j temp s = Inl (Overflow_in_pf_fold i j, lg)))
   \<and> (temp < max_real env \<longrightarrow>
        (\<exists>s'. overflow_check env i j temp s = Inr s' \<and> st_Qmax s' = max (st_Qmax s) temp))
   \<and> (st_Qmax s < temp \<and> max_real env / 10 < temp \<longrightarrow>
        result_log (overflow_check env i j temp s) = st_log s @ [Warning_Q_close_to_overflow i j temp])
   \<and> (\<not> (st_Qmax s < temp \<and> max_real env / 10 < temp) \<longrightarrow>
        result_log (overflow_check env i j temp s) = st_log s)"
  by (simp add: overflow_check_def result_log_def Let_def max_def)

lemma example_scaled_sel:
  "vc_type (example_scaled ty e) = ty"
  "vc_length (example_scaled ty e) = 2"
  "vc_n_seq (example_scaled ty e) = 2"
  "vc_iindx (example_scaled ty e) i = ((3 - i) * (2 - i)) div 2 + 3"
  "vc_jindx (example_scaled ty e) j = (j * (j - 1)) div 2"
  "vc_ptype (example_scaled ty e) ij = 1"
  "vc_sequence_encoding (example_scaled ty e) i = 1"
  "vc_S (example_scaled ty e) s i = 1"
  "vc_S5 (example_scaled ty e) s i = 1"
  "vc_S3 (example_scaled ty e) s i = 1"
  "vc_a2s (example_scaled ty e) s i = i"
  "vc_pscore (example_scaled ty e) ij = 0"
  "vc_sc (example_scaled ty e) = None"
  "vc_scs (example_scaled ty e) = None"
  "vc_domains_up (example_scaled ty e) = None"
  "hc_matrix (vc_hc (example_scaled ty e)) ij = 0x3F"
  "hc_up_ext (vc_hc (example_scaled ty e)) i = 2"
  "hc_up_ml (vc_hc (example_scaled ty e)) i = 2"
  "md_circ (ep_model_details (vc_exp_params (example_scaled ty e))) = 0"
  "md_gquad (ep_model_details (vc_exp_params (example_scaled ty e))) = 0"
  "md_min_loop_size (ep_model_details (vc_exp_params (example_scaled ty e))) = 0"
  "md_pair (ep_model_details (vc_exp_params (example_scaled ty e))) a b = 1"
  "ep_kT (vc_exp_params (example_scaled ty e)) = 10"
  "mx_q (vc_exp_matrices (example_scaled ty e)) ij = 0"
  "mx_qb (vc_exp_matrices (example_scaled ty e)) ij = 0"
  "mx_qm (vc_exp_matrices (example_scaled ty e)) ij = 0"
  "mx_qm1 (vc_exp_matrices (example_scaled ty e)) = Some (\<lambda>ij. 0)"
  "mx_G (vc_exp_matrices (example_scaled ty e)) ij = 0"
  "mx_scale (vc_exp_matrices (example_scaled ty e)) d = 2 ^ (e * nat d)"
  "mx_expMLbase (vc_exp_matrices (example_scaled ty e)) d = 1"
  by (simp_all add: example_scaled_def example_vc_sel)

lemma swap_buffers_fields:
  "st_vc (swap_buffers s) = st_vc s" "st_heap (swap_buffers s) = st_heap s"
  "st_qq (swap_buffers s) = st_qq1 s" "st_qq1 (swap_buffers s) = st_qq s"
  "st_qqm (swap_buffers s) = st_qqm1 s" "st_qqm1 (swap_buffers s) = st_qqm s"
  "st_qqu (swap_buffers s) = st_qqu s" "st_qqmu (swap_buffers s) = st_qqmu s"
  "st_Qmax (swap_buffers s) = st_Qmax s" "st_log (swap_buffers s) = st_log s"
  by (simp_all add: swap_buffers_def Let_def)

lemma rotate_ud_fields:
  "st_vc (rotate_ud s) = st_vc s" "st_heap (rotate_ud s) = st_heap s"
  "st_qq (rotate_ud s) = st_qq s" "st_qq1 (rotate_ud s) = st_qq1 s"
  "st_qqm (rotate_ud s) = st_qqm s" "st_qqm1 (rotate_ud s) = st_qqm1 s"
  "st_Qmax (rotate_ud s) = st_Qmax s" "st_log (rotate_ud s) = st_log s"
  by (simp_all add: rotate_ud_def)

subsection \<open>The stored \<open>qb\<close> and \<open>q\<close>\<close>

lemma pf_linear_stored_qb:
  "mx_qb (vc_exp_matrices (st_vc (pf_linear_stored env i j s))) k
     = (if k = vc_iindx (st_vc s) i - j then pf_linear_qbt1 env i j s
        else mx_qb (vc_exp_matrices (st_vc s)) k)"
  by (simp add: pf_linear_stored_def pf_linear_upto_qq_def pf_linear_q_def pf_linear_qq_def
      pf_linear_qm_def pf_linear_qqm_def pf_linear_qb_def Let_def set_mx set_sel)

lemma alipf_linear_stored_qb:
  "mx_qb (vc_exp_matrices (st_vc (alipf_linear_stored env i j s))) k
     = (if k = vc_iindx (st_vc s) i - j then alipf_linear_qbt1 env i j s
        else mx_qb (vc_exp_matrices (st_vc s)) k)"
  by (simp add: alipf_linear_stored_def alipf_linear_upto_qq_def alipf_linear_q_def alipf_linear_qq_def
      alipf_linear_qm_def alipf_linear_qqm_def alipf_linear_qb_def Let_def set_mx set_sel)

lemma example_pscore_sel:
  "vc_length example_pscore = 2"
  "vc_n_seq example_pscore = 2"
  "vc_iindx example_pscore i = ((3 - i) * (2 - i)) div 2 + 3"
  "vc_jindx example_pscore j = (j * (j - 1)) div 2"
  "vc_S example_pscore s i = 1"
  "vc_S5 example_pscore s i = 1"
  "vc_S3 example_pscore s i = 1"
  "vc_a2s example_pscore s i = i"
  "vc_pscore example_pscore ij = 1"
  "vc_scs example_pscore = None"
  "hc_matrix (vc_hc example_pscore) ij = 0x3F"
  "hc_up_ext (vc_hc example_pscore) i = 2"
  "hc_up_ml (vc_hc example_pscore) i = 2"
  "md_circ (ep_model_details (vc_exp_params example_pscore)) = 0"
  "md_min_loop_size (ep_model_details (vc_exp_params example_pscore)) = 0"
  "md_pair (ep_model_details (vc_exp_params example_pscore)) a b = 1"
  "ep_kT (vc_exp_params example_pscore) = 10"
  "mx_q (vc_exp_matrices example_pscore) ij = 0"
  "mx_qb (vc_exp_matrices example_pscore) ij = 0"
  "mx_qm (vc_exp_matrices example_pscore) ij = 0"
  "mx_qm1 (vc_exp_matrices example_pscore) = Some (\<lambda>ij. 0)"
  "mx_scale (vc_exp_matrices example_pscore) d = 1"
  "mx_expMLbase (vc_exp_matrices example_pscore) d = 1"
  by (simp_all add: example_pscore_def example_vc_sel)

lemma mul_sc_factor:
  "mul_sc_up sc i u x = x * sc_up sc i u"
  "mul_sc_f sc i j k l d x = x * sc_f sc i j k l d"
  by (simp_all add: sc_up_def sc_f_def mul_sc_up_def mul_sc_f_def split: option.splits)

lemma q_split_step_eq:
  "q_split_step vc qq i j k (temp, kl)
     = (temp + mx_q (vc_exp_matrices vc) kl * qq (k + 1)
               * sc_f (vc_sc vc) i j k (k + 1) VRNA_DECOMP_EXT_EXT_EXT, kl - 1)"
  by (simp add: q_split_step_def sc_has_f_def sc_f_def mul_sc_f_def Let_def split: option.splits)

lemma sum_from_int:
  fixes f :: "int \<Rightarrow> real"
  assumes "a \<le> b"
  shows "(\<Sum>k = a..b. f k) = f a + (\<Sum>k = a + 1..b. f k)"
proof -
  have "{a..b} = insert a {a + 1..b}" using assms by auto
  then show ?thesis by simp
qed

lemma fold_q_split:
  "fst (fold (q_split_step vc qq i j) [a..b] (temp, kl))
     = temp + (\<Sum>k = a..b. mx_q (vc_exp_matrices vc) (kl - (k - a)) * qq (k + 1)
                              * sc_f (vc_sc vc) i j k (k + 1) VRNA_DECOMP_EXT_EXT_EXT)"
proof (induction a b arbitrary: temp kl rule: upto.induct)
  case (1 a b)
  let ?g = "\<lambda>c k. mx_q (vc_exp_matrices vc) c * qq (k + 1)
                  * sc_f (vc_sc vc) i j k (k + 1) VRNA_DECOMP_EXT_EXT_EXT"
  show ?case
  proof (cases "a \<le> b")
    case True
    then have l: "[a..b] = a # [a + 1..b]" by (simp add: upto.simps)
    have e: "kl - 1 - (k - (a + 1)) = kl - (k - a)" for k by arith
    have "fst (fold (q_split_step vc qq i j) [a..b] (temp, kl))
          = fst (fold (q_split_step vc qq i j) [a + 1..b] (temp + ?g kl a, kl - 1))"
      unfolding l by (simp add: q_split_step_eq)
    also have "\<dots> = temp + ?g kl a + (\<Sum>k = a + 1..b. ?g (kl - 1 - (k - (a + 1))) k)"
      by (rule "1.IH" [OF True])
    also have "\<dots> = temp + (?g (kl - (a - a)) a + (\<Sum>k = a + 1..b. ?g (kl - (k - a)) k))"
      by (simp only: e) simp
    also have "\<dots> = temp + (\<Sum>k = a..b. ?g (kl - (k - a)) k)"
      by (simp only: sum_from_int [OF True, of "\<lambda>k. ?g (kl - (k - a)) k", symmetric])
    finally show ?thesis .
  next
    case False
    then show ?thesis by (simp add: upto.simps)
  qed
qed

lemma ext_unpaired_eq:
  "ext_unpaired env vc i j
     = mx_scale (vc_exp_matrices vc) (j - i + 1) * sc_up (vc_sc vc) i (j - i + 1)
       * sc_f (vc_sc vc) i j i j VRNA_DECOMP_EXT_UP
       * (if with_ud vc then ud_exp_energy_cb env vc i j {VRNA_UNSTRUCTURED_DOMAIN_EXT_LOOP} else 1)"
  by (simp add: ext_unpaired_def Let_def mul_sc_factor)

lemma pf_linear_q_temp_eq:
  "pf_linear_q_temp env i j u
     = st_heap u (st_qq u) i
       + (if hc_up_ext (vc_hc (st_vc u)) i \<ge> j - i + 1 then ext_unpaired env (st_vc u) i j else 0)
       + (\<Sum>k = i..j - 1. mx_q (vc_exp_matrices (st_vc u)) (vc_iindx (st_vc u) i - k)
                            * st_heap u (st_qq u) (k + 1)
                            * sc_f (vc_sc (st_vc u)) i j k (k + 1) VRNA_DECOMP_EXT_EXT_EXT)"
proof -
  have s: "(\<Sum>k = i..j - 1. mx_q (vc_exp_matrices (st_vc u)) (vc_iindx (st_vc u) i - i - (k - i))
                            * st_heap u (st_qq u) (k + 1)
                            * sc_f (vc_sc (st_vc u)) i j k (k + 1) VRNA_DECOMP_EXT_EXT_EXT)
         = (\<Sum>k = i..j - 1. mx_q (vc_exp_matrices (st_vc u)) (vc_iindx (st_vc u) i - k)
                            * st_heap u (st_qq u) (k + 1)
                            * sc_f (vc_sc (st_vc u)) i j k (k + 1) VRNA_DECOMP_EXT_EXT_EXT)"
    by (rule sum.cong) simp_all
  show ?thesis
    by (simp add: pf_linear_q_temp_def Let_def fold_q_split s)
qed

lemma pf_linear_stored_q:
  "st_heap (pf_linear_stored env i j s) = st_heap (pf_linear_upto_qq env i j s)"
  "st_qq (pf_linear_stored env i j s) = st_qq (pf_linear_upto_qq env i j s)"
  "mx_q (vc_exp_matrices (st_vc (pf_linear_stored env i j s))) k
     = (if k = vc_iindx (st_vc s) i - j then pf_linear_q_temp env i j (pf_linear_upto_qq env i j s)
        else mx_q (vc_exp_matrices (st_vc (pf_linear_upto_qq env i j s))) k)"
  using same_frame_fields(5) [of "st_vc s" "st_vc (pf_linear_upto_qq env i j s)"]
    pf_linear_upto_qq_rel [of s env i j]
  by (simp_all add: pf_linear_stored_def pf_linear_q_def set_mx cell_rel_def)

lemma example_sc_f_sel:
  "vc_length example_sc_f = 3"
  "vc_iindx example_sc_f i = ((4 - i) * (3 - i)) div 2 + 4"
  "vc_jindx example_sc_f j = (j * (j - 1)) div 2"
  "vc_ptype example_sc_f ij = 1"
  "vc_sequence_encoding example_sc_f i = 1"
  "vc_sc example_sc_f = Some \<lparr>sc_exp_energy_up = None, sc_exp_energy_stack = None,
                        sc_exp_f = Some (\<lambda>i j k l d. if d = VRNA_DECOMP_EXT_EXT_EXT then 2 else 1)\<rparr>"
  "vc_domains_up example_sc_f = None"
  "hc_matrix (vc_hc example_sc_f) ij = 0x3F"
  "hc_up_ext (vc_hc example_sc_f) i = 3"
  "hc_up_ml (vc_hc example_sc_f) i = 3"
  "md_circ (ep_model_details (vc_exp_params example_sc_f)) = 0"
  "md_gquad (ep_model_details (vc_exp_params example_sc_f)) = 0"
  "md_min_loop_size (ep_model_details (vc_exp_params example_sc_f)) = 0"
  "mx_q (vc_exp_matrices example_sc_f) ij = 0"
  "mx_qb (vc_exp_matrices example_sc_f) ij = 0"
  "mx_qm (vc_exp_matrices example_sc_f) ij = 0"
  "mx_qm1 (vc_exp_matrices example_sc_f) = Some (\<lambda>ij. 0)"
  "mx_G (vc_exp_matrices example_sc_f) ij = 0"
  "mx_scale (vc_exp_matrices example_sc_f) d = 1"
  "mx_expMLbase (vc_exp_matrices example_sc_f) d = 1"
  by (simp_all add: example_sc_f_def example_vc_sel)

lemma sum_upto_small:
  fixes f :: "int \<Rightarrow> real"
  shows "(\<Sum>k = 1..2. f k) = f 1 + f 2"
  by (simp add: sum_from_int)

subsection \<open>The circular passes\<close>

lemma only_qm2_refl: "only_qm2 vc vc"
  by (simp add: only_qm2_def)

lemma only_qm2_trans:
  assumes "only_qm2 a b" "only_qm2 b c"
  shows "only_qm2 a c"
proof -
  have "c = b\<lparr>vc_exp_matrices := (vc_exp_matrices b)\<lparr>mx_qm2 := mx_qm2 (vc_exp_matrices c)\<rparr>\<rparr>"
    using assms(2) by (simp add: only_qm2_def)
  also have "b = a\<lparr>vc_exp_matrices := (vc_exp_matrices a)\<lparr>mx_qm2 := mx_qm2 (vc_exp_matrices b)\<rparr>\<rparr>"
    using assms(1) by (simp add: only_qm2_def)
  finally have "c = a\<lparr>vc_exp_matrices := (vc_exp_matrices a)\<lparr>mx_qm2 := mx_qm2 (vc_exp_matrices c)\<rparr>\<rparr>"
    by simp
  then show ?thesis by (simp add: only_qm2_def)
qed

lemma only_qm2_set: "only_qm2 vc (set_qm2 vc k v)"
  by (simp add: only_qm2_def set_qm2_def)

lemma only_qm2_fields:
  assumes "only_qm2 vc vc'"
  shows "vc_length vc' = vc_length vc" "vc_n_seq vc' = vc_n_seq vc" "vc_iindx vc' = vc_iindx vc"
    "vc_jindx vc' = vc_jindx vc" "vc_exp_params vc' = vc_exp_params vc" "vc_hc vc' = vc_hc vc"
    "vc_scs vc' = vc_scs vc" "vc_ptype vc' = vc_ptype vc"
    "mx_qb (vc_exp_matrices vc') = mx_qb (vc_exp_matrices vc)"
    "mx_qm (vc_exp_matrices vc') = mx_qm (vc_exp_matrices vc)"
    "mx_qm1 (vc_exp_matrices vc') = mx_qm1 (vc_exp_matrices vc)"
    "mx_scale (vc_exp_matrices vc') = mx_scale (vc_exp_matrices vc)"
proof -
  let ?w = "vc\<lparr>vc_exp_matrices := (vc_exp_matrices vc)\<lparr>mx_qm2 := mx_qm2 (vc_exp_matrices vc')\<rparr>\<rparr>"
  have e: "vc' = ?w" using assms by (simp add: only_qm2_def)
  show "vc_length vc' = vc_length vc" using arg_cong [OF e, of vc_length] by simp
  show "vc_n_seq vc' = vc_n_seq vc" using arg_cong [OF e, of vc_n_seq] by simp
  show "vc_iindx vc' = vc_iindx vc" using arg_cong [OF e, of vc_iindx] by simp
  show "vc_jindx vc' = vc_jindx vc" using arg_cong [OF e, of vc_jindx] by simp
  show "vc_exp_params vc' = vc_exp_params vc" using arg_cong [OF e, of vc_exp_params] by simp
  show "vc_hc vc' = vc_hc vc" using arg_cong [OF e, of vc_hc] by simp
  show "vc_scs vc' = vc_scs vc" using arg_cong [OF e, of vc_scs] by simp
  show "vc_ptype vc' = vc_ptype vc" using arg_cong [OF e, of vc_ptype] by simp
  have m: "vc_exp_matrices vc' = (vc_exp_matrices vc)\<lparr>mx_qm2 := mx_qm2 (vc_exp_matrices vc')\<rparr>"
    using arg_cong [OF e, of vc_exp_matrices] by simp
  show "mx_qb (vc_exp_matrices vc') = mx_qb (vc_exp_matrices vc)" using arg_cong [OF m, of mx_qb] by simp
  show "mx_qm (vc_exp_matrices vc') = mx_qm (vc_exp_matrices vc)" using arg_cong [OF m, of mx_qm] by simp
  show "mx_qm1 (vc_exp_matrices vc') = mx_qm1 (vc_exp_matrices vc)" using arg_cong [OF m, of mx_qm1] by simp
  show "mx_scale (vc_exp_matrices vc') = mx_scale (vc_exp_matrices vc)" using arg_cong [OF m, of mx_scale] by simp
qed

lemma qm2_step_only:
  assumes "qm2_step qm1 turn k vc = Inr vc'"
  shows "only_qm2 vc vc'"
  using assms by (auto simp: qm2_step_def only_qm2_set split: sum.splits)

lemma pf_circ_qm2_only:
  assumes "pf_circ_qm2 vc qm1 = Inr vc'"
  shows "only_qm2 vc vc'"
  using assms unfolding pf_circ_qm2_def Let_def
  by (rule for_each_preserves) (auto intro: qm2_step_only only_qm2_refl only_qm2_trans)

lemma alipf_circ_qm2_only:
  assumes "alipf_circ_qm2 env vc qm1 = Inr vc'"
  shows "only_qm2 vc vc'"
  using assms unfolding alipf_circ_qm2_def
  by (rule for_each_preserves) (auto intro: qm2_step_only only_qm2_refl only_qm2_trans)

text \<open>The sum that the inner loop builds, and what it does without \<open>qm1\<close>.\<close>

lemma for_each_add_upto:
  fixes f :: "int \<Rightarrow> real"
  shows "for_each (\<lambda>u acc. Inr (acc + f u)) [a..b] c = Inr (c + (\<Sum>u = a..b. f u))"
proof (induction a b arbitrary: c rule: upto.induct)
  case (1 a b)
  show ?case
  proof (cases "a \<le> b")
    case True
    then have l: "[a..b] = a # [a + 1..b]" by (simp add: upto.simps)
    show ?thesis
      unfolding l by (simp add: "1.IH" [OF True] sum_from_int [OF True, of f])
  next
    case False
    then show ?thesis by (simp add: upto.simps)
  qed
qed

lemma circ_qot_Some:
  "circ_qot vc (Some a) turn k
     = Inr (\<Sum>u = k + turn + 1..vc_length vc - turn - 2.
              a (vc_jindx vc u + k) * a (vc_jindx vc (vc_length vc) + (u + 1)))"
  unfolding circ_qot_def by (simp add: for_each_add_upto)

lemma circ_qot_None:
  "circ_qot vc None turn k
     = (if vc_length vc - turn - 2 < k + turn + 1 then Inr 0 else Inl (Null_dereference ''qm1''))"
proof (cases "vc_length vc - turn - 2 < k + turn + 1")
  case True
  then show ?thesis by (simp add: circ_qot_def)
next
  case False
  then have "[k + turn + 1..vc_length vc - turn - 2] = (k + turn + 1) # [k + turn + 1 + 1..vc_length vc - turn - 2]"
    by (simp add: upto.simps)
  with False show ?thesis by (simp add: circ_qot_def)
qed

lemma circ_qot_set_qm2: "circ_qot (set_qm2 vc x v) qm1 turn k = circ_qot vc qm1 turn k"
  by (cases qm1) (simp_all add: circ_qot_def set_qm2_def)

lemma circ_qot_only:
  assumes "only_qm2 vc vc'"
  shows "circ_qot vc' qm1 turn k = circ_qot vc qm1 turn k"
  by (cases qm1) (simp_all add: circ_qot_def only_qm2_fields [OF assms])

text \<open>The entries of \<open>qm2\<close> when the loop over \<open>k\<close> has run through.\<close>

lemma for_each_qm2_entries:
  assumes "for_each (qm2_step qm1 turn) ks vc = Inr vc'"
  shows "(k \<in> set ks \<longrightarrow> circ_qot vc qm1 turn k = Inr (mx_qm2 (vc_exp_matrices vc') k))
       \<and> (k \<notin> set ks \<longrightarrow> mx_qm2 (vc_exp_matrices vc') k = mx_qm2 (vc_exp_matrices vc) k)"
  using assms
proof (induction ks arbitrary: vc)
  case Nil
  then show ?case by simp
next
  case (Cons x xs)
  from Cons.prems obtain m where m: "qm2_step qm1 turn x vc = Inr m"
    and r0: "for_each (qm2_step qm1 turn) xs m = Inr vc'"
    by (auto split: sum.splits)
  from m obtain q where q: "circ_qot vc qm1 turn x = Inr q" and m': "m = set_qm2 vc x q"
    by (auto simp: qm2_step_def split: sum.splits)
  from r0 m' have r: "for_each (qm2_step qm1 turn) xs (set_qm2 vc x q) = Inr vc'"
    by simp
  note ih = Cons.IH [OF r, unfolded circ_qot_set_qm2]
  show ?case
  proof (cases "k \<in> set xs")
    case True
    with ih show ?thesis by simp
  next
    case False
    with ih have e: "mx_qm2 (vc_exp_matrices vc') k = mx_qm2 (vc_exp_matrices (set_qm2 vc x q)) k"
      by simp
    show ?thesis
    proof (cases "k = x")
      case True
      with e q show ?thesis by (simp add: set_qm2_def)
    next
      case False
      with e \<open>k \<notin> set xs\<close> show ?thesis by (simp add: set_qm2_def)
    qed
  qed
qed

text \<open>
  What the two circular passes store to \<open>qm2\<close>: the sum over the split points \<open>u\<close> from
  \<open>k + t + 1\<close> to \<open>n - t - 2\<close>, where \<open>t\<close> is the model's \<open>min_loop_size\<close> in \<open>pf_circ\<close>
  and the constant \<open>TURN\<close> in \<open>wrap_alipf_circ\<close>.
\<close>

lemma pf_circ_qm2_entry:
  assumes "pf_circ_qm2 vc (Some a) = Inr vc'"
    and "1 \<le> k" "k \<le> vc_length vc - md_min_loop_size (ep_model_details (vc_exp_params vc)) - 2"
  shows "mx_qm2 (vc_exp_matrices vc') k
     = (\<Sum>u = k + md_min_loop_size (ep_model_details (vc_exp_params vc)) + 1
              ..vc_length vc - md_min_loop_size (ep_model_details (vc_exp_params vc)) - 2.
          a (vc_jindx vc u + k) * a (vc_jindx vc (vc_length vc) + (u + 1)))"
  using for_each_qm2_entries [OF assms(1) [unfolded pf_circ_qm2_def Let_def], of k] assms(2,3)
  by (simp add: circ_qot_Some)

lemma alipf_circ_qm2_entry:
  assumes "alipf_circ_qm2 env vc (Some a) = Inr vc'"
    and "1 \<le> k" "k \<le> vc_length vc - TURN env - 1"
  shows "mx_qm2 (vc_exp_matrices vc') k
     = (\<Sum>u = k + TURN env + 1..vc_length vc - TURN env - 2.
          a (vc_jindx vc u + k) * a (vc_jindx vc (vc_length vc) + (u + 1)))"
  using for_each_qm2_entries [OF assms(1) [unfolded alipf_circ_qm2_def], of k] assms(2,3)
  by (simp add: circ_qot_Some)

text \<open>
  The loop over \<open>k\<close> runs through when \<open>qm1\<close> is there, and also without it when no
  turn of the inner loop is ever taken.
\<close>

lemma for_each_qm2_total:
  assumes "\<And>k. k \<in> set ks \<Longrightarrow> \<exists>q. circ_qot vc qm1 turn k = Inr q"
  shows "\<exists>vc'. for_each (qm2_step qm1 turn) ks vc = Inr vc'"
  using assms
proof (induction ks arbitrary: vc)
  case Nil
  show ?case by simp
next
  case (Cons x xs)
  from Cons.prems [of x] obtain q where q: "circ_qot vc qm1 turn x = Inr q" by auto
  have "\<exists>vc'. for_each (qm2_step qm1 turn) xs (set_qm2 vc x q) = Inr vc'"
    by (rule Cons.IH) (simp add: circ_qot_set_qm2 Cons.prems)
  moreover from q have "qm2_step qm1 turn x vc = Inr (set_qm2 vc x q)"
    by (simp add: qm2_step_def)
  ultimately show ?case by simp
qed

lemma circ_qot_total:
  assumes "qm1 \<noteq> None \<or> n < 2 * turn + 4" "vc_length vc = n" "1 \<le> k"
  shows "\<exists>q. circ_qot vc qm1 turn k = Inr q"
proof (cases qm1)
  case None
  with assms show ?thesis by (simp add: circ_qot_None)
next
  case (Some a)
  then show ?thesis by (simp add: circ_qot_Some)
qed

lemma pf_circ_qm2_total:
  assumes "qm1 \<noteq> None \<or> vc_length vc < 2 * md_min_loop_size (ep_model_details (vc_exp_params vc)) + 4"
  shows "\<exists>vc'. pf_circ_qm2 vc qm1 = Inr vc'"
  unfolding pf_circ_qm2_def Let_def
  by (rule for_each_qm2_total) (rule circ_qot_total [OF assms], simp_all)

lemma alipf_circ_qm2_total:
  assumes "qm1 \<noteq> None \<or> vc_length vc < 2 * TURN env + 4"
  shows "\<exists>vc'. alipf_circ_qm2 env vc qm1 = Inr vc'"
  unfolding alipf_circ_qm2_def
  by (rule for_each_qm2_total) (rule circ_qot_total [OF assms], simp_all)

text \<open>Without \<open>qm1\<close> and with a turn of the inner loop to take, the pass ends the program.\<close>

lemma for_each_Inl_first:
  assumes "f x s = Inl e"
  shows "for_each f (x # xs) s = Inl e"
  using assms by simp

lemma pf_circ_qm2_null:
  assumes "2 * md_min_loop_size (ep_model_details (vc_exp_params vc)) + 4 \<le> vc_length vc"
    and "0 \<le> md_min_loop_size (ep_model_details (vc_exp_params vc))"
  shows "pf_circ_qm2 vc None = Inl (Null_dereference ''qm1'')"
proof -
  let ?t = "md_min_loop_size (ep_model_details (vc_exp_params vc))"
  from assms have "[1..vc_length vc - ?t - 2] = 1 # [1 + 1..vc_length vc - ?t - 2]"
    by (simp add: upto.simps)
  moreover from assms have "qm2_step None ?t 1 vc = Inl (Null_dereference ''qm1'')"
    by (simp add: qm2_step_def circ_qot_None)
  ultimately show ?thesis by (simp add: pf_circ_qm2_def Let_def)
qed

text \<open>A loop whose every turn leaves the accumulator alone, and one that keeps a property of it.\<close>

lemma fold_idle:
  assumes "\<And>x a. f x a = a"
  shows "fold f xs a = a"
  by (induction xs) (simp_all add: assms)

lemma fold_keeps:
  assumes "P s" and "\<And>x s. P s \<Longrightarrow> P (f x s)"
  shows "P (fold f xs s)"
  using assms(1) by (induction xs arbitrary: s) (simp_all add: assms(2))

lemma pf_circ_pairs_zero:
  assumes "\<And>k. mx_qb (vc_exp_matrices vc) k = 0"
  shows "pf_circ_pairs env vc = (0, 0)"
proof -
  have l: "pf_circ_l env vc p q type k l qio = qio" for p q type k l qio
    by (simp add: pf_circ_l_def Let_def assms)
  have k: "pf_circ_k env vc p q type k qio = qio" for p q type k qio
    unfolding pf_circ_k_def Let_def by (rule fold_idle) (rule l)
  have kk: "fold (pf_circ_k env vc p q type) ks qio = qio" for p q type ks qio
    by (rule fold_idle) (rule k)
  have pq: "pf_circ_pq env vc p q acc = acc" for p q acc
    by (cases acc) (simp add: pf_circ_pq_def Let_def assms kk)
  have "fold (pf_circ_pq env vc p) qs acc = acc" for p qs acc
    by (rule fold_idle) (rule pq)
  then show ?thesis
    unfolding pf_circ_pairs_def Let_def by (simp add: fold_idle)
qed

lemma pf_circ_qmo_zero:
  assumes "\<And>k. mx_qm (vc_exp_matrices vc) k = 0"
  shows "pf_circ_qmo vc = 0"
  unfolding pf_circ_qmo_def Let_def by (rule fold_idle) (simp add: assms)

lemma alipf_circ_pairs_zero:
  assumes "\<And>k. mx_qb (vc_exp_matrices vc) k = 0"
  shows "alipf_circ_pairs env vc = (0, 0)"
proof -
  have l: "alipf_circ_l env vc p q k l qio = qio" for p q k l qio
    by (simp add: alipf_circ_l_def Let_def assms)
  have k: "alipf_circ_k env vc p q k qio = qio" for p q k qio
    unfolding alipf_circ_k_def Let_def by (rule fold_idle) (rule l)
  have i: "alipf_circ_int env vc p q qio = qio" for p q qio
    unfolding alipf_circ_int_def by (simp add: fold_idle k)
  have h: "alipf_circ_hp env vc p q u qho = qho" for p q u qho
    by (simp add: alipf_circ_hp_def Let_def assms split: prod.splits)
  have pq: "alipf_circ_pq env vc p q acc = acc" for p q acc
    by (cases acc) (simp add: alipf_circ_pq_def Let_def h i)
  have "fold (alipf_circ_pq env vc p) qs acc = acc" for p qs acc
    by (rule fold_idle) (rule pq)
  then show ?thesis
    unfolding alipf_circ_pairs_def by (simp add: fold_idle)
qed

lemma alipf_circ_qmo_zero:
  assumes "\<And>k. mx_qm (vc_exp_matrices vc) k = 0"
  shows "alipf_circ_qmo env vc = 0"
  unfolding alipf_circ_qmo_def Let_def by (rule fold_idle) (simp add: assms)

text \<open>With weights and matrices that are not negative, no part of the total is negative.\<close>

lemma pf_circ_pairs_nonneg:
  assumes w: "nonneg_weights env"
    and b: "\<And>ij. 0 \<le> mx_qb (vc_exp_matrices vc) ij"
    and s: "\<And>d. 0 \<le> mx_scale (vc_exp_matrices vc) d"
  shows "0 \<le> fst (pf_circ_pairs env vc) \<and> 0 \<le> snd (pf_circ_pairs env vc)"
proof -
  from w have hp: "0 \<le> vrna_exp_E_hp_loop env v i j" for v i j
    by (simp add: nonneg_weights_def)
  from w have il: "0 \<le> exp_E_IntLoop env u1 u2 t t2 a b c d P" for u1 u2 t t2 a b c d P
    by (simp add: nonneg_weights_def)
  have l: "0 \<le> pf_circ_l env vc p q type k l qio" if "0 \<le> qio" for p q type k l qio
    using that by (simp add: pf_circ_l_def Let_def b s il)
  have k: "0 \<le> pf_circ_k env vc p q type k qio" if "0 \<le> qio" for p q type k qio
    unfolding pf_circ_k_def Let_def using that by (rule fold_keeps) (rule l)
  have kk: "0 \<le> fold (pf_circ_k env vc p q type) ks qio" if "0 \<le> qio" for p q type ks qio
    using that by (rule fold_keeps) (rule k)
  have pq: "0 \<le> fst (pf_circ_pq env vc p q acc) \<and> 0 \<le> snd (pf_circ_pq env vc p q acc)"
    if "0 \<le> fst acc \<and> 0 \<le> snd acc" for p q acc
    using that by (cases acc) (simp add: pf_circ_pq_def Let_def b hp kk)
  have qs: "0 \<le> fst (fold (pf_circ_pq env vc p) qs acc) \<and> 0 \<le> snd (fold (pf_circ_pq env vc p) qs acc)"
    if "0 \<le> fst acc \<and> 0 \<le> snd acc" for p qs acc
    using that by (rule fold_keeps) (rule pq)
  show ?thesis
    unfolding pf_circ_pairs_def Let_def
    by (rule fold_keeps) (simp, rule qs)
qed

lemma pf_circ_qmo_nonneg:
  assumes "\<And>ij. 0 \<le> mx_qm (vc_exp_matrices vc) ij"
    and "\<And>k. 0 \<le> mx_qm2 (vc_exp_matrices vc) k"
    and "0 \<le> ep_expMLclosing (vc_exp_params vc)"
  shows "0 \<le> pf_circ_qmo vc"
  unfolding pf_circ_qmo_def Let_def
  by (rule fold_keeps) (simp_all add: assms)

lemma qm2_nonneg:
  assumes f: "for_each (qm2_step qm1 turn) ks vc = Inr vc'"
    and a: "\<And>a ij. qm1 = Some a \<Longrightarrow> 0 \<le> a ij"
    and z: "\<And>k. 0 \<le> mx_qm2 (vc_exp_matrices vc) k"
  shows "0 \<le> mx_qm2 (vc_exp_matrices vc') k"
proof (cases "k \<in> set ks")
  case False
  with for_each_qm2_entries [OF f, of k] z show ?thesis by simp
next
  case True
  with for_each_qm2_entries [OF f, of k]
  have e: "circ_qot vc qm1 turn k = Inr (mx_qm2 (vc_exp_matrices vc') k)" by simp
  show ?thesis
  proof (cases qm1)
    case None
    with e show ?thesis by (simp add: circ_qot_None split: if_splits)
  next
    case (Some a)
    with e have "mx_qm2 (vc_exp_matrices vc') k
        = (\<Sum>u = k + turn + 1..vc_length vc - turn - 2.
             a (vc_jindx vc u + k) * a (vc_jindx vc (vc_length vc) + (u + 1)))"
      by (simp add: circ_qot_Some)
    with a [OF Some] show ?thesis by (simp add: sum_nonneg)
  qed
qed

lemma alipf_circ_pairs_nonneg:
  assumes w: "nonneg_weights env"
    and b: "\<And>ij. 0 \<le> mx_qb (vc_exp_matrices vc) ij"
    and s: "\<And>d. 0 \<le> mx_scale (vc_exp_matrices vc) d"
    and c: "nonneg_scs vc"
  shows "0 \<le> fst (alipf_circ_pairs env vc) \<and> 0 \<le> snd (alipf_circ_pairs env vc)"
proof -
  from w have hp: "0 \<le> exp_E_Hairpin env u t a b str P" for u t a b str P
    by (simp add: nonneg_weights_def)
  from w have il: "0 \<le> exp_E_IntLoop env u1 u2 t t2 a b c d P" for u1 u2 t t2 a b c d P
    by (simp add: nonneg_weights_def)
  from c have up: "0 \<le> up i u"
    if "vc_scs vc = Some sc" "sc s = Some c'" "sc_exp_energy_up c' = Some up" for sc s c' up i u
    using that unfolding nonneg_scs_def by blast
  from c have st: "0 \<le> st i"
    if "vc_scs vc = Some sc" "sc s = Some c'" "sc_exp_energy_stack c' = Some st" for sc s c' st i
    using that unfolding nonneg_scs_def by blast
  have row: "0 \<le> fst (alipf_circ_hp_row env vc p q s acc)" if "0 \<le> fst acc" for p q s acc
    using that by (cases acc) (simp add: alipf_circ_hp_row_def Let_def hp)
  have rows: "0 \<le> fst (fold (alipf_circ_hp_row env vc p q) ss acc)" if "0 \<le> fst acc" for p q ss acc
    using that by (rule fold_keeps) (rule row)
  have hsc: "0 \<le> alipf_circ_hp_sc vc p q x" if "0 \<le> x" for p q x
  proof (cases "vc_scs vc")
    case None
    with that show ?thesis by (simp add: alipf_circ_hp_sc_def)
  next
    case (Some sc)
    have "0 \<le> fold (\<lambda>s qbt1.
                  (case sc s of
                     None \<Rightarrow> qbt1
                   | Some c \<Rightarrow>
                       (case sc_exp_energy_up c of
                          None \<Rightarrow> qbt1
                        | Some up \<Rightarrow>
                            qbt1 * ((if p > 1 then up 1 (vc_a2s vc s p - 1) else 1)
                                    * (if q < vc_length vc
                                       then up (vc_a2s vc s q + 1) (vc_a2s vc s (vc_length vc) - vc_a2s vc s q)
                                       else 1)))))
            [0..vc_n_seq vc - 1] x"
      using that
    proof (rule fold_keeps)
      fix s and y :: real
      assume y: "0 \<le> y"
      show "0 \<le> (case sc s of
                     None \<Rightarrow> y
                   | Some c \<Rightarrow>
                       (case sc_exp_energy_up c of
                          None \<Rightarrow> y
                        | Some up \<Rightarrow>
                            y * ((if p > 1 then up 1 (vc_a2s vc s p - 1) else 1)
                                    * (if q < vc_length vc
                                       then up (vc_a2s vc s q + 1) (vc_a2s vc s (vc_length vc) - vc_a2s vc s q)
                                       else 1))))"
      proof (cases "sc s")
        case None
        with y show ?thesis by simp
      next
        case c': (Some c')
        show ?thesis
        proof (cases "sc_exp_energy_up c'")
          case None
          with c' y show ?thesis by simp
        next
          case u: (Some e)
          have "0 \<le> e i u" for i u by (rule up [OF Some c' u])
          with c' u y show ?thesis by (simp add: mult_nonneg_nonneg)
        qed
      qed
    qed
    with Some show ?thesis by (simp add: alipf_circ_hp_sc_def)
  qed
  have h: "0 \<le> alipf_circ_hp env vc p q u qho" if "0 \<le> qho" for p q u qho
  proof -
    have "0 \<le> fst (fold (alipf_circ_hp_row env vc p q) [0..vc_n_seq vc - 1] (1, u))"
      by (rule rows) simp
    then show ?thesis
      using that
      by (auto simp: alipf_circ_hp_def Let_def b s split: prod.splits
          intro!: add_nonneg_nonneg mult_nonneg_nonneg hsc)
  qed
  have irow: "0 \<le> alipf_circ_int_row env vc p q k l s x" if "0 \<le> x" for p q k l s x
    using that by (simp add: alipf_circ_int_row_def Let_def il)
  have isc: "0 \<le> alipf_circ_int_sc vc sc p q k l s x"
    if x: "0 \<le> x" and sc: "vc_scs vc = Some sc" for sc p q k l s x
  proof (cases "sc s")
    case None
    with x show ?thesis by (simp add: alipf_circ_int_sc_def Let_def)
  next
    case c': (Some c')
    have e: "0 \<le> e i u" if "sc_exp_energy_up c' = Some e" for e i u
      by (rule up [OF sc c' that])
    have t: "0 \<le> t i" if "sc_exp_energy_stack c' = Some t" for t i
      by (rule st [OF sc c' that])
    from x c' show ?thesis
      by (auto simp: alipf_circ_int_sc_def Let_def e t split: option.splits
          intro!: mult_nonneg_nonneg)
  qed
  have l: "0 \<le> alipf_circ_l env vc p q k l qio" if "0 \<le> qio" for p q k l qio
  proof -
    have r: "0 \<le> fold (alipf_circ_int_row env vc p q k l) [0..vc_n_seq vc - 1] 1"
      by (rule fold_keeps) (simp, rule irow)
    have "0 \<le> (case vc_scs vc of
                  None \<Rightarrow> fold (alipf_circ_int_row env vc p q k l) [0..vc_n_seq vc - 1] 1
                | Some sc \<Rightarrow> fold (alipf_circ_int_sc vc sc p q k l) [0..vc_n_seq vc - 1]
                               (fold (alipf_circ_int_row env vc p q k l) [0..vc_n_seq vc - 1] 1))"
    proof (cases "vc_scs vc")
      case None
      with r show ?thesis by simp
    next
      case (Some sc)
      have "0 \<le> fold (alipf_circ_int_sc vc sc p q k l) [0..vc_n_seq vc - 1]
                   (fold (alipf_circ_int_row env vc p q k l) [0..vc_n_seq vc - 1] 1)"
        using r by (rule fold_keeps) (rule isc [OF _ Some])
      with Some show ?thesis by simp
    qed
    with that show ?thesis
      by (auto simp: alipf_circ_l_def Let_def b s intro!: add_nonneg_nonneg mult_nonneg_nonneg)
  qed
  have k: "0 \<le> alipf_circ_k env vc p q k qio" if "0 \<le> qio" for p q k qio
    unfolding alipf_circ_k_def Let_def using that by (rule fold_keeps) (rule l)
  have i: "0 \<le> alipf_circ_int env vc p q qio" if "0 \<le> qio" for p q qio
    unfolding alipf_circ_int_def using that by (auto intro: fold_keeps k)
  have pq: "0 \<le> fst (alipf_circ_pq env vc p q acc) \<and> 0 \<le> snd (alipf_circ_pq env vc p q acc)"
    if "0 \<le> fst acc \<and> 0 \<le> snd acc" for p q acc
    using that by (cases acc) (simp add: alipf_circ_pq_def Let_def h i)
  have qs: "0 \<le> fst (fold (alipf_circ_pq env vc p) qs acc) \<and> 0 \<le> snd (fold (alipf_circ_pq env vc p) qs acc)"
    if "0 \<le> fst acc \<and> 0 \<le> snd acc" for p qs acc
    using that by (rule fold_keeps) (rule pq)
  show ?thesis
    unfolding alipf_circ_pairs_def
    by (rule fold_keeps) (simp, rule qs)
qed

lemma alipf_circ_qmo_nonneg:
  assumes "\<And>ij. 0 \<le> mx_qm (vc_exp_matrices vc) ij"
    and "\<And>k. 0 \<le> mx_qm2 (vc_exp_matrices vc) k"
    and "0 \<le> ep_expMLclosing (vc_exp_params vc)"
  shows "0 \<le> alipf_circ_qmo env vc"
  unfolding alipf_circ_qmo_def Let_def
  by (rule fold_keeps) (simp_all add: assms)

subsection \<open>The errors of the passes\<close>

text \<open>The only errors: the overflow of an interval, and the read of a \<open>qm1\<close> that is not there.\<close>

lemma for_each_Inl:
  assumes "for_each f xs s = Inl e"
  shows "\<exists>x a. f x a = Inl e"
  using assms
proof (induction xs arbitrary: s)
  case Nil
  then show ?case by simp
next
  case (Cons x xs)
  show ?case
  proof (cases "f x s")
    case (Inl e')
    with Cons.prems show ?thesis by auto
  next
    case (Inr m)
    with Cons.prems have "for_each f xs m = Inl e" by simp
    then show ?thesis by (rule Cons.IH)
  qed
qed

lemma overflow_check_Inl:
  assumes "overflow_check env i j temp s = Inl e"
  shows "\<exists>lg. e = (Overflow_in_pf_fold i j, lg)"
  using assms by (auto simp: overflow_check_def Let_def split: if_splits)

lemma pf_linear_Inl:
  assumes "pf_linear env vc lg = Inl e"
  shows "\<exists>i j lg'. e = (Overflow_in_pf_fold i j, lg')"
proof -
  from assms have "pf_linear_columns env (pf_linear_init env vc lg) = Inl e"
    by (auto simp: pf_linear_def split: sum.splits)
  then obtain j s where "pf_linear_column env j s = Inl e"
    unfolding pf_linear_columns_def Let_def by (blast dest: for_each_Inl)
  then have "pf_linear_inner env j s = Inl e"
    by (auto simp: pf_linear_column_def split: sum.splits)
  then obtain i t where "pf_linear_cell env j i t = Inl e"
    unfolding pf_linear_inner_def Let_def by (blast dest: for_each_Inl)
  then show ?thesis
    unfolding pf_linear_cell_def Let_def by (blast dest: overflow_check_Inl)
qed

lemma alipf_linear_Inl:
  assumes "alipf_linear env vc lg = Inl e"
  shows "\<exists>i j lg'. e = (Overflow_in_pf_fold i j, lg')"
proof -
  from assms have "alipf_linear_columns env (alipf_linear_init vc lg) = Inl e"
    by (auto simp: alipf_linear_def split: sum.splits)
  then obtain j s where "alipf_linear_column env j s = Inl e"
    unfolding alipf_linear_columns_def Let_def by (blast dest: for_each_Inl)
  then have "alipf_linear_inner env j s = Inl e"
    by (auto simp: alipf_linear_column_def split: sum.splits)
  then obtain i t where "alipf_linear_cell env j i t = Inl e"
    unfolding alipf_linear_inner_def Let_def by (blast dest: for_each_Inl)
  then show ?thesis
    unfolding alipf_linear_cell_def Let_def by (blast dest: overflow_check_Inl)
qed

lemma circ_qot_Inl:
  assumes "circ_qot vc qm1 turn k = Inl e"
  shows "e = Null_dereference ''qm1''"
  using assms by (cases qm1) (auto simp: circ_qot_None circ_qot_Some split: if_splits)

lemma qm2_step_Inl:
  assumes "qm2_step qm1 turn k vc = Inl e"
  shows "e = Null_dereference ''qm1''"
  using assms by (auto simp: qm2_step_def split: sum.splits dest: circ_qot_Inl)

lemma pf_circ_Inl:
  assumes "pf_circ env vc lg = Inl e"
  shows "e = (Null_dereference ''qm1'', lg)"
proof -
  from assms obtain e0 where q: "pf_circ_qm2 vc (mx_qm1 (vc_exp_matrices vc)) = Inl e0" and e: "e = (e0, lg)"
    by (auto simp: pf_circ_def Let_def split: sum.splits prod.splits)
  from q have "e0 = Null_dereference ''qm1''"
    unfolding pf_circ_qm2_def Let_def by (blast dest: for_each_Inl qm2_step_Inl)
  with e show ?thesis by simp
qed

lemma wrap_alipf_circ_Inl:
  assumes "wrap_alipf_circ env vc lg = Inl e"
  shows "e = (Null_dereference ''qm1'', lg)"
proof -
  from assms obtain e0 where q: "alipf_circ_qm2 env vc (mx_qm1 (vc_exp_matrices vc)) = Inl e0" and e: "e = (e0, lg)"
    by (auto simp: wrap_alipf_circ_def Let_def split: sum.splits prod.splits)
  from q have "e0 = Null_dereference ''qm1''"
    unfolding alipf_circ_qm2_def by (blast dest: for_each_Inl qm2_step_Inl)
  with e show ?thesis by simp
qed

lemma pf_circ_result:
  assumes q: "pf_circ_qm2 vc (mx_qm1 (vc_exp_matrices vc)) = Inr vc1"
  shows "pf_circ env vc lg
     = Inr (set_circ_totals vc1
              (fst (pf_circ_pairs env vc1) + snd (pf_circ_pairs env vc1) + pf_circ_qmo vc1
               + mx_scale (vc_exp_matrices vc) (vc_length vc))
              (fst (pf_circ_pairs env vc1)) (snd (pf_circ_pairs env vc1)) (pf_circ_qmo vc1), lg)"
  by (simp add: pf_circ_def q Let_def only_qm2_fields [OF pf_circ_qm2_only [OF q]] split: prod.splits)

lemma wrap_alipf_circ_result:
  assumes q: "alipf_circ_qm2 env vc (mx_qm1 (vc_exp_matrices vc)) = Inr vc1"
  shows "wrap_alipf_circ env vc lg
     = Inr (set_circ_totals vc1
              (fst (alipf_circ_pairs env vc1) + snd (alipf_circ_pairs env vc1) + alipf_circ_qmo env vc1
               + (if hc_up_ext (vc_hc vc) 1 \<ge> vc_length vc
                  then mx_scale (vc_exp_matrices vc) (vc_length vc) else 0))
              (fst (alipf_circ_pairs env vc1)) (snd (alipf_circ_pairs env vc1)) (alipf_circ_qmo env vc1), lg)"
  by (simp add: wrap_alipf_circ_def q Let_def only_qm2_fields [OF alipf_circ_qm2_only [OF q]]
      split: prod.splits)

subsection \<open>The linear passes neither allocate nor free \<open>qm1\<close>\<close>

lemma qm1_kept_refl: "qm1_kept vc vc"
  by (simp add: qm1_kept_def)

lemma qm1_kept_trans: "qm1_kept a b \<Longrightarrow> qm1_kept b c \<Longrightarrow> qm1_kept a c"
  by (simp add: qm1_kept_def)

lemma qm1_kept_set:
  "qm1_kept vc (set_q vc ij v)" "qm1_kept vc (set_qb vc ij v)" "qm1_kept vc (set_qm vc ij v)"
  "qm1_kept vc (set_qm1 vc ij v)" "qm1_kept vc (set_qm2 vc ij v)"
  by (simp_all add: qm1_kept_def set_mx)

lemma qm1_kept_fold:
  assumes "\<And>x a. qm1_kept a (f x a)"
  shows "qm1_kept vc (fold f xs vc)"
  using assms by (rule fold_preserves) (auto intro: qm1_kept_refl qm1_kept_trans)

lemma pf_linear_steps_qm1:
  "qm1_kept (st_vc s) (st_vc (pf_linear_qb env i j s))"
  "qm1_kept (st_vc s) (st_vc (pf_linear_qqm env i j s))"
  "qm1_kept (st_vc s) (st_vc (pf_linear_qm env i j s))"
  "qm1_kept (st_vc s) (st_vc (pf_linear_qq env i j s))"
  "qm1_kept (st_vc s) (st_vc (pf_linear_q env i j s))"
  by (simp_all add: qm1_kept_set qm1_kept_refl pf_linear_qb_def
      pf_linear_qqm_def pf_linear_qm_def pf_linear_qq_def pf_linear_q_def Let_def)

lemma alipf_linear_steps_qm1:
  "qm1_kept (st_vc s) (st_vc (alipf_linear_qb env i j s))"
  "qm1_kept (st_vc s) (st_vc (alipf_linear_qqm env i j s))"
  "qm1_kept (st_vc s) (st_vc (alipf_linear_qm env i j s))"
  "qm1_kept (st_vc s) (st_vc (alipf_linear_qq env i j s))"
  "qm1_kept (st_vc s) (st_vc (alipf_linear_q env i j s))"
  by (simp_all add: qm1_kept_set qm1_kept_refl alipf_linear_qb_def
      alipf_linear_qqm_def alipf_linear_qm_def alipf_linear_qq_def alipf_linear_q_def Let_def)

lemma pf_linear_stored_qm1: "qm1_kept (st_vc s) (st_vc (pf_linear_stored env i j s))"
proof -
  let ?s1 = "pf_linear_qb env i j s"
  let ?s2 = "pf_linear_qqm env i j ?s1"
  let ?s3 = "pf_linear_qm env i j ?s2"
  let ?s4 = "pf_linear_qq env i j ?s3"
  have "qm1_kept (st_vc s) (st_vc ?s2)"
    by (rule qm1_kept_trans [OF pf_linear_steps_qm1(1) pf_linear_steps_qm1(2)])
  then have "qm1_kept (st_vc s) (st_vc ?s3)"
    by (rule qm1_kept_trans [OF _ pf_linear_steps_qm1(3)])
  then have "qm1_kept (st_vc s) (st_vc ?s4)"
    by (rule qm1_kept_trans [OF _ pf_linear_steps_qm1(4)])
  then have "qm1_kept (st_vc s) (st_vc (pf_linear_q env i j ?s4))"
    by (rule qm1_kept_trans [OF _ pf_linear_steps_qm1(5)])
  then show ?thesis by (simp add: pf_linear_stored_def pf_linear_upto_qq_def)
qed

lemma alipf_linear_stored_qm1: "qm1_kept (st_vc s) (st_vc (alipf_linear_stored env i j s))"
proof -
  let ?s1 = "alipf_linear_qb env i j s"
  let ?s2 = "alipf_linear_qqm env i j ?s1"
  let ?s3 = "alipf_linear_qm env i j ?s2"
  let ?s4 = "alipf_linear_qq env i j ?s3"
  have "qm1_kept (st_vc s) (st_vc ?s2)"
    by (rule qm1_kept_trans [OF alipf_linear_steps_qm1(1) alipf_linear_steps_qm1(2)])
  then have "qm1_kept (st_vc s) (st_vc ?s3)"
    by (rule qm1_kept_trans [OF _ alipf_linear_steps_qm1(3)])
  then have "qm1_kept (st_vc s) (st_vc ?s4)"
    by (rule qm1_kept_trans [OF _ alipf_linear_steps_qm1(4)])
  then have "qm1_kept (st_vc s) (st_vc (alipf_linear_q env i j ?s4))"
    by (rule qm1_kept_trans [OF _ alipf_linear_steps_qm1(5)])
  then show ?thesis by (simp add: alipf_linear_stored_def alipf_linear_upto_qq_def)
qed

lemma pf_linear_column_qm1:
  assumes "pf_linear_column env j s = Inr s'"
  shows "qm1_kept (st_vc s) (st_vc s')"
proof -
  from assms obtain t where t: "pf_linear_inner env j s = Inr t" and s': "s' = rotate_ud (swap_buffers t)"
    by (auto simp: pf_linear_column_def split: sum.splits)
  have c: "qm1_kept (st_vc a) (st_vc b)" if "pf_linear_cell env j x a = Inr b" for x a b
    using pf_linear_cell_Inr(1) [OF that] pf_linear_stored_qm1 [of a env x j] by simp
  have "qm1_kept (st_vc s) (st_vc t)"
    using t unfolding pf_linear_inner_def Let_def
    by (rule for_each_preserves) (auto intro: c qm1_kept_refl qm1_kept_trans)
  moreover have "st_vc s' = st_vc t"
    by (simp add: s' rotate_ud_def swap_buffers_def Let_def)
  ultimately show ?thesis by simp
qed

lemma alipf_linear_column_qm1:
  assumes "alipf_linear_column env j s = Inr s'"
  shows "qm1_kept (st_vc s) (st_vc s')"
proof -
  from assms obtain t where t: "alipf_linear_inner env j s = Inr t" and s': "s' = swap_buffers t"
    by (auto simp: alipf_linear_column_def split: sum.splits)
  have c: "qm1_kept (st_vc a) (st_vc b)" if "alipf_linear_cell env j x a = Inr b" for x a b
    using alipf_linear_cell_Inr(1) [OF that] alipf_linear_stored_qm1 [of a env x j] by simp
  have "qm1_kept (st_vc s) (st_vc t)"
    using t unfolding alipf_linear_inner_def Let_def
    by (rule for_each_preserves) (auto intro: c qm1_kept_refl qm1_kept_trans)
  moreover have "st_vc s' = st_vc t"
    by (simp add: s' swap_buffers_def Let_def)
  ultimately show ?thesis by simp
qed

lemma pf_linear_init_qm1: "qm1_kept vc (st_vc (pf_linear_init env vc lg))"
proof -
  have 1: "qm1_kept vc (pf_linear_prod env vc)"
    by (simp add: pf_linear_prod_def qm1_kept_def split: option.splits)
  have 2: "\<And>vc. qm1_kept vc (pf_linear_gquad env vc)"
    by (simp add: pf_linear_gquad_def qm1_kept_def)
  have s: "\<And>d i vc. qm1_kept vc (pf_linear_seed env d i vc)"
    by (simp add: pf_linear_seed_def Let_def qm1_kept_def set_mx)
  have 3: "\<And>vc ds n. qm1_kept vc (fold (\<lambda>d vc. fold (pf_linear_seed env d) [1..n - d] vc) ds vc)"
    by (intro qm1_kept_fold s)
  have "qm1_kept vc (pf_linear_gquad env (pf_linear_prod env vc))"
    by (rule qm1_kept_trans [OF 1 2])
  from qm1_kept_trans [OF this 3] show ?thesis
    by (simp add: pf_linear_init_def Let_def)
qed

lemma alipf_linear_init_qm1: "qm1_kept vc (st_vc (alipf_linear_init vc lg))"
proof -
  have s: "\<And>d i vc. qm1_kept vc (alipf_linear_seed d i vc)"
    by (simp add: alipf_linear_seed_def Let_def qm1_kept_def set_mx)
  have "\<And>vc ds n. qm1_kept vc (fold (\<lambda>d vc. fold (alipf_linear_seed d) [1..n - d] vc) ds vc)"
    by (intro qm1_kept_fold s)
  then show ?thesis
    by (simp add: alipf_linear_init_def Let_def)
qed

lemma pf_linear_qm1:
  assumes "pf_linear env vc lg = Inr (vc', lg')"
  shows "qm1_kept vc vc'"
proof -
  let ?s0 = "pf_linear_init env vc lg"
  from assms obtain s where s: "pf_linear_columns env ?s0 = Inr s" and vc': "vc' = pf_linear_prefill (st_vc s)"
    by (auto simp: pf_linear_def split: sum.splits)
  have "qm1_kept (st_vc ?s0) (st_vc s)"
    using s unfolding pf_linear_columns_def Let_def
    by (rule for_each_preserves) (auto intro: pf_linear_column_qm1 qm1_kept_refl qm1_kept_trans)
  with pf_linear_init_qm1 [of vc env lg] have "qm1_kept vc (st_vc s)"
    by (rule qm1_kept_trans)
  then show ?thesis by (simp add: vc' qm1_kept_def pf_linear_prefill_sel)
qed

lemma alipf_linear_qm1:
  assumes "alipf_linear env vc lg = Inr (vc', lg')"
  shows "qm1_kept vc vc'"
proof -
  let ?s0 = "alipf_linear_init vc lg"
  from assms obtain s where s: "alipf_linear_columns env ?s0 = Inr s" and vc': "vc' = st_vc s"
    by (auto simp: alipf_linear_def split: sum.splits)
  have "qm1_kept (st_vc ?s0) (st_vc s)"
    using s unfolding alipf_linear_columns_def Let_def
    by (rule for_each_preserves) (auto intro: alipf_linear_column_qm1 qm1_kept_refl qm1_kept_trans)
  with alipf_linear_init_qm1 [of vc lg] have "qm1_kept vc (st_vc s)"
    by (rule qm1_kept_trans)
  then show ?thesis by (simp add: vc')
qed

text \<open>A circular pass ends the program only on a compound without \<open>qm1\<close>.\<close>

lemma pf_circ_Inl_qm1:
  assumes "pf_circ env vc lg = Inl e"
  shows "mx_qm1 (vc_exp_matrices vc) = None"
proof (rule ccontr)
  assume "mx_qm1 (vc_exp_matrices vc) \<noteq> None"
  then obtain vc1 where "pf_circ_qm2 vc (mx_qm1 (vc_exp_matrices vc)) = Inr vc1"
    using pf_circ_qm2_total by blast
  from pf_circ_result [OF this, of env lg] assms show False by simp
qed

lemma wrap_alipf_circ_Inl_qm1:
  assumes "wrap_alipf_circ env vc lg = Inl e"
  shows "mx_qm1 (vc_exp_matrices vc) = None"
proof (rule ccontr)
  assume "mx_qm1 (vc_exp_matrices vc) \<noteq> None"
  then obtain vc1 where "alipf_circ_qm2 env vc (mx_qm1 (vc_exp_matrices vc)) = Inr vc1"
    using alipf_circ_qm2_total by blast
  from wrap_alipf_circ_result [OF this, of lg] assms show False by simp
qed

lemma vrna_pf_passes_Inl_qm1:
  assumes "vrna_pf_passes env vc lg = Some (Inl e)"
  shows "(\<exists>i j lg'. e = (Overflow_in_pf_fold i j, lg'))
         \<or> ((\<exists>lg'. e = (Null_dereference ''qm1'', lg'))
             \<and> md_circ (ep_model_details (vc_exp_params vc)) \<noteq> 0
             \<and> mx_qm1 (vc_exp_matrices vc) = None)"
proof (cases "vc_type vc")
  case VRNA_VC_TYPE_SINGLE
  show ?thesis
  proof (cases "pf_linear env vc lg")
    case (Inl e')
    with assms VRNA_VC_TYPE_SINGLE have "e' = e" by (simp add: vrna_pf_passes_def)
    with Inl pf_linear_Inl show ?thesis by blast
  next
    case (Inr a)
    obtain vc1 lg1 where a: "a = (vc1, lg1)" by (cases a)
    from pf_linear_frame [OF Inr [unfolded a]]
    have p: "vc_exp_params vc1 = vc_exp_params vc" by (rule same_frame_fields)
    from assms VRNA_VC_TYPE_SINGLE Inr a
    have c: "md_circ (ep_model_details (vc_exp_params vc1)) \<noteq> 0" and e: "pf_circ env vc1 lg1 = Inl e"
      by (auto simp: vrna_pf_passes_def split: if_splits)
    from pf_circ_Inl_qm1 [OF e] pf_linear_qm1 [OF Inr [unfolded a]]
    have "mx_qm1 (vc_exp_matrices vc) = None" by (simp add: qm1_kept_def)
    with pf_circ_Inl [OF e] c p show ?thesis by simp
  qed
next
  case VRNA_VC_TYPE_ALIGNMENT
  show ?thesis
  proof (cases "alipf_linear env vc lg")
    case (Inl e')
    with assms VRNA_VC_TYPE_ALIGNMENT have "e' = e" by (simp add: vrna_pf_passes_def)
    with Inl alipf_linear_Inl show ?thesis by blast
  next
    case (Inr a)
    obtain vc1 lg1 where a: "a = (vc1, lg1)" by (cases a)
    from alipf_linear_frame [OF Inr [unfolded a]]
    have p: "vc_exp_params vc1 = vc_exp_params vc" by (rule same_frame_fields)
    from assms VRNA_VC_TYPE_ALIGNMENT Inr a
    have c: "md_circ (ep_model_details (vc_exp_params vc1)) \<noteq> 0" and e: "wrap_alipf_circ env vc1 lg1 = Inl e"
      by (auto simp: vrna_pf_passes_def split: if_splits)
    from wrap_alipf_circ_Inl_qm1 [OF e] alipf_linear_qm1 [OF Inr [unfolded a]]
    have "mx_qm1 (vc_exp_matrices vc) = None" by (simp add: qm1_kept_def)
    with wrap_alipf_circ_Inl [OF e] c p show ?thesis by simp
  qed
next
  case (VRNA_VC_TYPE_unrecognized x)
  with assms show ?thesis by (simp add: vrna_pf_passes_def)
qed

subsection \<open>Evaluating the circular passes and \<open>vrna_pf\<close> on the example data\<close>

lemma upto_from_zero_one:
  "[0..numeral n] = 0 # [1..numeral n]" "[1..numeral n] = 1 # [2..numeral n]"
  by (simp_all add: upto.simps)

lemmas eval_circ = wrap_alipf_circ_def alipf_circ_qm2_def qm2_step_def circ_qot_def alipf_circ_pairs_def
  alipf_circ_pq_def alipf_circ_qmo_def
  pf_circ_def pf_circ_qm2_def pf_circ_pairs_def pf_circ_pq_def pf_circ_k_def pf_circ_l_def pf_circ_qmo_def
  upto_from_zero_one

lemma example_env_nonneg: "nonneg_weights example_env"
  by (simp add: nonneg_weights_def example_env_sel)

lemma example_scaled_cb: "vc_stat_cb_set (example_scaled ty e)"
  by (simp add: example_scaled_def example_vc_sel)

section \<open>The claims\<close>


text \<open>
  C8. The claim is that only an \<open>'F'\<close> line carries the ENFORCE modifier, and that
  \<open>'U'\<close> and \<open>'B'\<close> lines get exactly ALL\_LOOPS. The code does otherwise: on the
  one-line file \<open>U 1-2 5-6\<close> (parsed as the ranges 1-2 and 5-6 with the default loop
  type \<open>'A'\<close>) each of the four entries has type ALL\_LOOPS OR ENFORCE, that is
  \<open>0x7F\<close> and not \<open>0x3F\<close>.
\<close>

theorem read_constraints_U_line_enforced:
  "fst (vrna_read_constraints_file hc_context_lib
          (\<lambda>args command. \<lparr>pl_error = 0, pl_i = 1, pl_j = 2, pl_k = 5, pl_l = 6, pl_looptype = CHR ''A''\<rparr>)
          [''U 1-2 5-6''])
   = [\<lparr>plist_i = 1, plist_j = 5, plist_p = 0, plist_type = 0x7F\<rparr>,
      \<lparr>plist_i = 1, plist_j = 6, plist_p = 0, plist_type = 0x7F\<rparr>,
      \<lparr>plist_i = 2, plist_j = 5, plist_p = 0, plist_type = 0x7F\<rparr>,
      \<lparr>plist_i = 2, plist_j = 6, plist_p = 0, plist_type = 0x7F\<rparr>,
      \<lparr>plist_i = 0, plist_j = 0, plist_p = 0, plist_type = 0\<rparr>]
   \<and> constraint_type hc_context_lib (CHR ''U'') (CHR ''A'')
       = VRNA_HC_CONTEXT_ALL_LOOPS hc_context_lib OR VRNA_HC_CONTEXT_ENFORCE hc_context_lib
   \<and> constraint_type hc_context_lib (CHR ''U'') (CHR ''A'') \<noteq> VRNA_HC_CONTEXT_ALL_LOOPS hc_context_lib"
  by (simp add: vrna_read_constraints_file_def constraint_entries_def constraint_type_def
      command_context_def looptype_context_def hc_context_lib_def range_entries_def upto.simps)

text \<open>
  C1, as stated, fails: \<open>vrna_pf\<close> does not return for every prepared compound of
  recognized type. On the single-sequence example of length 2 with the scale factors
  \<open>scale[d] = 2 ^ (512 * d)\<close> the first interval gives \<open>q(1,2) = 2 ^ 1024 + 1\<close>, which is
  not below \<open>DBL_MAX\<close>, and the linear pass ends the program with the fatal overflow
  error of C4 (after the first status call and the warning); no free energy is returned.
\<close>

theorem vrna_pf_overflow_counterexample:
  "vc_type (vrna_fold_compound_prepare example_env (example_scaled VRNA_VC_TYPE_SINGLE 512)) = VRNA_VC_TYPE_SINGLE
   \<and> vrna_pf example_env (Some (example_scaled VRNA_VC_TYPE_SINGLE 512)) None
       = Inl (Overflow_in_pf_fold 1 2,
              [Status_callback VRNA_STATUS_PF_PRE, Warning_Q_close_to_overflow 1 2 (2 ^ 1024 + 1)])
   \<and> isl (vrna_pf example_env (Some (example_scaled VRNA_VC_TYPE_SINGLE 512)) None)"
  by (simp add: eval_pf eval_lin example_scaled_sel example_scaled_cb cong: eval_congs)


text \<open>
  C1, amended. Take a prepared fold compound of recognized type, which has the matrix
  \<open>qm1\<close> if its model is circular. Unless the linear pass ends the program with the fatal
  overflow error of some interval, \<open>vrna_pf\<close> returns, and what it returns is
  \<open>(-log(Q) - n*log(pf_scale))*kT/1000\<close>, for an alignment \<open>.../(1000*n_seq)\<close>, computed as
  the C code does, where \<open>Q\<close> is \<open>qb(1,n)\<close> for backtrack type \<open>'C'\<close>, \<open>qm(1,n)\<close> for
  \<open>'M'\<close>, otherwise \<open>qo\<close> for a circular model and \<open>q(1,n)\<close> else. For positive \<open>Q\<close> and
  \<open>pf_scale\<close> this is the real number \<open>(-ln(Q) - n*ln(pf_scale))*kT/1000\<close>, divided by
  \<open>n_seq\<close> in addition for an alignment; for \<open>Q = 0\<close> (and positive \<open>pf_scale\<close>, \<open>kT\<close>) it
  is plus infinity. The type and the length of the returned compound are those of the
  prepared one.
\<close>

theorem vrna_pf_free_energy:
  assumes "vc_type (vrna_fold_compound_prepare env vc) = VRNA_VC_TYPE_SINGLE
           \<or> vc_type (vrna_fold_compound_prepare env vc) = VRNA_VC_TYPE_ALIGNMENT"
    and "md_circ (ep_model_details (vc_exp_params (vrna_fold_compound_prepare env vc))) \<noteq> 0
         \<longrightarrow> mx_qm1 (vc_exp_matrices (vrna_fold_compound_prepare env vc)) \<noteq> None"
  shows "(\<exists>i j lg. vrna_pf env (Some vc) structure = Inl (Overflow_in_pf_fold i j, lg))
       \<or> (\<exists>r vc'. vrna_pf env (Some vc) structure = Inr r
             \<and> ret_vc r = Some vc'
             \<and> vc_type vc' = vc_type (vrna_fold_compound_prepare env vc)
             \<and> vc_length vc' = vc_length (vrna_fold_compound_prepare env vc)
             \<and> (let n = vc_length vc';
                     params = vc_exp_params vc';
                     md = ep_model_details params;
                     matrices = vc_exp_matrices vc';
                     Q = (if md_backtrack_type md = CHR ''C'' then mx_qb matrices (vc_iindx vc' 1 - n)
                          else if md_backtrack_type md = CHR ''M'' then mx_qm matrices (vc_iindx vc' 1 - n)
                          else if md_circ md \<noteq> 0 then mx_qo matrices
                          else mx_q matrices (vc_iindx vc' 1 - n));
                     pf_scale = ep_pf_scale params;
                     kT = ep_kT params;
                     F = (- ln Q - real_of_int n * ln pf_scale) * kT / 1000
                 in ret_free_energy r
                      = c_divide
                          (c_times (c_minus (c_uminus (c_log Q)) (c_times (Finite (real_of_int n)) (c_log pf_scale)))
                             (Finite kT))
                          (Finite (if vc_type vc' = VRNA_VC_TYPE_ALIGNMENT
                                   then 1000 * real_of_int (vc_n_seq vc') else 1000))
                    \<and> (0 < Q \<and> 0 < pf_scale \<and> vc_type vc' \<noteq> VRNA_VC_TYPE_ALIGNMENT \<longrightarrow>
                          ret_free_energy r = Finite F)
                    \<and> (0 < Q \<and> 0 < pf_scale \<and> vc_type vc' = VRNA_VC_TYPE_ALIGNMENT \<and> vc_n_seq vc' \<noteq> 0 \<longrightarrow>
                          ret_free_energy r = Finite (F / real_of_int (vc_n_seq vc')))
                    \<and> (Q = 0 \<and> 0 < pf_scale \<and> 0 < kT
                          \<and> (vc_type vc' = VRNA_VC_TYPE_ALIGNMENT \<longrightarrow> 0 < vc_n_seq vc') \<longrightarrow>
                          ret_free_energy r = PlusInf)))"
proof -
  let ?p = "vrna_fold_compound_prepare env vc"
  let ?lg = "stat_cb ?p VRNA_STATUS_PF_PRE []"
  from assms(1) obtain res where res: "vrna_pf_passes env ?p ?lg = Some res"
    by (auto simp: vrna_pf_passes_def)
  show ?thesis
  proof (cases res)
    case (Inl e)
    with res have pf: "vrna_pf env (Some vc) structure = Inl e"
      by (simp add: vrna_pf_def Let_def)
    from vrna_pf_passes_Inl_qm1 [OF res [unfolded Inl]] assms(2) show ?thesis
      unfolding pf by auto
  next
    case (Inr a)
    obtain vc2 lg2 where a: "a = (vc2, lg2)" by (cases a)
    have pf: "vrna_pf env (Some vc) structure = Inr (vrna_pf_finish env (vc_length ?p) structure vc2 lg2)"
      using res Inr a by (simp add: vrna_pf_def Let_def)
    have f2: "same_frame ?p vc2"
      using res Inr a by (auto intro: vrna_pf_passes_frame)
    obtain vc' where vc':
      "ret_vc (vrna_pf_finish env (vc_length ?p) structure vc2 lg2) = Some vc'"
      "same_frame vc2 vc'"
      "mx_q (vc_exp_matrices vc') = mx_q (vc_exp_matrices vc2)"
      "mx_qb (vc_exp_matrices vc') = mx_qb (vc_exp_matrices vc2)"
      "mx_qm (vc_exp_matrices vc') = mx_qm (vc_exp_matrices vc2)"
      "mx_qo (vc_exp_matrices vc') = mx_qo (vc_exp_matrices vc2)"
      "ret_free_energy (vrna_pf_finish env (vc_length ?p) structure vc2 lg2) =
         c_divide
           (c_times (c_minus (c_uminus (c_log (vrna_pf_Q vc2 (vc_length ?p))))
                       (c_times (Finite (real_of_int (vc_length ?p))) (c_log (ep_pf_scale (vc_exp_params vc2)))))
              (Finite (ep_kT (vc_exp_params vc2))))
           (Finite (if vc_type vc2 = VRNA_VC_TYPE_ALIGNMENT then 1000 * real_of_int (vc_n_seq vc2) else 1000))"
      by (rule vrna_pf_finish_props)
    note g2 = same_frame_fields [OF f2]
    note g' = same_frame_fields [OF vc'(2)]
    let ?Q = "if md_backtrack_type (ep_model_details (vc_exp_params vc')) = CHR ''C''
              then mx_qb (vc_exp_matrices vc') (vc_iindx vc' 1 - vc_length vc')
              else if md_backtrack_type (ep_model_details (vc_exp_params vc')) = CHR ''M''
              then mx_qm (vc_exp_matrices vc') (vc_iindx vc' 1 - vc_length vc')
              else if md_circ (ep_model_details (vc_exp_params vc')) \<noteq> 0 then mx_qo (vc_exp_matrices vc')
              else mx_q (vc_exp_matrices vc') (vc_iindx vc' 1 - vc_length vc')"
    let ?R = "vrna_pf_finish env (vc_length ?p) structure vc2 lg2"
    have Q: "vrna_pf_Q vc2 (vc_length ?p) = ?Q"
      by (simp add: vrna_pf_Q_def Let_def vc' g' g2)
    have ty: "vc_type vc' = vc_type ?p" and len: "vc_length vc' = vc_length ?p"
      by (simp_all add: g' g2)
    have e: "ret_free_energy ?R =
         c_divide
           (c_times (c_minus (c_uminus (c_log ?Q))
                       (c_times (Finite (real_of_int (vc_length vc'))) (c_log (ep_pf_scale (vc_exp_params vc')))))
              (Finite (ep_kT (vc_exp_params vc'))))
           (Finite (if vc_type vc' = VRNA_VC_TYPE_ALIGNMENT then 1000 * real_of_int (vc_n_seq vc') else 1000))"
      unfolding Q [symmetric] by (simp add: vc'(7) g' g2)
    note s = free_energy_summary [OF e]
    show ?thesis
      apply (rule disjI2)
      apply (rule exI [of _ ?R])
      apply (rule exI [of _ vc'])
      unfolding Let_def
      apply (intro conjI)
             apply (rule pf)
            apply (rule vc'(1))
           apply (rule ty)
          apply (rule len)
         apply (rule e)
        apply (rule s(1))
       apply (rule s(2))
      apply (rule s(3))
      done
  qed
qed

theorem vrna_pf_free_energy_witness:
  "vc_type (vrna_fold_compound_prepare example_env (example_pf VRNA_VC_TYPE_SINGLE 1 (CHR ''F''))) = VRNA_VC_TYPE_SINGLE
   \<and> md_circ (ep_model_details (vc_exp_params
         (vrna_fold_compound_prepare example_env (example_pf VRNA_VC_TYPE_SINGLE 1 (CHR ''F''))))) \<noteq> 0
   \<and> mx_qm1 (vc_exp_matrices
         (vrna_fold_compound_prepare example_env (example_pf VRNA_VC_TYPE_SINGLE 1 (CHR ''F'')))) \<noteq> None
   \<and> (\<exists>r. vrna_pf example_env (Some (example_pf VRNA_VC_TYPE_SINGLE 1 (CHR ''F''))) None = Inr r
        \<and> ret_free_energy r = Finite ((- ln 2 - 2) * 10 / 1000))
   \<and> (\<exists>r. vrna_pf example_env (Some (example_pf VRNA_VC_TYPE_SINGLE 0 (CHR ''F''))) None = Inr r
        \<and> ret_free_energy r = Finite ((- ln 2 - 2) * 10 / 1000))
   \<and> (\<exists>r. vrna_pf example_env (Some (example_pf VRNA_VC_TYPE_SINGLE 0 (CHR ''C''))) None = Inr r
        \<and> ret_free_energy r = Finite ((- ln 1 - 2) * 10 / 1000))
   \<and> (\<exists>r. vrna_pf example_env (Some (example_pf VRNA_VC_TYPE_SINGLE 0 (CHR ''M''))) None = Inr r
        \<and> ret_free_energy r = Finite ((- ln 1 - 2) * 10 / 1000))
   \<and> (\<exists>r. vrna_pf example_env (Some (example_pf VRNA_VC_TYPE_ALIGNMENT 0 (CHR ''F''))) None = Inr r
        \<and> ret_free_energy r = Finite ((- ln 2 - 2) * 10 / 1000 / 2))
   \<and> (\<exists>r. vrna_pf example_env (Some example_unpairable) None = Inr r
        \<and> ret_free_energy r = PlusInf)"
  using vrna_pf_free_energy [of example_env "example_pf VRNA_VC_TYPE_SINGLE 1 (CHR ''F'')" None]
    vrna_pf_free_energy [of example_env "example_pf VRNA_VC_TYPE_SINGLE 0 (CHR ''C'')" None]
    vrna_pf_free_energy [of example_env "example_pf VRNA_VC_TYPE_ALIGNMENT 0 (CHR ''F'')" None]
    vrna_pf_free_energy [of example_env example_unpairable None]
  by (simp add: example_pf_def example_unpairable_def eval_pf eval_circ eval_lin eval_ali c_log_def
      cong: eval_congs)

text \<open>
  C9. For a fold compound whose type, as read after the preparation, is neither the
  single-sequence nor the alignment variant, \<open>vrna_pf\<close> warns and returns the preset
  \<open>INF/100\<close>; the compound it leaves behind is exactly the prepared one, so no matrix is
  filled or changed beyond what the preparation did (the first status call, if a callback
  is set, has been made by then).
\<close>

theorem vrna_pf_unrecognized:
  assumes "vc_type (vrna_fold_compound_prepare env vc) = VRNA_VC_TYPE_unrecognized t"
  shows "vrna_pf env (Some vc) structure
     = Inr \<lparr>ret_free_energy = Finite (real_of_int (c_INF env) / 100),
            ret_vc = Some (vrna_fold_compound_prepare env vc),
            ret_structure = structure,
            ret_log = stat_cb (vrna_fold_compound_prepare env vc) VRNA_STATUS_PF_PRE []
                      @ [Warning ''vrna_pf@part_func.c: Unrecognized fold compound type'']\<rparr>"
  using assms by (simp add: vrna_pf_def vrna_pf_passes_def Let_def)


theorem vrna_pf_unrecognized_witness:
  "vc_type (vrna_fold_compound_prepare example_env (example_vc (VRNA_VC_TYPE_unrecognized 2) 1 0 0))
     = VRNA_VC_TYPE_unrecognized 2
   \<and> vrna_pf example_env (Some (example_vc (VRNA_VC_TYPE_unrecognized 2) 1 0 0)) None
     = Inr \<lparr>ret_free_energy = Finite 100000,
            ret_vc = Some (example_vc (VRNA_VC_TYPE_unrecognized 2) 1 0 0),
            ret_structure = None,
            ret_log = [Status_callback VRNA_STATUS_PF_PRE,
                       Warning ''vrna_pf@part_func.c: Unrecognized fold compound type'']\<rparr>"
  using vrna_pf_unrecognized [of example_env "example_vc (VRNA_VC_TYPE_unrecognized 2) 1 0 0" 2 None]
  by (simp add: example_env_sel example_vc_sel stat_cb_def)


text \<open>
  C10. With a \<open>NULL\<close> fold compound \<open>vrna_pf\<close> returns the preset \<open>INF/100\<close> at once:
  nothing is logged (no status call, no warning), and there is no compound to read or
  write.
\<close>

theorem vrna_pf_null:
  "vrna_pf env None structure
     = Inr \<lparr>ret_free_energy = Finite (real_of_int (c_INF env) / 100), ret_vc = None,
            ret_structure = structure, ret_log = []\<rparr>"
  by (simp add: vrna_pf_def)

text \<open>
  C4. In both linear passes, with \<open>temp\<close> the freshly computed \<open>q(i,j)\<close>: when \<open>temp\<close>
  reaches or exceeds \<open>max_real\<close> the interval ends the pass with the fatal error that names
  \<open>(i,j)\<close>, and otherwise the pass goes on (with the running maximum brought up to date);
  the warning for \<open>(i,j)\<close> and \<open>temp\<close> is logged exactly when \<open>temp\<close> is a new running
  maximum above \<open>max_real/10\<close>, and it never ends the pass by itself.
\<close>

theorem overflow_fatal_near_overflow_warned:
  "(let temp = pf_linear_q_temp env i j (pf_linear_upto_qq env i j s);
        r = pf_linear_cell env j i s
    in (max_real env \<le> temp \<longrightarrow> (\<exists>lg. r = Inl (Overflow_in_pf_fold i j, lg)))
       \<and> (temp < max_real env \<longrightarrow> (\<exists>s'. r = Inr s' \<and> st_Qmax s' = max (st_Qmax s) temp))
       \<and> (st_Qmax s < temp \<and> max_real env / 10 < temp \<longrightarrow>
            result_log r = st_log s @ [Warning_Q_close_to_overflow i j temp])
       \<and> (\<not> (st_Qmax s < temp \<and> max_real env / 10 < temp) \<longrightarrow> result_log r = st_log s))
   \<and> (let temp = alipf_linear_q_temp env i j (alipf_linear_upto_qq env i j s);
            r = alipf_linear_cell env j i s
        in (max_real env \<le> temp \<longrightarrow> (\<exists>lg. r = Inl (Overflow_in_pf_fold i j, lg)))
           \<and> (temp < max_real env \<longrightarrow> (\<exists>s'. r = Inr s' \<and> st_Qmax s' = max (st_Qmax s) temp))
           \<and> (st_Qmax s < temp \<and> max_real env / 10 < temp \<longrightarrow>
                result_log r = st_log s @ [Warning_Q_close_to_overflow i j temp])
           \<and> (\<not> (st_Qmax s < temp \<and> max_real env / 10 < temp) \<longrightarrow> result_log r = st_log s))"
proof -
  note a = overflow_check_cases [of env "pf_linear_q_temp env i j (pf_linear_upto_qq env i j s)" i j
      "pf_linear_stored env i j s", unfolded pf_linear_stored_scalars]
  note b = overflow_check_cases [of env "alipf_linear_q_temp env i j (alipf_linear_upto_qq env i j s)" i j
      "alipf_linear_stored env i j s", unfolded alipf_linear_stored_scalars]
  show ?thesis
    unfolding Let_def pf_linear_cell_def alipf_linear_cell_def
    using a b by blast
qed


theorem overflow_fatal_near_overflow_warned_witness:
  "pf_linear_cell example_env 2 1 (pf_linear_init example_env (example_scaled VRNA_VC_TYPE_SINGLE 512) [])
     = Inl (Overflow_in_pf_fold 1 2, [Warning_Q_close_to_overflow 1 2 (2 ^ 1024 + 1)])
   \<and> (\<exists>s'. pf_linear_cell example_env 2 1 (pf_linear_init example_env (example_scaled VRNA_VC_TYPE_SINGLE 511) []) = Inr s'
          \<and> st_log s' = [Warning_Q_close_to_overflow 1 2 (2 ^ 1022 + 1)] \<and> st_Qmax s' = 2 ^ 1022 + 1)
   \<and> alipf_linear_cell example_env 2 1 (alipf_linear_init (example_scaled VRNA_VC_TYPE_ALIGNMENT 512) [])
     = Inl (Overflow_in_pf_fold 1 2, [Warning_Q_close_to_overflow 1 2 (2 ^ 1024 + 1)])"
proof -
  let ?A = "pf_linear_init example_env (example_scaled VRNA_VC_TYPE_SINGLE 512) []"
  let ?B = "pf_linear_init example_env (example_scaled VRNA_VC_TYPE_SINGLE 511) []"
  let ?C = "alipf_linear_init (example_scaled VRNA_VC_TYPE_ALIGNMENT 512) []"
  have tA: "pf_linear_q_temp example_env 1 2 (pf_linear_upto_qq example_env 1 2 ?A) = 2 ^ 1024 + 1"
    by (simp add: eval_lin example_scaled_sel cong: eval_congs)
  have tB: "pf_linear_q_temp example_env 1 2 (pf_linear_upto_qq example_env 1 2 ?B) = 2 ^ 1022 + 1"
    by (simp add: eval_lin example_scaled_sel cong: eval_congs)
  have tC: "alipf_linear_q_temp example_env 1 2 (alipf_linear_upto_qq example_env 1 2 ?C) = 2 ^ 1024 + 1"
    by (simp add: eval_ali example_scaled_sel cong: eval_congs)
  have i: "st_Qmax ?A = 0" "st_log ?A = []" "st_Qmax ?B = 0" "st_log ?B = []" "st_Qmax ?C = 0" "st_log ?C = []"
    by (simp_all add: pf_linear_init_def alipf_linear_init_def Let_def)
  have m: "max_real example_env \<le> 2 ^ 1024 + 1" "max_real example_env / 10 < 2 ^ 1024 + 1"
    "2 ^ 1022 + 1 < max_real example_env" "max_real example_env / 10 < 2 ^ 1022 + 1"
    by (simp_all add: example_env_sel)
  have A: "\<exists>lg. pf_linear_cell example_env 2 1 ?A = Inl (Overflow_in_pf_fold 1 2, lg)"
    "result_log (pf_linear_cell example_env 2 1 ?A) = [Warning_Q_close_to_overflow 1 2 (2 ^ 1024 + 1)]"
    using overflow_fatal_near_overflow_warned [of example_env 1 2 ?A, THEN conjunct1] m
    unfolding Let_def tA i by simp_all
  have B: "\<exists>s'. pf_linear_cell example_env 2 1 ?B = Inr s' \<and> st_Qmax s' = max 0 (2 ^ 1022 + 1)"
    "result_log (pf_linear_cell example_env 2 1 ?B) = [Warning_Q_close_to_overflow 1 2 (2 ^ 1022 + 1)]"
    using overflow_fatal_near_overflow_warned [of example_env 1 2 ?B, THEN conjunct1] m
    unfolding Let_def tB i by simp_all
  have C: "\<exists>lg. alipf_linear_cell example_env 2 1 ?C = Inl (Overflow_in_pf_fold 1 2, lg)"
    "result_log (alipf_linear_cell example_env 2 1 ?C) = [Warning_Q_close_to_overflow 1 2 (2 ^ 1024 + 1)]"
    using overflow_fatal_near_overflow_warned [of example_env 1 2 ?C, THEN conjunct2] m
    unfolding Let_def tC i by simp_all
  from A B C show ?thesis
    by (auto simp: result_log_def)
qed

text \<open>
  C7. When a column \<open>j\<close> of either linear pass has been processed, the helper arrays have
  been exchanged and nothing else: the store of the arrays is the one the inner loop left
  (no copy, no new allocation), \<open>qqm1\<close> points to the array that was \<open>qqm\<close> throughout
  the column and \<open>qqm\<close> to the former \<open>qqm1\<close>, and likewise \<open>qq1\<close> and \<open>qq\<close>; so at
  every position \<open>qqm1\<close> holds the \<open>qqm\<close> value of column \<open>j\<close> and \<open>qq1\<close> its \<open>qq\<close>
  value.
\<close>

theorem rolling_buffers_exchanged:
  "(pf_linear_column env j s = Inr s' \<longrightarrow>
      (\<exists>t. pf_linear_inner env j s = Inr t
           \<and> st_qq t = st_qq s \<and> st_qq1 t = st_qq1 s \<and> st_qqm t = st_qqm s \<and> st_qqm1 t = st_qqm1 s
           \<and> st_heap s' = st_heap t
           \<and> st_qqm1 s' = st_qqm t \<and> st_qqm s' = st_qqm1 t
           \<and> st_qq1 s' = st_qq t \<and> st_qq s' = st_qq1 t
           \<and> (\<forall>i. rd (st_heap s') (st_qqm1 s') i = rd (st_heap t) (st_qqm t) i)
           \<and> (\<forall>i. rd (st_heap s') (st_qq1 s') i = rd (st_heap t) (st_qq t) i)))
   \<and> (alipf_linear_column env j s = Inr s' \<longrightarrow>
      (\<exists>t. alipf_linear_inner env j s = Inr t
           \<and> st_qq t = st_qq s \<and> st_qq1 t = st_qq1 s \<and> st_qqm t = st_qqm s \<and> st_qqm1 t = st_qqm1 s
           \<and> st_heap s' = st_heap t
           \<and> st_qqm1 s' = st_qqm t \<and> st_qqm s' = st_qqm1 t
           \<and> st_qq1 s' = st_qq t \<and> st_qq s' = st_qq1 t
           \<and> (\<forall>i. rd (st_heap s') (st_qqm1 s') i = rd (st_heap t) (st_qqm t) i)
           \<and> (\<forall>i. rd (st_heap s') (st_qq1 s') i = rd (st_heap t) (st_qq t) i)))"
proof (intro conjI impI)
  assume c: "pf_linear_column env j s = Inr s'"
  then obtain t where t: "pf_linear_inner env j s = Inr t" and s': "s' = rotate_ud (swap_buffers t)"
    by (auto simp: pf_linear_column_def split: sum.splits)
  from pf_linear_inner_rel [OF t]
  have p: "st_qq t = st_qq s" "st_qq1 t = st_qq1 s" "st_qqm t = st_qqm s" "st_qqm1 t = st_qqm1 s"
    by (simp_all add: cell_rel_def same_pointers_def)
  show "\<exists>t. pf_linear_inner env j s = Inr t
           \<and> st_qq t = st_qq s \<and> st_qq1 t = st_qq1 s \<and> st_qqm t = st_qqm s \<and> st_qqm1 t = st_qqm1 s
           \<and> st_heap s' = st_heap t
           \<and> st_qqm1 s' = st_qqm t \<and> st_qqm s' = st_qqm1 t
           \<and> st_qq1 s' = st_qq t \<and> st_qq s' = st_qq1 t
           \<and> (\<forall>i. rd (st_heap s') (st_qqm1 s') i = rd (st_heap t) (st_qqm t) i)
           \<and> (\<forall>i. rd (st_heap s') (st_qq1 s') i = rd (st_heap t) (st_qq t) i)"
    by (rule exI [of _ t]) (simp add: t p s' rotate_ud_fields swap_buffers_fields)
next
  assume c: "alipf_linear_column env j s = Inr s'"
  then obtain t where t: "alipf_linear_inner env j s = Inr t" and s': "s' = swap_buffers t"
    by (auto simp: alipf_linear_column_def split: sum.splits)
  from alipf_linear_inner_rel [OF t]
  have p: "st_qq t = st_qq s" "st_qq1 t = st_qq1 s" "st_qqm t = st_qqm s" "st_qqm1 t = st_qqm1 s"
    by (simp_all add: cell_rel_def same_pointers_def)
  show "\<exists>t. alipf_linear_inner env j s = Inr t
           \<and> st_qq t = st_qq s \<and> st_qq1 t = st_qq1 s \<and> st_qqm t = st_qqm s \<and> st_qqm1 t = st_qqm1 s
           \<and> st_heap s' = st_heap t
           \<and> st_qqm1 s' = st_qqm t \<and> st_qqm s' = st_qqm1 t
           \<and> st_qq1 s' = st_qq t \<and> st_qq s' = st_qq1 t
           \<and> (\<forall>i. rd (st_heap s') (st_qqm1 s') i = rd (st_heap t) (st_qqm t) i)
           \<and> (\<forall>i. rd (st_heap s') (st_qq1 s') i = rd (st_heap t) (st_qq t) i)"
    by (rule exI [of _ t]) (simp add: t p s' swap_buffers_fields)
qed

theorem rolling_buffers_exchanged_witness:
  "(\<exists>s'. pf_linear_column example_env 2 (pf_linear_init example_env (example_vc VRNA_VC_TYPE_SINGLE 2 0 0) []) = Inr s'
        \<and> st_qqm s' = 3 \<and> st_qqm1 s' = 2 \<and> st_qq s' = 1 \<and> st_qq1 s' = 0
        \<and> rd (st_heap s') (st_qqm1 s') 1 = 1 \<and> rd (st_heap s') (st_qq1 s') 1 = 1)
   \<and> (\<exists>s'. alipf_linear_column example_env 2 (alipf_linear_init (example_vc VRNA_VC_TYPE_ALIGNMENT 2 0 0) []) = Inr s'
        \<and> st_qqm s' = 3 \<and> st_qqm1 s' = 2 \<and> st_qq s' = 1 \<and> st_qq1 s' = 0
        \<and> rd (st_heap s') (st_qqm1 s') 1 = 1 \<and> rd (st_heap s') (st_qq1 s') 1 = 1)"
proof -
  let ?A = "pf_linear_init example_env (example_vc VRNA_VC_TYPE_SINGLE 2 0 0) []"
  let ?B = "alipf_linear_init (example_vc VRNA_VC_TYPE_ALIGNMENT 2 0 0) []"
  have "\<exists>t. pf_linear_inner example_env 2 ?A = Inr t
          \<and> rd (st_heap t) (st_qqm t) 1 = 1 \<and> rd (st_heap t) (st_qq t) 1 = 1"
    by (simp add: eval_lin cong: eval_congs)
  then obtain t where t: "pf_linear_inner example_env 2 ?A = Inr t"
    "rd (st_heap t) (st_qqm t) 1 = 1" "rd (st_heap t) (st_qq t) 1 = 1"
    by blast
  have pA: "st_qq ?A = 0" "st_qq1 ?A = 1" "st_qqm ?A = 2" "st_qqm1 ?A = 3"
    by (simp_all add: pf_linear_init_def Let_def)
  have cA: "pf_linear_column example_env 2 ?A = Inr (rotate_ud (swap_buffers t))"
    by (simp add: pf_linear_column_def t)
  from rolling_buffers_exchanged [of example_env 2 ?A "rotate_ud (swap_buffers t)", THEN conjunct1,
      rule_format, OF cA] t pA
  have A: "\<exists>s'. pf_linear_column example_env 2 ?A = Inr s'
        \<and> st_qqm s' = 3 \<and> st_qqm1 s' = 2 \<and> st_qq s' = 1 \<and> st_qq1 s' = 0
        \<and> rd (st_heap s') (st_qqm1 s') 1 = 1 \<and> rd (st_heap s') (st_qq1 s') 1 = 1"
    by (intro exI [of _ "rotate_ud (swap_buffers t)"]) (auto simp: cA)
  have "\<exists>u. alipf_linear_inner example_env 2 ?B = Inr u
          \<and> rd (st_heap u) (st_qqm u) 1 = 1 \<and> rd (st_heap u) (st_qq u) 1 = 1"
    by (simp add: eval_ali cong: eval_congs)
  then obtain u where u: "alipf_linear_inner example_env 2 ?B = Inr u"
    "rd (st_heap u) (st_qqm u) 1 = 1" "rd (st_heap u) (st_qq u) 1 = 1"
    by blast
  have pB: "st_qq ?B = 0" "st_qq1 ?B = 1" "st_qqm ?B = 2" "st_qqm1 ?B = 3"
    by (simp_all add: alipf_linear_init_def Let_def)
  have cB: "alipf_linear_column example_env 2 ?B = Inr (swap_buffers u)"
    by (simp add: alipf_linear_column_def u)
  from rolling_buffers_exchanged [of example_env 2 ?B "swap_buffers u", THEN conjunct2,
      rule_format, OF cB] u pB
  have B: "\<exists>s'. alipf_linear_column example_env 2 ?B = Inr s'
        \<and> st_qqm s' = 3 \<and> st_qqm1 s' = 2 \<and> st_qq s' = 1 \<and> st_qq1 s' = 0
        \<and> rd (st_heap s') (st_qqm1 s') 1 = 1 \<and> rd (st_heap s') (st_qq1 s') 1 = 1"
    by (intro exI [of _ "swap_buffers u"]) (auto simp: cB)
  from A B show ?thesis by blast
qed

text \<open>
  C2, as stated, fails: when the soft constraints carry the callback \<open>exp_f\<close>, every split
  term \<open>q(i,k) * qq(k+1)\<close> is multiplied by \<open>exp_f(i, j, k, k+1, VRNA_DECOMP_EXT_EXT_EXT)\<close>
  as well. On the example with such a callback (value 2 for exterior splits), the pass
  reaches the interval \<open>(1,3)\<close> with \<open>qq(1) = 2\<close>, the unpaired weight 1 and the plain
  split sum 1, and stores \<open>q(1,3) = 5\<close>, not 4.
\<close>

theorem q_exterior_counterexample:
  "\<not> isl (pf_linear_column example_env 2 (pf_linear_init example_env example_sc_f []))
   \<and> \<not> isl (pf_linear_cell example_env 3 2
              (projr (pf_linear_column example_env 2 (pf_linear_init example_env example_sc_f []))))
   \<and> (let t = pf_linear_stored example_env 1 3 example_sc_f_state;
           q = mx_q (vc_exp_matrices (st_vc t));
           qq = st_heap t (st_qq t);
           unpaired = mx_scale (vc_exp_matrices (st_vc t)) 3 * sc_up (vc_sc (st_vc t)) 1 3
                      * sc_f (vc_sc (st_vc t)) 1 3 1 3 VRNA_DECOMP_EXT_UP
       in hc_up_ext (vc_hc (st_vc t)) 1 \<ge> 3
          \<and> q (vc_iindx example_sc_f 1 - 3) = 5
          \<and> qq 1 = 2 \<and> unpaired = 1
          \<and> (\<Sum>k = 1..2. q (vc_iindx example_sc_f 1 - k) * qq (k + 1)) = 1
          \<and> q (vc_iindx example_sc_f 1 - 3)
              \<noteq> qq 1 + unpaired + (\<Sum>k = 1..2. q (vc_iindx example_sc_f 1 - k) * qq (k + 1)))"
  by (simp add: example_sc_f_state_def eval_lin example_sc_f_sel sum_upto_small sc_up_def sc_f_def
      cong: eval_congs)


text \<open>
  C2, amended. For every interval \<open>(i,j)\<close> that the single-sequence linear pass processes,
  the value stored to \<open>q(i,j)\<close> is \<open>qq(i)\<close>, plus (only if \<open>hc_up_ext[i] >= j-i+1\<close>) the
  weight \<open>scale[j-i+1]\<close> of the unpaired interval times its soft-constraint and ligand
  factors, plus the sum over every split point \<open>k\<close> in \<open>[i, j-1]\<close> of
  \<open>q(i,k) * qq(k+1)\<close> times the value of the soft-constraint callback for that split
  (1 when there is no callback). Here \<open>q\<close> and \<open>qq\<close> are read in the state that holds
  the stored value; the same holds in the state the interval leaves behind when the pass
  goes on.
\<close>

theorem q_exterior_decomposition:
  "(let vc = st_vc s;
        u = pf_linear_upto_qq env i j s;
        t = pf_linear_stored env i j s;
        q = mx_q (vc_exp_matrices (st_vc t));
        qq = st_heap t (st_qq t)
    in q (vc_iindx vc i - j)
       = qq i
         + (if hc_up_ext (vc_hc vc) i \<ge> j - i + 1
            then mx_scale (vc_exp_matrices (st_vc u)) (j - i + 1) * sc_up (vc_sc vc) i (j - i + 1)
                 * sc_f (vc_sc vc) i j i j VRNA_DECOMP_EXT_UP
                 * (if with_ud (st_vc u)
                    then ud_exp_energy_cb env (st_vc u) i j {VRNA_UNSTRUCTURED_DOMAIN_EXT_LOOP} else 1)
            else 0)
         + (\<Sum>k = i..j - 1. q (vc_iindx vc i - k) * qq (k + 1)
                              * sc_f (vc_sc vc) i j k (k + 1) VRNA_DECOMP_EXT_EXT_EXT)
       \<and> (\<forall>s'. pf_linear_cell env j i s = Inr s'
              \<longrightarrow> mx_q (vc_exp_matrices (st_vc s')) = q \<and> st_heap s' (st_qq s') = qq))"
proof -
  let ?u = "pf_linear_upto_qq env i j s"
  let ?t = "pf_linear_stored env i j s"
  note f = same_frame_fields [of "st_vc s" "st_vc ?u"]
  have r: "same_frame (st_vc s) (st_vc ?u)" "same_pointers s ?u"
    using pf_linear_upto_qq_rel [of s env i j] by (simp_all add: cell_rel_def)
  have s: "(\<Sum>k = i..j - 1. mx_q (vc_exp_matrices (st_vc ?t)) (vc_iindx (st_vc s) i - k)
                            * st_heap ?u (st_qq ?u) (k + 1)
                            * sc_f (vc_sc (st_vc s)) i j k (k + 1) VRNA_DECOMP_EXT_EXT_EXT)
         = (\<Sum>k = i..j - 1. mx_q (vc_exp_matrices (st_vc ?u)) (vc_iindx (st_vc s) i - k)
                            * st_heap ?u (st_qq ?u) (k + 1)
                            * sc_f (vc_sc (st_vc s)) i j k (k + 1) VRNA_DECOMP_EXT_EXT_EXT)"
    by (rule sum.cong) (simp_all add: pf_linear_stored_q)
  have c: "pf_linear_cell env j i s = Inr s' \<Longrightarrow>
             mx_q (vc_exp_matrices (st_vc s')) = mx_q (vc_exp_matrices (st_vc ?t))
             \<and> st_heap s' (st_qq s') = st_heap ?t (st_qq ?t)" for s'
    using pf_linear_cell_Inr [of env j i s s'] pf_linear_stored_rel [of s env i j]
    by (simp add: cell_rel_def same_pointers_def)
  show ?thesis
    unfolding Let_def
    using c
    by (simp add: pf_linear_stored_q s pf_linear_q_temp_eq ext_unpaired_eq f [OF r(1)])
qed

theorem q_exterior_decomposition_witness:
  "mx_q (vc_exp_matrices (st_vc (pf_linear_stored example_env 1 3 example_sc_f_state)))
     (vc_iindx example_sc_f 1 - 3) = 2 + 1 + (1 * 1 * 2 + 2 * 0 * 2)
   \<and> (\<exists>s'. pf_linear_cell example_env 3 1 example_sc_f_state = Inr s'
          \<and> mx_q (vc_exp_matrices (st_vc s')) (vc_iindx example_sc_f 1 - 3) = 5)"
  using q_exterior_decomposition [of example_sc_f_state example_env 1 3]
  by (simp add: example_sc_f_state_def eval_lin example_sc_f_sel sum_upto_small sc_up_def sc_f_def
      cong: eval_congs)

text \<open>
  C3, as stated, fails for the alignment pass, which is one of its two sources: there the
  sum of the three loop weights is multiplied by \<open>exp(psc/kTn)\<close> before it is stored. On
  the alignment example with covariance score 1 and \<open>kT = 10\<close> the pair \<open>(1,2)\<close> is
  allowed, the three weights add up to 1, and \<open>qb(1,2)\<close> is \<open>exp 1\<close>.
\<close>

theorem qb_alignment_counterexample:
  "hc_matrix (vc_hc (st_vc (alipf_linear_init example_pscore []))) (vc_jindx example_pscore 2 + 1) \<noteq> 0
   \<and> mx_qb (vc_exp_matrices (st_vc (alipf_linear_stored example_env 1 2 (alipf_linear_init example_pscore []))))
        (vc_iindx example_pscore 1 - 2) = exp 1
   \<and> vrna_exp_E_hp_loop example_env (st_vc (alipf_linear_init example_pscore [])) 1 2
       + vrna_exp_E_int_loop example_env (st_vc (alipf_linear_init example_pscore [])) 1 2
       + vrna_exp_E_mb_loop_fast example_env (st_vc (alipf_linear_init example_pscore [])) 1 2
           (st_heap (alipf_linear_init example_pscore []) (st_qqm1 (alipf_linear_init example_pscore []))) = 1
   \<and> exp 1 \<noteq> (1::real)"
  by (simp add: eval_ali example_pscore_sel cong: eval_congs)


text \<open>
  C3, amended. For every interval \<open>(i,j)\<close> that a linear pass processes, \<open>qb(i,j)\<close> is 0
  when the hard-constraint entry of \<open>(i,j)\<close> is zero. When it is not, \<open>qb(i,j)\<close> is in
  the single-sequence pass the sum of the hairpin weight, the interior-loop weight and the
  fast multiloop weight computed from the array \<open>qqm1\<close> of the previous column, and in
  the alignment pass that sum times \<open>exp(pscore(i,j)/kTn)\<close> with \<open>kTn = kT/10\<close>.
\<close>

theorem qb_three_contributions:
  "(let vc = st_vc s;
        qb = mx_qb (vc_exp_matrices (st_vc (pf_linear_stored env i j s))) (vc_iindx vc i - j)
    in qb = (if hc_matrix (vc_hc vc) (vc_jindx vc j + i) = 0 then 0
             else vrna_exp_E_hp_loop env vc i j + vrna_exp_E_int_loop env vc i j
                  + vrna_exp_E_mb_loop_fast env vc i j (st_heap s (st_qqm1 s)))
       \<and> (\<forall>s'. pf_linear_cell env j i s = Inr s'
              \<longrightarrow> mx_qb (vc_exp_matrices (st_vc s')) (vc_iindx vc i - j) = qb))
   \<and> (let vc = st_vc s;
            qb = mx_qb (vc_exp_matrices (st_vc (alipf_linear_stored env i j s))) (vc_iindx vc i - j)
        in qb = (if hc_matrix (vc_hc vc) (vc_jindx vc j + i) = 0 then 0
                 else (vrna_exp_E_hp_loop env vc i j + vrna_exp_E_int_loop env vc i j
                       + vrna_exp_E_mb_loop_fast env vc i j (st_heap s (st_qqm1 s)))
                      * exp (real_of_int (vc_pscore vc (vc_jindx vc j + i)) / (ep_kT (vc_exp_params vc) / 10)))
           \<and> (\<forall>s'. alipf_linear_cell env j i s = Inr s'
                  \<longrightarrow> mx_qb (vc_exp_matrices (st_vc s')) (vc_iindx vc i - j) = qb))"
  by (auto simp: Let_def pf_linear_stored_qb alipf_linear_stored_qb pf_linear_qbt1_def alipf_linear_qbt1_def
      pf_linear_cell_Inr(1) alipf_linear_cell_Inr(1))


theorem qb_three_contributions_witness:
  "mx_qb (vc_exp_matrices (st_vc (pf_linear_stored example_env 1 2
       (pf_linear_init example_env (example_vc VRNA_VC_TYPE_SINGLE 2 0 0) [])))) 2 = 1
   \<and> (\<exists>s'. pf_linear_cell example_env 2 1 (pf_linear_init example_env (example_vc VRNA_VC_TYPE_SINGLE 2 0 0) []) = Inr s'
          \<and> mx_qb (vc_exp_matrices (st_vc s')) 2 = 1)
   \<and> mx_qb (vc_exp_matrices (st_vc (alipf_linear_stored example_env 1 2 (alipf_linear_init example_pscore [])))) 2
       = exp 1
   \<and> (\<exists>s'. alipf_linear_cell example_env 2 1 (alipf_linear_init example_pscore []) = Inr s'
          \<and> mx_qb (vc_exp_matrices (st_vc s')) 2 = exp 1)"
proof -
  let ?A = "pf_linear_init example_env (example_vc VRNA_VC_TYPE_SINGLE 2 0 0) []"
  let ?B = "alipf_linear_init example_pscore []"
  note fA = same_frame_fields [OF pf_linear_init_frame [of "example_vc VRNA_VC_TYPE_SINGLE 2 0 0" example_env "[]"]]
  note fB = same_frame_fields [OF alipf_linear_init_frame [of example_pscore "[]"]]
  note tA = qb_three_contributions [of ?A example_env 1 2, THEN conjunct1, unfolded Let_def]
  note tB = qb_three_contributions [of ?B example_env 1 2, THEN conjunct2, unfolded Let_def]
  have A: "mx_qb (vc_exp_matrices (st_vc (pf_linear_stored example_env 1 2 ?A))) 2 = 1"
    using tA by (simp add: fA example_vc_sel example_env_sel)
  have B: "mx_qb (vc_exp_matrices (st_vc (alipf_linear_stored example_env 1 2 ?B))) 2 = exp 1"
    using tB by (simp add: fB example_pscore_sel example_env_sel)
  have "pf_linear_q_temp example_env 1 2 (pf_linear_upto_qq example_env 1 2 ?A) = 2"
    by (simp add: eval_lin cong: eval_congs)
  then have "pf_linear_q_temp example_env 1 2 (pf_linear_upto_qq example_env 1 2 ?A) < max_real example_env"
    by (simp add: example_env_sel)
  with overflow_check_cases [of env temp i j s for env temp i j s]
  obtain a where a: "pf_linear_cell example_env 2 1 ?A = Inr a"
    unfolding pf_linear_cell_def Let_def by blast
  have "alipf_linear_q_temp example_env 1 2 (alipf_linear_upto_qq example_env 1 2 ?B) = exp 1 + 1"
    by (simp add: eval_ali example_pscore_sel cong: eval_congs)
  with exp_le
  have "alipf_linear_q_temp example_env 1 2 (alipf_linear_upto_qq example_env 1 2 ?B) < max_real example_env"
    by (simp add: example_env_sel)
  with overflow_check_cases [of env temp i j s for env temp i j s]
  obtain b where b: "alipf_linear_cell example_env 2 1 ?B = Inr b"
    unfolding alipf_linear_cell_def Let_def by blast
  from tA a A have A': "mx_qb (vc_exp_matrices (st_vc a)) 2 = 1"
    by (simp add: fA example_vc_sel)
  from tB b B have B': "mx_qb (vc_exp_matrices (st_vc b)) 2 = exp 1"
    by (simp add: fB example_pscore_sel)
  from A B a b A' B' show ?thesis by blast
qed

text \<open>
  C5, as stated, fails for the alignment pass: \<open>wrap_alipf_circ\<close> adds the weight of the
  open chain only \<open>if(hc->up_ext[1] >= n)\<close>. On the alignment example of length 5 whose
  hard constraints do not let position 1 be unpaired in the exterior loop, the linear pass
  followed by the circular pass stores \<open>qho = qio = qmo = 0\<close> and \<open>qo = 0\<close>, while
  \<open>scale[5] = 1\<close>.
\<close>

theorem circular_total_counterexample:
  "\<exists>vc1 lg1 vc' lg'.
     alipf_linear example_env example_paired_start [] = Inr (vc1, lg1)
     \<and> wrap_alipf_circ example_env vc1 lg1 = Inr (vc', lg')
     \<and> vc_length vc' = 5
     \<and> hc_up_ext (vc_hc vc') 1 = 0
     \<and> mx_qho (vc_exp_matrices vc') = 0
     \<and> mx_qio (vc_exp_matrices vc') = 0
     \<and> mx_qmo (vc_exp_matrices vc') = 0
     \<and> mx_scale (vc_exp_matrices vc') 5 = 1
     \<and> mx_qo (vc_exp_matrices vc') = 0
     \<and> mx_qo (vc_exp_matrices vc')
          \<noteq> mx_qho (vc_exp_matrices vc') + mx_qio (vc_exp_matrices vc') + mx_qmo (vc_exp_matrices vc')
              + mx_scale (vc_exp_matrices vc') 5
     \<and> \<not> mx_scale (vc_exp_matrices vc') 5 \<le> mx_qo (vc_exp_matrices vc')"
  by (simp add: example_paired_start_def eval_circ eval_ali cong: eval_congs)


text \<open>
  C5, amended. Each circular pass runs through when \<open>qm1\<close> is there (and also without it
  when the compound is too short for the loop that reads it). After the single-sequence
  pass \<open>qo = qho + qio + qmo + scale[n]\<close>, always. After the alignment pass \<open>qo\<close> is
  \<open>qho + qio + qmo\<close>, plus \<open>scale[n]\<close> exactly when \<open>hc->up_ext[1] >= n\<close>. The pass leaves
  \<open>scale\<close> alone. With weights and matrices that are not negative, \<open>qho\<close>, \<open>qio\<close> and
  \<open>qmo\<close> are not negative, so \<open>qo >= scale[n]\<close> in the single-sequence pass, whatever the
  constraints, and in the alignment pass \<open>qo\<close> is at least the open-chain term that was
  added; and when \<open>qb\<close> and \<open>qm\<close> are zero everywhere the three parts are 0 and \<open>qo\<close> is
  that term.
\<close>

theorem circular_total:
  "(mx_qm1 (vc_exp_matrices vc) \<noteq> None
      \<or> vc_length vc < 2 * md_min_loop_size (ep_model_details (vc_exp_params vc)) + 4 \<longrightarrow>
      (\<exists>vc'. pf_circ env vc lg = Inr (vc', lg)
         \<and> (let M = vc_exp_matrices vc'; n = vc_length vc
            in mx_qo M = mx_qho M + mx_qio M + mx_qmo M + mx_scale M n
               \<and> mx_scale M = mx_scale (vc_exp_matrices vc)
               \<and> (nonneg_weights env \<and> nonneg_matrices vc \<longrightarrow>
                    0 \<le> mx_qho M \<and> 0 \<le> mx_qio M \<and> 0 \<le> mx_qmo M \<and> mx_scale M n \<le> mx_qo M)
               \<and> ((\<forall>k. mx_qb (vc_exp_matrices vc) k = 0) \<and> (\<forall>k. mx_qm (vc_exp_matrices vc) k = 0)
                    \<longrightarrow> mx_qho M = 0 \<and> mx_qio M = 0 \<and> mx_qmo M = 0 \<and> mx_qo M = mx_scale M n))))
   \<and> (mx_qm1 (vc_exp_matrices vc) \<noteq> None \<or> vc_length vc < 2 * TURN env + 4 \<longrightarrow>
      (\<exists>vc'. wrap_alipf_circ env vc lg = Inr (vc', lg)
         \<and> (let M = vc_exp_matrices vc'; n = vc_length vc;
                open_chain = (if hc_up_ext (vc_hc vc) 1 \<ge> n then mx_scale M n else 0)
            in mx_qo M = mx_qho M + mx_qio M + mx_qmo M + open_chain
               \<and> mx_scale M = mx_scale (vc_exp_matrices vc)
               \<and> (nonneg_weights env \<and> nonneg_matrices vc \<and> nonneg_scs vc \<longrightarrow>
                    0 \<le> mx_qho M \<and> 0 \<le> mx_qio M \<and> 0 \<le> mx_qmo M \<and> open_chain \<le> mx_qo M)
               \<and> ((\<forall>k. mx_qb (vc_exp_matrices vc) k = 0) \<and> (\<forall>k. mx_qm (vc_exp_matrices vc) k = 0)
                    \<longrightarrow> mx_qho M = 0 \<and> mx_qio M = 0 \<and> mx_qmo M = 0 \<and> mx_qo M = open_chain))))"
proof (intro conjI impI)
  let ?qm1 = "mx_qm1 (vc_exp_matrices vc)"
  assume "?qm1 \<noteq> None \<or> vc_length vc < 2 * md_min_loop_size (ep_model_details (vc_exp_params vc)) + 4"
  then obtain vc1 where q: "pf_circ_qm2 vc ?qm1 = Inr vc1"
    using pf_circ_qm2_total by blast
  note f = only_qm2_fields [OF pf_circ_qm2_only [OF q]]
  note r = pf_circ_result [OF q, of env lg]
  have n: "0 \<le> fst (pf_circ_pairs env vc1) \<and> 0 \<le> snd (pf_circ_pairs env vc1) \<and> 0 \<le> pf_circ_qmo vc1"
    if w: "nonneg_weights env" and m: "nonneg_matrices vc"
  proof -
    have "0 \<le> mx_qm2 (vc_exp_matrices vc1) k" for k
      using q [unfolded pf_circ_qm2_def Let_def]
      by (rule qm2_nonneg) (use m in \<open>auto simp: nonneg_matrices_def\<close>)
    then have "0 \<le> pf_circ_qmo vc1"
      by (intro pf_circ_qmo_nonneg) (use m in \<open>auto simp: nonneg_matrices_def f\<close>)
    moreover have "0 \<le> fst (pf_circ_pairs env vc1) \<and> 0 \<le> snd (pf_circ_pairs env vc1)"
      by (rule pf_circ_pairs_nonneg [OF w]) (use m in \<open>auto simp: nonneg_matrices_def f\<close>)
    ultimately show ?thesis by simp
  qed
  have z: "pf_circ_pairs env vc1 = (0, 0) \<and> pf_circ_qmo vc1 = 0"
    if "\<forall>k. mx_qb (vc_exp_matrices vc) k = 0" "\<forall>k. mx_qm (vc_exp_matrices vc) k = 0"
    using that by (simp add: pf_circ_pairs_zero pf_circ_qmo_zero f)
  show "\<exists>vc'. pf_circ env vc lg = Inr (vc', lg)
         \<and> (let M = vc_exp_matrices vc'; n = vc_length vc
            in mx_qo M = mx_qho M + mx_qio M + mx_qmo M + mx_scale M n
               \<and> mx_scale M = mx_scale (vc_exp_matrices vc)
               \<and> (nonneg_weights env \<and> nonneg_matrices vc \<longrightarrow>
                    0 \<le> mx_qho M \<and> 0 \<le> mx_qio M \<and> 0 \<le> mx_qmo M \<and> mx_scale M n \<le> mx_qo M)
               \<and> ((\<forall>k. mx_qb (vc_exp_matrices vc) k = 0) \<and> (\<forall>k. mx_qm (vc_exp_matrices vc) k = 0)
                    \<longrightarrow> mx_qho M = 0 \<and> mx_qio M = 0 \<and> mx_qmo M = 0 \<and> mx_qo M = mx_scale M n))"
    unfolding r Let_def using n z by (auto simp: set_mx f)
next
  let ?qm1 = "mx_qm1 (vc_exp_matrices vc)"
  assume "?qm1 \<noteq> None \<or> vc_length vc < 2 * TURN env + 4"
  then obtain vc1 where q: "alipf_circ_qm2 env vc ?qm1 = Inr vc1"
    using alipf_circ_qm2_total by blast
  note f = only_qm2_fields [OF alipf_circ_qm2_only [OF q]]
  note r = wrap_alipf_circ_result [OF q, of lg]
  have n: "0 \<le> fst (alipf_circ_pairs env vc1) \<and> 0 \<le> snd (alipf_circ_pairs env vc1)
           \<and> 0 \<le> alipf_circ_qmo env vc1"
    if w: "nonneg_weights env" and m: "nonneg_matrices vc" and c: "nonneg_scs vc"
  proof -
    have "0 \<le> mx_qm2 (vc_exp_matrices vc1) k" for k
      using q [unfolded alipf_circ_qm2_def]
      by (rule qm2_nonneg) (use m in \<open>auto simp: nonneg_matrices_def\<close>)
    then have "0 \<le> alipf_circ_qmo env vc1"
      by (intro alipf_circ_qmo_nonneg) (use m in \<open>auto simp: nonneg_matrices_def f\<close>)
    moreover have "nonneg_scs vc1"
      using c by (simp add: nonneg_scs_def f)
    then have "0 \<le> fst (alipf_circ_pairs env vc1) \<and> 0 \<le> snd (alipf_circ_pairs env vc1)"
      by (intro alipf_circ_pairs_nonneg [OF w]) (use m in \<open>auto simp: nonneg_matrices_def f\<close>)
    ultimately show ?thesis by simp
  qed
  have z: "alipf_circ_pairs env vc1 = (0, 0) \<and> alipf_circ_qmo env vc1 = 0"
    if "\<forall>k. mx_qb (vc_exp_matrices vc) k = 0" "\<forall>k. mx_qm (vc_exp_matrices vc) k = 0"
    using that by (simp add: alipf_circ_pairs_zero alipf_circ_qmo_zero f)
  show "\<exists>vc'. wrap_alipf_circ env vc lg = Inr (vc', lg)
         \<and> (let M = vc_exp_matrices vc'; n = vc_length vc;
                open_chain = (if hc_up_ext (vc_hc vc) 1 \<ge> n then mx_scale M n else 0)
            in mx_qo M = mx_qho M + mx_qio M + mx_qmo M + open_chain
               \<and> mx_scale M = mx_scale (vc_exp_matrices vc)
               \<and> (nonneg_weights env \<and> nonneg_matrices vc \<and> nonneg_scs vc \<longrightarrow>
                    0 \<le> mx_qho M \<and> 0 \<le> mx_qio M \<and> 0 \<le> mx_qmo M \<and> open_chain \<le> mx_qo M)
               \<and> ((\<forall>k. mx_qb (vc_exp_matrices vc) k = 0) \<and> (\<forall>k. mx_qm (vc_exp_matrices vc) k = 0)
                    \<longrightarrow> mx_qho M = 0 \<and> mx_qio M = 0 \<and> mx_qmo M = 0 \<and> mx_qo M = open_chain))"
    unfolding r Let_def using n z by (auto simp: set_mx f)
qed

theorem circular_total_witness:
  "(\<exists>vc1 lg1 vc'. pf_linear example_env (example_vc VRNA_VC_TYPE_SINGLE 2 0 1) [] = Inr (vc1, lg1)
        \<and> pf_circ example_env vc1 lg1 = Inr (vc', lg1)
        \<and> mx_qm1 (vc_exp_matrices vc1) \<noteq> None
        \<and> nonneg_weights example_env \<and> nonneg_matrices vc1
        \<and> mx_qho (vc_exp_matrices vc') = 1 \<and> mx_qio (vc_exp_matrices vc') = 0
        \<and> mx_qmo (vc_exp_matrices vc') = 0 \<and> mx_qo (vc_exp_matrices vc') = 2
        \<and> mx_scale (vc_exp_matrices vc') 2 = 1
        \<and> mx_scale (vc_exp_matrices vc') 2 \<le> mx_qo (vc_exp_matrices vc'))
   \<and> (\<exists>vc'. pf_circ example_env example_no_qm1 [] = Inr (vc', [])
        \<and> mx_qm1 (vc_exp_matrices example_no_qm1) = None
        \<and> vc_length example_no_qm1 < 2 * md_min_loop_size (ep_model_details (vc_exp_params example_no_qm1)) + 4
        \<and> mx_qo (vc_exp_matrices vc') = 1 \<and> mx_scale (vc_exp_matrices vc') 2 = 1)
   \<and> (\<exists>vc'. wrap_alipf_circ example_env (example_vc VRNA_VC_TYPE_ALIGNMENT 5 3 1) [] = Inr (vc', [])
        \<and> hc_up_ext (vc_hc (example_vc VRNA_VC_TYPE_ALIGNMENT 5 3 1)) 1 \<ge> 5
        \<and> mx_qho (vc_exp_matrices vc') = 0 \<and> mx_qio (vc_exp_matrices vc') = 0
        \<and> mx_qmo (vc_exp_matrices vc') = 0 \<and> mx_qo (vc_exp_matrices vc') = 1)"
proof -
  let ?B = "example_vc VRNA_VC_TYPE_ALIGNMENT 5 3 1"
  have "\<exists>vc1 lg1 vc'. pf_linear example_env (example_vc VRNA_VC_TYPE_SINGLE 2 0 1) [] = Inr (vc1, lg1)
        \<and> pf_circ example_env vc1 lg1 = Inr (vc', lg1)
        \<and> mx_qm1 (vc_exp_matrices vc1) \<noteq> None
        \<and> nonneg_matrices vc1
        \<and> vc_length vc1 = 2
        \<and> mx_qho (vc_exp_matrices vc') = 1 \<and> mx_qio (vc_exp_matrices vc') = 0
        \<and> mx_qmo (vc_exp_matrices vc') = 0 \<and> mx_qo (vc_exp_matrices vc') = 2
        \<and> mx_scale (vc_exp_matrices vc') 2 = 1"
    by (simp add: nonneg_matrices_def eval_pf eval_circ eval_lin cong: eval_congs)
  then obtain vc1 lg1 a where a: "pf_linear example_env (example_vc VRNA_VC_TYPE_SINGLE 2 0 1) [] = Inr (vc1, lg1)"
    "pf_circ example_env vc1 lg1 = Inr (a, lg1)" "mx_qm1 (vc_exp_matrices vc1) \<noteq> None"
    "nonneg_matrices vc1" "vc_length vc1 = 2"
    "mx_qho (vc_exp_matrices a) = 1" "mx_qio (vc_exp_matrices a) = 0"
    "mx_qmo (vc_exp_matrices a) = 0" "mx_qo (vc_exp_matrices a) = 2" "mx_scale (vc_exp_matrices a) 2 = 1"
    by blast
  from circular_total [of vc1 example_env lg1, THEN conjunct1] a(2,3,4,5) example_env_nonneg
  have "mx_scale (vc_exp_matrices a) 2 \<le> mx_qo (vc_exp_matrices a)"
    by (auto simp: Let_def)
  with a example_env_nonneg have A: "\<exists>vc1 lg1 vc'.
        pf_linear example_env (example_vc VRNA_VC_TYPE_SINGLE 2 0 1) [] = Inr (vc1, lg1)
        \<and> pf_circ example_env vc1 lg1 = Inr (vc', lg1)
        \<and> mx_qm1 (vc_exp_matrices vc1) \<noteq> None
        \<and> nonneg_weights example_env \<and> nonneg_matrices vc1
        \<and> mx_qho (vc_exp_matrices vc') = 1 \<and> mx_qio (vc_exp_matrices vc') = 0
        \<and> mx_qmo (vc_exp_matrices vc') = 0 \<and> mx_qo (vc_exp_matrices vc') = 2
        \<and> mx_scale (vc_exp_matrices vc') 2 = 1
        \<and> mx_scale (vc_exp_matrices vc') 2 \<le> mx_qo (vc_exp_matrices vc')"
    by blast
  have nC: "mx_qm1 (vc_exp_matrices example_no_qm1) = None"
    "vc_length example_no_qm1 = 2"
    "md_min_loop_size (ep_model_details (vc_exp_params example_no_qm1)) = 0"
    "\<forall>k. mx_qb (vc_exp_matrices example_no_qm1) k = 0" "\<forall>k. mx_qm (vc_exp_matrices example_no_qm1) k = 0"
    "mx_scale (vc_exp_matrices example_no_qm1) 2 = 1"
    by (simp_all add: example_no_qm1_def example_vc_sel)
  from circular_total [of example_no_qm1 example_env "[]", THEN conjunct1] nC
  have C: "\<exists>vc'. pf_circ example_env example_no_qm1 [] = Inr (vc', [])
        \<and> mx_qm1 (vc_exp_matrices example_no_qm1) = None
        \<and> vc_length example_no_qm1 < 2 * md_min_loop_size (ep_model_details (vc_exp_params example_no_qm1)) + 4
        \<and> mx_qo (vc_exp_matrices vc') = 1 \<and> mx_scale (vc_exp_matrices vc') 2 = 1"
    by (auto simp: Let_def)
  have nB: "mx_qm1 (vc_exp_matrices ?B) \<noteq> None" "vc_length ?B = 5"
    "\<forall>k. mx_qb (vc_exp_matrices ?B) k = 0" "\<forall>k. mx_qm (vc_exp_matrices ?B) k = 0"
    "mx_scale (vc_exp_matrices ?B) 5 = 1" "hc_up_ext (vc_hc ?B) 1 \<ge> 5"
    by (simp_all add: example_vc_sel)
  from circular_total [of ?B example_env "[]", THEN conjunct2] nB
  have B: "\<exists>vc'. wrap_alipf_circ example_env ?B [] = Inr (vc', [])
        \<and> hc_up_ext (vc_hc ?B) 1 \<ge> 5
        \<and> mx_qho (vc_exp_matrices vc') = 0 \<and> mx_qio (vc_exp_matrices vc') = 0
        \<and> mx_qmo (vc_exp_matrices vc') = 0 \<and> mx_qo (vc_exp_matrices vc') = 1"
    by (auto simp: Let_def)
  from A C B show ?thesis by blast
qed


text \<open>
  C6. The claim asks for the bound of the linear pass in the sum that defines \<open>qm2\<close>.
  \<open>pf_circ\<close> has it (\<open>pf_circ_qm2_entry\<close>); \<open>wrap_alipf_circ\<close> has the constant
  \<open>TURN\<close> in its place (\<open>alipf_circ_qm2_entry\<close>). On the circular alignment example of
  length 6 with \<open>min_loop_size = 1\<close>, and \<open>TURN = 3\<close>, \<open>vrna_pf\<close> runs the linear pass
  with the bound 1, which gives \<open>qm1(1,3) = qm1(4,6) = 1\<close>, so that at \<open>k = 1\<close> the sum
  over the split points \<open>u\<close> from \<open>k + 1 + 1 = 3\<close> to \<open>n - 1 - 2 = 3\<close> is 1; the circular
  pass lets \<open>u\<close> run from 5 to 1 and stores \<open>qm2(1) = 0\<close>.
\<close>

theorem alignment_qm2_fixed_turn:
  "\<exists>r vc' qm1.
     vrna_pf example_env (Some (example_vc VRNA_VC_TYPE_ALIGNMENT 6 1 1)) None = Inr r
     \<and> ret_vc r = Some vc'
     \<and> mx_qm1 (vc_exp_matrices vc') = Some qm1
     \<and> vc_length vc' = 6
     \<and> md_min_loop_size (ep_model_details (vc_exp_params vc')) = 1
     \<and> TURN example_env = 3
     \<and> qm1 (vc_jindx vc' 3 + 1) = 1
     \<and> qm1 (vc_jindx vc' 6 + 4) = 1
     \<and> (\<Sum>u = 1 + 1 + 1..6 - 1 - 2. qm1 (vc_jindx vc' u + 1) * qm1 (vc_jindx vc' 6 + (u + 1))) = 1
     \<and> mx_qm2 (vc_exp_matrices vc') 1 = 0"
  by (simp add: eval_pf eval_circ eval_ali cong: eval_congs)

end
